theory Spec2Isabelle
  imports Complex_Main "HOL-Library.Word" "HOL-Library.AList"
begin

unbundle bit_operations_syntax

section \<open>Numbers, vectors and matrices\<close>

text \<open>
  A \<open>float\<close> of the source is modelled by the real number it denotes. Every arithmetic
  operation of the source rounds its exact result; the rounding function is the field
  \<open>rnd\<close> of the record \<open>Lib\<close> below and is left arbitrary, so that every result holds for
  each rounding mode. Literals that single precision represents exactly (\<open>5.0f\<close>,
  \<open>150.0f\<close>, \<open>0.25f\<close>, \<open>0.5f\<close>, \<open>1.0f\<close>) are written as they are, the others
  (\<open>0.2f\<close>, \<open>0.05f\<close>, \<open>0.1f\<close>, \<open>0.02f\<close>) under \<open>rnd\<close>. NaN and the infinities are not
  modelled.

  \<open>UINT\<close> values are natural numbers reduced modulo \<open>2 ^ 32\<close> where the source computes
  them; \<open>int\<close> counters and window coordinates are integers (window coordinates are 16-bit
  quantities, their differences cannot overflow).
\<close>

type_synonym XMFLOAT2 = "real \<times> real"
type_synonym XMFLOAT3 = "real \<times> real \<times> real"
type_synonym XMFLOAT4 = "real \<times> real \<times> real \<times> real"
type_synonym XMFLOAT4X4 = "XMFLOAT4 \<times> XMFLOAT4 \<times> XMFLOAT4 \<times> XMFLOAT4"

definition to_UINT :: "nat \<Rightarrow> nat" where
  "to_UINT n = n mod 2 ^ 32"

text \<open>Conversion of a \<open>UINT\<close> value to the 32-bit \<open>INT\<close> of two's complement.\<close>

definition to_INT :: "nat \<Rightarrow> int" where
  "to_INT n = (if n mod 2 ^ 32 < 2 ^ 31 then int (n mod 2 ^ 32) else int (n mod 2 ^ 32) - 2 ^ 32)"

text \<open>\<open>MathHelper::Identity4x4\<close>.\<close>

definition Identity4x4 :: XMFLOAT4X4 where
  "Identity4x4 = ((1, 0, 0, 0), (0, 1, 0, 0), (0, 0, 1, 0), (0, 0, 0, 1))"

text \<open>The elements \<open>M(3, 0)\<close> and \<open>M(3, 1)\<close> of a matrix, read and written.\<close>

fun M30 :: "XMFLOAT4X4 \<Rightarrow> real" where
  "M30 (r0, r1, r2, (a, b, c, d)) = a"

fun M31 :: "XMFLOAT4X4 \<Rightarrow> real" where
  "M31 (r0, r1, r2, (a, b, c, d)) = b"

fun set_M30 :: "real \<Rightarrow> XMFLOAT4X4 \<Rightarrow> XMFLOAT4X4" where
  "set_M30 v (r0, r1, r2, (a, b, c, d)) = (r0, r1, r2, (v, b, c, d))"

fun set_M31 :: "real \<Rightarrow> XMFLOAT4X4 \<Rightarrow> XMFLOAT4X4" where
  "set_M31 v (r0, r1, r2, (a, b, c, d)) = (r0, r1, r2, (a, v, c, d))"

text \<open>
  The services of DirectXMath and of the C runtime that the two applications call. They
  are outside the repository and are parameters of the model.
\<close>

record Lib =
  rnd :: "real \<Rightarrow> real"
  sinf :: "real \<Rightarrow> real"
  cosf :: "real \<Rightarrow> real"
  XMConvertToRadians :: "real \<Rightarrow> real"
  XMMatrixTranspose :: "XMFLOAT4X4 \<Rightarrow> XMFLOAT4X4"
  XMMatrixMultiply :: "XMFLOAT4X4 \<Rightarrow> XMFLOAT4X4 \<Rightarrow> XMFLOAT4X4"
  XMMatrixInverse :: "XMFLOAT4X4 \<Rightarrow> XMFLOAT4X4"
  XMMatrixLookAtLH :: "XMFLOAT4 \<Rightarrow> XMFLOAT4 \<Rightarrow> XMFLOAT4 \<Rightarrow> XMFLOAT4X4"
  XMMatrixScaling :: "real \<Rightarrow> real \<Rightarrow> real \<Rightarrow> XMFLOAT4X4"
  XMMatrixTranslation :: "real \<Rightarrow> real \<Rightarrow> real \<Rightarrow> XMFLOAT4X4"
  XMMatrixRotationY :: "real \<Rightarrow> XMFLOAT4X4"
  XMVector3Normalize :: "XMFLOAT3 \<Rightarrow> XMFLOAT3"


definition XM_PIDIV2 :: "Lib \<Rightarrow> real" where
  "XM_PIDIV2 X = rnd X 1.570796327"

text \<open>
  Modelled from the spec: \<open>MathHelper::Clamp\<close> is declared in \<open>Common/MathHelper.h\<close>, which
  is not among the sources. The spec has the radius "clamped to [rMin, rMax]" and "pinned
  at the bound": a value below the lower bound becomes the lower bound, a value above the
  upper bound becomes the upper bound, any other value is kept.
\<close>

definition Clamp :: "real \<Rightarrow> real \<Rightarrow> real \<Rightarrow> real" where
  "Clamp x low high = (if x < low then low else if x > high then high else x)"



section \<open>The orbit camera\<close>

record OrbitState =
  mTheta :: real
  mPhi :: real
  mRadius :: real
  mLastMousePos :: "int \<times> int"






text \<open>An instance of the library for evaluating the model: exact arithmetic.\<close>

definition ExactLib :: Lib where
  "ExactLib =
     \<lparr>rnd = (\<lambda>x. x), sinf = (\<lambda>x. 0), cosf = (\<lambda>x. 1),
      XMConvertToRadians = (\<lambda>d. d * 3.1415926535 / 180),
      XMMatrixTranspose =
        (\<lambda>((a0, a1, a2, a3), (b0, b1, b2, b3), (c0, c1, c2, c3), (d0, d1, d2, d3)).
           ((a0, b0, c0, d0), (a1, b1, c1, d1), (a2, b2, c2, d2), (a3, b3, c3, d3))),
      XMMatrixMultiply = (\<lambda>a b. a),
      XMMatrixInverse = (\<lambda>a. a),
      XMMatrixLookAtLH = (\<lambda>p t u. Identity4x4),
      XMMatrixScaling = (\<lambda>x y z. ((x, 0, 0, 0), (0, y, 0, 0), (0, 0, z, 0), (0, 0, 0, 1))),
      XMMatrixTranslation =
        (\<lambda>x y z. ((1, 0, 0, 0), (0, 1, 0, 0), (0, 0, 1, 0), (x, y, z, 1))),
      XMMatrixRotationY = (\<lambda>a. Identity4x4),
      XMVector3Normalize = (\<lambda>v. v)\<rparr>"

section \<open>Faults\<close>

text \<open>
  What stops a function of the source before it returns: the dereference of a null
  pointer, an access outside an array or buffer, a failed \<open>assert\<close>, and the wait on a
  fence that the device has not reached (\<open>WaitForSingleObject\<close> with \<open>INFINITE\<close> does not
  return before the event is set).
\<close>

datatype fault = NullDereference | OutOfBounds | AssertionFailed | WaitingForFence

definition bindE :: "fault + 'a \<Rightarrow> ('a \<Rightarrow> fault + 'b) \<Rightarrow> fault + 'b" where
  "bindE m f = (case m of Inl e \<Rightarrow> Inl e | Inr v \<Rightarrow> f v)"

section \<open>Data model\<close>

text \<open>
  A pointer to a \<open>RenderItem\<close> is a \<open>handle\<close>, the identity of the object that
  \<open>make_unique\<close> created. A pointer to a \<open>Material\<close> or to a \<open>MeshGeometry\<close> is the key of
  the object in \<open>mMaterials\<close> or \<open>mGeometries\<close>, the maps that own them. An
  \<open>ID3D12Resource\<close> is known by its identity, and a GPU virtual address is a resource
  with a byte offset into it.
\<close>

type_synonym handle = nat
type_synonym resource = nat
type_synonym D3D12_GPU_VIRTUAL_ADDRESS = "resource \<times> nat"

definition gNumFrameResources :: nat where
  "gNumFrameResources = 3"

record ObjectConstants =
  World :: XMFLOAT4X4
  TexTransform :: XMFLOAT4X4

record MaterialConstants =
  DiffuseAlbedo :: XMFLOAT4
  FresnelR0 :: XMFLOAT3
  Roughness :: real
  MatTransform :: XMFLOAT4X4

record Light =
  Strength :: XMFLOAT3
  Direction :: XMFLOAT3

record PassConstants =
  View :: XMFLOAT4X4
  InvView :: XMFLOAT4X4
  Proj :: XMFLOAT4X4
  InvProj :: XMFLOAT4X4
  ViewProj :: XMFLOAT4X4
  InvViewProj :: XMFLOAT4X4
  EyePosW :: XMFLOAT3
  RenderTargetSize :: XMFLOAT2
  InvRenderTargetSize :: XMFLOAT2
  NearZ :: real
  FarZ :: real
  TotalTime :: real
  DeltaTime :: real
  AmbientLight :: XMFLOAT4
  FogColor :: XMFLOAT4
  Lights :: "Light list"

record GameTimer =
  TotalTime :: real
  DeltaTime :: real

text \<open>The vertex and the mesh of \<open>GeometryGenerator\<close>, with 32-bit indices.\<close>

record GenVertex =
  Position :: XMFLOAT3
  Normal :: XMFLOAT3
  TangentU :: XMFLOAT3
  TexC :: XMFLOAT2

record MeshData =
  Vertices :: "GenVertex list"
  Indices32 :: "nat list"

record Vertex =
  Pos :: XMFLOAT3
  Normal :: XMFLOAT3
  TexC :: XMFLOAT2

record TreeSpriteVertex =
  Pos :: XMFLOAT3
  Size :: XMFLOAT2

text \<open>The vertex of \<open>MyCastleApp\<close>: a position and a colour.\<close>

record ColorVertex =
  Pos :: XMFLOAT3
  Color :: XMFLOAT4

datatype VertexData =
  StdVertices "Vertex list" | SpriteVertices "TreeSpriteVertex list" | ColorVertices "ColorVertex list"

datatype DXGI_FORMAT = DXGI_FORMAT_UNKNOWN | DXGI_FORMAT_R16_UINT

datatype D3D12_PRIMITIVE_TOPOLOGY =
  D3D_PRIMITIVE_TOPOLOGY_TRIANGLELIST | D3D_PRIMITIVE_TOPOLOGY_POINTLIST

record SubmeshGeometry =
  IndexCount :: nat
  StartIndexLocation :: nat
  BaseVertexLocation :: int

record MeshGeometry =
  Name :: string
  VertexBufferCPU :: "VertexData option"
  IndexBufferCPU :: "nat list"
  VertexBufferGPU :: "resource option"
  IndexBufferGPU :: "resource option"
  VertexByteStride :: nat
  VertexBufferByteSize :: nat
  IndexFormat :: DXGI_FORMAT
  IndexBufferByteSize :: nat
  DrawArgs :: "(string \<times> SubmeshGeometry) list"

record Material =
  Name :: string
  MatCBIndex :: nat
  DiffuseSrvHeapIndex :: nat
  NumFramesDirty :: int
  DiffuseAlbedo :: XMFLOAT4
  FresnelR0 :: XMFLOAT3
  Roughness :: real
  MatTransform :: XMFLOAT4X4

record RenderItem =
  World :: XMFLOAT4X4
  TexTransform :: XMFLOAT4X4
  NumFramesDirty :: int
  ObjCBIndex :: nat
  Mat :: string
  Geo :: string
  PrimitiveType :: D3D12_PRIMITIVE_TOPOLOGY
  IndexCount :: nat
  StartIndexLocation :: nat
  BaseVertexLocation :: int

datatype RenderLayer = Opaque | Transparent | AlphaTested | AlphaTestedTreeSprites

text \<open>The value of a layer as the index of its bucket, \<open>(int)RenderLayer::X\<close>.\<close>

fun layer_index :: "RenderLayer \<Rightarrow> nat" where
  "layer_index Opaque = 0"
| "layer_index Transparent = 1"
| "layer_index AlphaTested = 2"
| "layer_index AlphaTestedTreeSprites = 3"

text \<open>The commands that \<open>Draw\<close> records into the command list.\<close>

datatype Command =
  Reset string
| RSSetViewports
| RSSetScissorRects
| ResourceBarrier_Present_to_RenderTarget nat
| ClearRenderTargetView nat XMFLOAT4
| ClearDepthStencilView
| OMSetRenderTargets nat
| SetDescriptorHeaps
| SetGraphicsRootSignature
| SetGraphicsRootConstantBufferView nat D3D12_GPU_VIRTUAL_ADDRESS
| SetGraphicsRootDescriptorTable nat nat
| SetPipelineState string
| IASetVertexBuffers D3D12_GPU_VIRTUAL_ADDRESS nat nat
| IASetIndexBuffer D3D12_GPU_VIRTUAL_ADDRESS DXGI_FORMAT nat
| IASetPrimitiveTopology D3D12_PRIMITIVE_TOPOLOGY
| DrawIndexedInstanced nat nat nat int nat
| ResourceBarrier_RenderTarget_to_Present nat
| Close

datatype QueueOp = ExecuteCommandLists "Command list" | Present | Signal nat

text \<open>
  An \<open>UploadBuffer\<close> is its resource and the elements of its mapped memory.

  Modelled from the spec: \<open>UploadBuffer::CopyData\<close> is declared in
  \<open>Common/UploadBuffer.h\<close>, which is not among the sources. The spec has the update phase
  put the data of an entity "into its ring-slot's object constant array at its fixed slot
  index": the element at the index is overwritten and no other. An index outside the
  buffer is a fault.
\<close>

record 'a UploadBuffer =
  Resource :: resource
  mMappedData :: "'a list"

definition CopyData :: "nat \<Rightarrow> 'a \<Rightarrow> 'a UploadBuffer \<Rightarrow> fault + 'a UploadBuffer" where
  "CopyData elementIndex data b =
     (if elementIndex < length (mMappedData b)
      then Inr (b\<lparr>mMappedData := (mMappedData b)[elementIndex := data]\<rparr>)
      else Inl OutOfBounds)"

record FrameResource =
  CmdListAlloc :: "Command list"
  PassCB :: "PassConstants UploadBuffer"
  ObjectCB :: "ObjectConstants UploadBuffer"
  MaterialCB :: "MaterialConstants UploadBuffer"
  WavesVB :: "Vertex UploadBuffer"
  Fence :: nat

text \<open>
  The class \<open>Waves\<close> (\<open>Waves.h\<close>) is not among the sources. Its state is the type
  parameter \<open>'w\<close> and its member functions are the fields of this record.
\<close>

record 'w WavesAPI =
  RowCount :: "'w \<Rightarrow> nat"
  ColumnCount :: "'w \<Rightarrow> nat"
  VertexCount :: "'w \<Rightarrow> nat"
  TriangleCount :: "'w \<Rightarrow> nat"
  Width :: "'w \<Rightarrow> real"
  Depth :: "'w \<Rightarrow> real"
  Position :: "'w \<Rightarrow> nat \<Rightarrow> XMFLOAT3"
  WNormal :: "'w \<Rightarrow> nat \<Rightarrow> XMFLOAT3"
  Disturb :: "'w \<Rightarrow> int \<Rightarrow> int \<Rightarrow> real \<Rightarrow> 'w"
  WUpdate :: "'w \<Rightarrow> real \<Rightarrow> 'w"

text \<open>
  What one frame receives from outside the program: the value that
  \<open>mFence->GetCompletedValue()\<close> returns, the value the fence has when the event of
  \<open>SetEventOnCompletion\<close> fires (read only if the program waits), and what the two
  calls of \<open>MathHelper::Rand\<close> and the call of \<open>MathHelper::RandF\<close> return, each as a
  function of the two bounds it is called with (read only if a wave is generated).
  \<open>MathHelper\<close> is not among the sources.
\<close>

record FrameEnv =
  gpuCompleted :: nat
  gpuOnWake :: nat
  randI :: "int \<Rightarrow> int \<Rightarrow> int"
  randJ :: "int \<Rightarrow> int \<Rightarrow> int"
  randR :: "real \<Rightarrow> real \<Rightarrow> real"

text \<open>
  The state of \<open>TreeBillboardsApp\<close>. \<open>mCurrFrameResource\<close> is the index of the frame
  resource it points to, \<open>None\<close> for \<open>nullptr\<close>. \<open>t_base\<close> is the static local of
  \<open>UpdateWaves\<close>. The members after it are those of the base class \<open>D3DApp\<close> that the
  two functions \<open>Update\<close> and \<open>Draw\<close> use; \<open>mFence\<close> is the completed value of the
  fence as the program has last learnt it.
\<close>

record 'w TreeBillboardsApp = OrbitState +
  mFrameResources :: "FrameResource list"
  mCurrFrameResource :: "nat option"
  mCurrFrameResourceIndex :: nat
  mGeometries :: "(string \<times> MeshGeometry) list"
  mMaterials :: "(string \<times> Material) list"
  mWavesRitem :: "handle option"
  mAllRitems :: "(handle \<times> RenderItem) list"
  mRitemLayer :: "handle list list"
  mWaves :: 'w
  mMainPassCB :: PassConstants
  mEyePos :: XMFLOAT3
  mView :: XMFLOAT4X4
  mProj :: XMFLOAT4X4
  t_base :: real
  mTimer :: GameTimer
  mCurrentFence :: nat
  mFence :: nat
  mCommandQueue :: "QueueOp list"
  mCurrBackBuffer :: nat
  mClientWidth :: int
  mClientHeight :: int

text \<open>The frame resource that \<open>mCurrFrameResource\<close> points to.\<close>

definition CurrFrameResource :: "('w, 'a) TreeBillboardsApp_scheme \<Rightarrow> fault + nat" where
  "CurrFrameResource s =
     (case mCurrFrameResource s of
        None \<Rightarrow> Inl NullDereference
      | Some i \<Rightarrow> if i < length (mFrameResources s) then Inr i else Inl OutOfBounds)"

section \<open>The update phase\<close>

definition UpdateCamera :: "Lib \<Rightarrow> ('w, 'a) TreeBillboardsApp_scheme \<Rightarrow> ('w, 'a) TreeBillboardsApp_scheme" where
  "UpdateCamera X s =
     (let ex = rnd X (rnd X (mRadius s * sinf X (mPhi s)) * cosf X (mTheta s));
          ez = rnd X (rnd X (mRadius s * sinf X (mPhi s)) * sinf X (mTheta s));
          ey = rnd X (mRadius s * cosf X (mPhi s));
          pos = (ex, ey, ez, 1);
          target = (0, 0, 0, 0);
          up = (0, 1, 0, 0)
      in s\<lparr>mEyePos := (ex, ey, ez), mView := XMMatrixLookAtLH X pos target up\<rparr>)"

text \<open>What \<open>AnimateMaterials\<close> does to the water material it has looked up.\<close>

definition AnimateMaterials_water :: "Lib \<Rightarrow> GameTimer \<Rightarrow> Material \<Rightarrow> Material" where
  "AnimateMaterials_water X gt waterMat =
     (let tu = M30 (Material.MatTransform waterMat);
          tv = M31 (Material.MatTransform waterMat);
          tu1 = rnd X (tu + rnd X (rnd X 0.1 * GameTimer.DeltaTime gt));
          tv1 = rnd X (tv + rnd X (rnd X 0.02 * GameTimer.DeltaTime gt));
          tu2 = (if tu1 \<ge> 1 then rnd X (tu1 - 1) else tu1);
          tv2 = (if tv1 \<ge> 1 then rnd X (tv1 - 1) else tv1)
      in waterMat
           \<lparr>Material.MatTransform := set_M31 tv2 (set_M30 tu2 (Material.MatTransform waterMat)),
            Material.NumFramesDirty := int gNumFrameResources\<rparr>)"

definition AnimateMaterials ::
    "Lib \<Rightarrow> GameTimer \<Rightarrow> ('w, 'a) TreeBillboardsApp_scheme \<Rightarrow> fault + ('w, 'a) TreeBillboardsApp_scheme" where
  "AnimateMaterials X gt s =
     (case map_of (mMaterials s) ''water'' of
        None \<Rightarrow> Inl NullDereference
      | Some waterMat \<Rightarrow>
          Inr (s\<lparr>mMaterials :=
                   AList.update ''water'' (AnimateMaterials_water X gt waterMat) (mMaterials s)\<rparr>))"

definition objConstants :: "Lib \<Rightarrow> RenderItem \<Rightarrow> ObjectConstants" where
  "objConstants X e =
     \<lparr>ObjectConstants.World = XMMatrixTranspose X (RenderItem.World e),
      ObjectConstants.TexTransform = XMMatrixTranspose X (RenderItem.TexTransform e)\<rparr>"

text \<open>The loop of \<open>UpdateObjectCBs\<close> over \<open>mAllRitems\<close>.\<close>

fun UpdateObjectCBs_loop ::
    "Lib \<Rightarrow> ObjectConstants UploadBuffer \<Rightarrow> (handle \<times> RenderItem) list
     \<Rightarrow> fault + (ObjectConstants UploadBuffer \<times> (handle \<times> RenderItem) list)" where
  "UpdateObjectCBs_loop X currObjectCB [] = Inr (currObjectCB, [])"
| "UpdateObjectCBs_loop X currObjectCB ((h, e) # es) =
     (if RenderItem.NumFramesDirty e > 0 then
        bindE (CopyData (ObjCBIndex e) (objConstants X e) currObjectCB) (\<lambda>cb.
        bindE (UpdateObjectCBs_loop X cb es) (\<lambda>(cb', es').
        Inr (cb', (h, e\<lparr>RenderItem.NumFramesDirty := RenderItem.NumFramesDirty e - 1\<rparr>) # es')))
      else
        bindE (UpdateObjectCBs_loop X currObjectCB es) (\<lambda>(cb', es').
        Inr (cb', (h, e) # es')))"

definition UpdateObjectCBs ::
    "Lib \<Rightarrow> ('w, 'a) TreeBillboardsApp_scheme \<Rightarrow> fault + ('w, 'a) TreeBillboardsApp_scheme" where
  "UpdateObjectCBs X s =
     bindE (CurrFrameResource s) (\<lambda>i.
     bindE (UpdateObjectCBs_loop X (ObjectCB (mFrameResources s ! i)) (mAllRitems s)) (\<lambda>(cb, es).
     Inr (s\<lparr>mFrameResources := (mFrameResources s)[i := (mFrameResources s ! i)\<lparr>ObjectCB := cb\<rparr>],
            mAllRitems := es\<rparr>)))"

definition matConstants :: "Lib \<Rightarrow> Material \<Rightarrow> MaterialConstants" where
  "matConstants X mat =
     \<lparr>MaterialConstants.DiffuseAlbedo = Material.DiffuseAlbedo mat,
      MaterialConstants.FresnelR0 = Material.FresnelR0 mat,
      MaterialConstants.Roughness = Material.Roughness mat,
      MaterialConstants.MatTransform = XMMatrixTranspose X (Material.MatTransform mat)\<rparr>"

text \<open>
  The loop of \<open>UpdateMaterialCBs\<close> over \<open>mMaterials\<close>, an \<open>unordered_map\<close>: the list is
  the map in the order in which the loop visits it.
\<close>

fun UpdateMaterialCBs_loop ::
    "Lib \<Rightarrow> MaterialConstants UploadBuffer \<Rightarrow> (string \<times> Material) list
     \<Rightarrow> fault + (MaterialConstants UploadBuffer \<times> (string \<times> Material) list)" where
  "UpdateMaterialCBs_loop X currMaterialCB [] = Inr (currMaterialCB, [])"
| "UpdateMaterialCBs_loop X currMaterialCB ((k, mat) # es) =
     (if Material.NumFramesDirty mat > 0 then
        bindE (CopyData (MatCBIndex mat) (matConstants X mat) currMaterialCB) (\<lambda>cb.
        bindE (UpdateMaterialCBs_loop X cb es) (\<lambda>(cb', es').
        Inr (cb', (k, mat\<lparr>Material.NumFramesDirty := Material.NumFramesDirty mat - 1\<rparr>) # es')))
      else
        bindE (UpdateMaterialCBs_loop X currMaterialCB es) (\<lambda>(cb', es').
        Inr (cb', (k, mat) # es')))"

definition UpdateMaterialCBs ::
    "Lib \<Rightarrow> ('w, 'a) TreeBillboardsApp_scheme \<Rightarrow> fault + ('w, 'a) TreeBillboardsApp_scheme" where
  "UpdateMaterialCBs X s =
     bindE (CurrFrameResource s) (\<lambda>i.
     bindE (UpdateMaterialCBs_loop X (MaterialCB (mFrameResources s ! i)) (mMaterials s)) (\<lambda>(cb, es).
     Inr (s\<lparr>mFrameResources := (mFrameResources s)[i := (mFrameResources s ! i)\<lparr>MaterialCB := cb\<rparr>],
            mMaterials := es\<rparr>)))"

definition set_light :: "nat \<Rightarrow> XMFLOAT3 \<Rightarrow> XMFLOAT3 \<Rightarrow> Light list \<Rightarrow> Light list" where
  "set_light i dir str ls = ls[i := (ls ! i)\<lparr>Direction := dir, Strength := str\<rparr>]"

definition UpdateMainPassCB ::
    "Lib \<Rightarrow> GameTimer \<Rightarrow> ('w, 'a) TreeBillboardsApp_scheme \<Rightarrow> fault + ('w, 'a) TreeBillboardsApp_scheme" where
  "UpdateMainPassCB X gt s =
     (let view = mView s;
          proj = mProj s;
          viewProj = XMMatrixMultiply X view proj;
          invView = XMMatrixInverse X view;
          invProj = XMMatrixInverse X proj;
          invViewProj = XMMatrixInverse X viewProj;
          cb = (mMainPassCB s)
            \<lparr>View := XMMatrixTranspose X view,
             InvView := XMMatrixTranspose X invView,
             Proj := XMMatrixTranspose X proj,
             InvProj := XMMatrixTranspose X invProj,
             ViewProj := XMMatrixTranspose X viewProj,
             InvViewProj := XMMatrixTranspose X invViewProj,
             EyePosW := mEyePos s,
             RenderTargetSize := (rnd X (of_int (mClientWidth s)), rnd X (of_int (mClientHeight s))),
             InvRenderTargetSize :=
               (rnd X (1 / rnd X (of_int (mClientWidth s))),
                rnd X (1 / rnd X (of_int (mClientHeight s)))),
             NearZ := 1,
             FarZ := 1000,
             PassConstants.TotalTime := GameTimer.TotalTime gt,
             PassConstants.DeltaTime := GameTimer.DeltaTime gt,
             AmbientLight := (0.25, 0.25, rnd X 0.35, 1),
             Lights :=
               set_light 2 (0, rnd X (- 0.707), rnd X (- 0.707)) (rnd X 0.15, rnd X 0.15, rnd X 0.15)
                 (set_light 1 (rnd X (- 0.57735), rnd X (- 0.57735), rnd X 0.57735)
                    (rnd X 0.3, rnd X 0.3, rnd X 0.3)
                    (set_light 0 (rnd X 0.57735, rnd X (- 0.57735), rnd X 0.57735)
                       (rnd X 0.6, rnd X 0.6, rnd X 0.6)
                       (Lights (mMainPassCB s))))\<rparr>
      in bindE (CurrFrameResource s) (\<lambda>i.
         bindE (CopyData 0 cb (PassCB (mFrameResources s ! i))) (\<lambda>pcb.
         Inr (s\<lparr>mMainPassCB := cb,
                mFrameResources := (mFrameResources s)[i := (mFrameResources s ! i)\<lparr>PassCB := pcb\<rparr>]\<rparr>))))"

text \<open>The vertex that \<open>UpdateWaves\<close> builds for the grid point \<open>i\<close> of the waves.\<close>

definition wave_vertex :: "Lib \<Rightarrow> 'w WavesAPI \<Rightarrow> 'w \<Rightarrow> nat \<Rightarrow> Vertex" where
  "wave_vertex X W w i =
     (let p = Position W w i
      in \<lparr>Vertex.Pos = p, Vertex.Normal = WNormal W w i,
          Vertex.TexC =
            (rnd X (0.5 + rnd X (fst p / Width W w)),
             rnd X (0.5 - rnd X (snd (snd p) / Depth W w)))\<rparr>)"

fun UpdateWaves_loop ::
    "Lib \<Rightarrow> 'w WavesAPI \<Rightarrow> 'w \<Rightarrow> Vertex UploadBuffer \<Rightarrow> nat list \<Rightarrow> fault + Vertex UploadBuffer" where
  "UpdateWaves_loop X W w currWavesVB [] = Inr currWavesVB"
| "UpdateWaves_loop X W w currWavesVB (i # is) =
     bindE (CopyData i (wave_vertex X W w i) currWavesVB) (\<lambda>vb.
     UpdateWaves_loop X W w vb is)"

text \<open>
  The first part of \<open>UpdateWaves\<close>: every quarter second one random wave, then one step
  of the simulation. It returns the new \<open>t_base\<close> and the new waves.
\<close>

definition UpdateWaves_simulate ::
    "Lib \<Rightarrow> 'w WavesAPI \<Rightarrow> real \<Rightarrow> GameTimer \<Rightarrow> FrameEnv \<Rightarrow> real \<times> 'w \<Rightarrow> real \<times> 'w" where
  "UpdateWaves_simulate X W totalTime gt env tw =
     (let (tb, w) = tw;
          (tb1, w1) =
            (if rnd X (totalTime - tb) \<ge> 0.25
             then (rnd X (tb + 0.25),
                   Disturb W w (randI env 4 (int (RowCount W w) - 5))
                     (randJ env 4 (int (ColumnCount W w) - 5)) (randR env (rnd X 0.2) 0.5))
             else (tb, w))
      in (tb1, WUpdate W w1 (GameTimer.DeltaTime gt)))"

definition UpdateWaves ::
    "Lib \<Rightarrow> 'w WavesAPI \<Rightarrow> GameTimer \<Rightarrow> FrameEnv \<Rightarrow> ('w, 'a) TreeBillboardsApp_scheme
     \<Rightarrow> fault + ('w, 'a) TreeBillboardsApp_scheme" where
  "UpdateWaves X W gt env s =
     (let (tb, w) = UpdateWaves_simulate X W (GameTimer.TotalTime (mTimer s)) gt env (t_base s, mWaves s)
      in bindE (CurrFrameResource s) (\<lambda>i.
         bindE (UpdateWaves_loop X W w (WavesVB (mFrameResources s ! i)) [0..<VertexCount W w]) (\<lambda>vb.
         case mWavesRitem s of
           None \<Rightarrow> Inl NullDereference
         | Some h \<Rightarrow>
             (case map_of (mAllRitems s) h of
                None \<Rightarrow> Inl NullDereference
              | Some ri \<Rightarrow>
                  (case map_of (mGeometries s) (Geo ri) of
                     None \<Rightarrow> Inl NullDereference
                   | Some geo \<Rightarrow>
                       Inr (s\<lparr>t_base := tb, mWaves := w,
                              mFrameResources :=
                                (mFrameResources s)[i := (mFrameResources s ! i)\<lparr>WavesVB := vb\<rparr>],
                              mGeometries :=
                                AList.update (Geo ri) (geo\<lparr>VertexBufferGPU := Some (Resource vb)\<rparr>)
                                  (mGeometries s)\<rparr>))))))"

text \<open>
  The \<open>if\<close> statement of \<open>Update\<close> on the fence value \<open>fence\<close> of the selected frame
  resource: the program reads the fence only if \<open>fence\<close> is not zero, and waits only if
  the value read is below it. The wait ends when the event fires, that is when the fence
  has reached \<open>fence\<close>.
\<close>

definition WaitForFence ::
    "FrameEnv \<Rightarrow> nat \<Rightarrow> ('w, 'a) TreeBillboardsApp_scheme \<Rightarrow> fault + ('w, 'a) TreeBillboardsApp_scheme" where
  "WaitForFence env fence s =
     (if fence \<noteq> 0 then
        (if gpuCompleted env < fence then
           (if gpuOnWake env < fence then Inl WaitingForFence
            else Inr (s\<lparr>mFence := gpuOnWake env\<rparr>))
         else Inr (s\<lparr>mFence := gpuCompleted env\<rparr>))
      else Inr s)"

text \<open>
  The two assignments of \<open>Update\<close> that advance the ring index and select the frame
  resource at it.
\<close>

definition AdvanceFrameResource ::
    "('w, 'a) TreeBillboardsApp_scheme \<Rightarrow> fault + ('w, 'a) TreeBillboardsApp_scheme" where
  "AdvanceFrameResource s =
     (let idx = (mCurrFrameResourceIndex s + 1) mod gNumFrameResources
      in if idx \<ge> length (mFrameResources s) then Inl OutOfBounds
         else Inr (s\<lparr>mCurrFrameResourceIndex := idx, mCurrFrameResource := Some idx\<rparr>))"

text \<open>The \<open>if\<close> statement of \<open>Update\<close>, on the fence of the selected frame resource.\<close>

definition WaitForCurrFrameResource ::
    "FrameEnv \<Rightarrow> ('w, 'a) TreeBillboardsApp_scheme \<Rightarrow> fault + ('w, 'a) TreeBillboardsApp_scheme" where
  "WaitForCurrFrameResource env s =
     bindE (CurrFrameResource s) (\<lambda>i. WaitForFence env (Fence (mFrameResources s ! i)) s)"

text \<open>
  A function body as the list of its statements. \<open>run_steps\<close> executes them in order
  and stops at the first fault; \<open>states_of\<close> is the sequence of states the execution
  passes through: the state it starts in, then the state after each statement that
  returns.
\<close>

fun run_steps :: "('s \<Rightarrow> fault + 's) list \<Rightarrow> 's \<Rightarrow> fault + 's" where
  "run_steps [] s = Inr s"
| "run_steps (f # fs) s = bindE (f s) (run_steps fs)"

fun states_of :: "('s \<Rightarrow> fault + 's) list \<Rightarrow> 's \<Rightarrow> 's list" where
  "states_of [] s = [s]"
| "states_of (f # fs) s = s # (case f s of Inl e \<Rightarrow> [] | Inr s' \<Rightarrow> states_of fs s')"

text \<open>
  \<open>Update\<close>, statement by statement. \<open>OnKeyboardInput\<close> of \<open>TreeBillboardsApp\<close> is
  empty.
\<close>

definition Update_statements ::
    "Lib \<Rightarrow> 'w WavesAPI \<Rightarrow> GameTimer \<Rightarrow> FrameEnv
     \<Rightarrow> (('w, 'a) TreeBillboardsApp_scheme \<Rightarrow> fault + ('w, 'a) TreeBillboardsApp_scheme) list" where
  "Update_statements X W gt env =
     [\<lambda>s. Inr (UpdateCamera X s),
      AdvanceFrameResource,
      WaitForCurrFrameResource env,
      AnimateMaterials X gt,
      UpdateObjectCBs X,
      UpdateMaterialCBs X,
      UpdateMainPassCB X gt,
      UpdateWaves X W gt env]"

definition Update ::
    "Lib \<Rightarrow> 'w WavesAPI \<Rightarrow> GameTimer \<Rightarrow> FrameEnv \<Rightarrow> ('w, 'a) TreeBillboardsApp_scheme
     \<Rightarrow> fault + ('w, 'a) TreeBillboardsApp_scheme" where
  "Update X W gt env s = run_steps (Update_statements X W gt env) s"

section \<open>The draw phase\<close>

text \<open>
  The sizes of the constant structures: \<open>ObjectConstants\<close> holds two matrices of 64
  bytes, \<open>MaterialConstants\<close> four, three and one floats and a matrix. The function
  \<open>d3dUtil::CalcConstantBufferByteSize\<close> is outside the repository and is the parameter
  \<open>cbSize\<close> of the functions that use it.
\<close>

definition sizeof_ObjectConstants :: nat where
  "sizeof_ObjectConstants = 128"

definition sizeof_MaterialConstants :: nat where
  "sizeof_MaterialConstants = 96"

text \<open>\<open>MeshGeometry::VertexBufferView\<close> and \<open>IndexBufferView\<close> read the GPU buffers.\<close>

definition VertexBufferView :: "MeshGeometry \<Rightarrow> fault + Command" where
  "VertexBufferView geo =
     (case VertexBufferGPU geo of
        None \<Rightarrow> Inl NullDereference
      | Some r \<Rightarrow> Inr (IASetVertexBuffers (r, 0) (VertexByteStride geo) (VertexBufferByteSize geo)))"

definition IndexBufferView :: "MeshGeometry \<Rightarrow> fault + Command" where
  "IndexBufferView geo =
     (case IndexBufferGPU geo of
        None \<Rightarrow> Inl NullDereference
      | Some r \<Rightarrow> Inr (IASetIndexBuffer (r, 0) (IndexFormat geo) (IndexBufferByteSize geo)))"

text \<open>The commands that the body of the loop of \<open>DrawRenderItems\<close> records for one item.\<close>

definition DrawRenderItem ::
    "(nat \<Rightarrow> nat) \<Rightarrow> ('w, 'a) TreeBillboardsApp_scheme \<Rightarrow> nat \<Rightarrow> handle \<Rightarrow> fault + Command list" where
  "DrawRenderItem cbSize s i h =
     (let objCBByteSize = to_UINT (cbSize sizeof_ObjectConstants);
          matCBByteSize = to_UINT (cbSize sizeof_MaterialConstants);
          objectCB = Resource (ObjectCB (mFrameResources s ! i));
          matCB = Resource (MaterialCB (mFrameResources s ! i))
      in case map_of (mAllRitems s) h of
           None \<Rightarrow> Inl NullDereference
         | Some ri \<Rightarrow>
             (case map_of (mGeometries s) (Geo ri) of
                None \<Rightarrow> Inl NullDereference
              | Some geo \<Rightarrow>
                  bindE (VertexBufferView geo) (\<lambda>vbv.
                  bindE (IndexBufferView geo) (\<lambda>ibv.
                  case map_of (mMaterials s) (Mat ri) of
                    None \<Rightarrow> Inl NullDereference
                  | Some mat \<Rightarrow>
                      Inr [vbv, ibv, IASetPrimitiveTopology (PrimitiveType ri),
                           SetGraphicsRootDescriptorTable 0 (DiffuseSrvHeapIndex mat),
                           SetGraphicsRootConstantBufferView 1
                             (objectCB, to_UINT (ObjCBIndex ri * objCBByteSize)),
                           SetGraphicsRootConstantBufferView 3
                             (matCB, to_UINT (MatCBIndex mat * matCBByteSize)),
                           DrawIndexedInstanced (RenderItem.IndexCount ri) 1
                             (RenderItem.StartIndexLocation ri)
                             (RenderItem.BaseVertexLocation ri) 0]))))"

fun DrawRenderItems ::
    "(nat \<Rightarrow> nat) \<Rightarrow> ('w, 'a) TreeBillboardsApp_scheme \<Rightarrow> nat \<Rightarrow> handle list \<Rightarrow> fault + Command list" where
  "DrawRenderItems cbSize s i [] = Inr []"
| "DrawRenderItems cbSize s i (h # hs) =
     bindE (DrawRenderItem cbSize s i h) (\<lambda>c.
     bindE (DrawRenderItems cbSize s i hs) (\<lambda>cs. Inr (c @ cs)))"

text \<open>
  What identifies the item of a draw call in a command list: the binding of its object
  constants, at the root parameter 1, and the indexed draw call that follows it.
  \<open>object_draw\<close> is this pair for the item behind a handle.
\<close>

definition object_draw ::
    "(nat \<Rightarrow> nat) \<Rightarrow> ('w, 'a) TreeBillboardsApp_scheme \<Rightarrow> nat \<Rightarrow> handle \<Rightarrow> Command list" where
  "object_draw cbSize s i h =
     (case map_of (mAllRitems s) h of
        None \<Rightarrow> []
      | Some ri \<Rightarrow>
          [SetGraphicsRootConstantBufferView 1
             (Resource (ObjectCB (mFrameResources s ! i)),
              to_UINT (ObjCBIndex ri * to_UINT (cbSize sizeof_ObjectConstants))),
           DrawIndexedInstanced (RenderItem.IndexCount ri) 1 (RenderItem.StartIndexLocation ri)
             (RenderItem.BaseVertexLocation ri) 0])"

fun is_object_draw :: "Command \<Rightarrow> bool" where
  "is_object_draw (SetGraphicsRootConstantBufferView r a) = (r = 1)"
| "is_object_draw (DrawIndexedInstanced c n st b i) = True"
| "is_object_draw c = False"

text \<open>The commands of \<open>Draw\<close> before the first layer is drawn.\<close>

definition Draw_prologue :: "('w, 'a) TreeBillboardsApp_scheme \<Rightarrow> nat \<Rightarrow> Command list" where
  "Draw_prologue s i =
     [Reset ''opaque'', RSSetViewports, RSSetScissorRects,
      ResourceBarrier_Present_to_RenderTarget (mCurrBackBuffer s),
      ClearRenderTargetView (mCurrBackBuffer s) (FogColor (mMainPassCB s)),
      ClearDepthStencilView, OMSetRenderTargets (mCurrBackBuffer s), SetDescriptorHeaps,
      SetGraphicsRootSignature,
      SetGraphicsRootConstantBufferView 2 (Resource (PassCB (mFrameResources s ! i)), 0)]"

definition SwapChainBufferCount :: nat where
  "SwapChainBufferCount = 2"

definition Draw ::
    "(nat \<Rightarrow> nat) \<Rightarrow> ('w, 'a) TreeBillboardsApp_scheme \<Rightarrow> fault + ('w, 'a) TreeBillboardsApp_scheme" where
  "Draw cbSize s =
     bindE (CurrFrameResource s) (\<lambda>i.
     bindE (DrawRenderItems cbSize s i (mRitemLayer s ! layer_index Opaque)) (\<lambda>c0.
     bindE (DrawRenderItems cbSize s i (mRitemLayer s ! layer_index AlphaTested)) (\<lambda>c1.
     bindE (DrawRenderItems cbSize s i (mRitemLayer s ! layer_index AlphaTestedTreeSprites)) (\<lambda>c2.
     bindE (DrawRenderItems cbSize s i (mRitemLayer s ! layer_index Transparent)) (\<lambda>c3.
     let cmds = Draw_prologue s i @ c0 @ [SetPipelineState ''alphaTested''] @ c1
                @ [SetPipelineState ''treeSprites''] @ c2
                @ [SetPipelineState ''transparent''] @ c3
                @ [ResourceBarrier_RenderTarget_to_Present (mCurrBackBuffer s), Close];
         fence = mCurrentFence s + 1
     in Inr (s\<lparr>mFrameResources :=
                 (mFrameResources s)[i := (mFrameResources s ! i)\<lparr>CmdListAlloc := cmds, Fence := fence\<rparr>],
               mCommandQueue := mCommandQueue s @ [ExecuteCommandLists cmds, Present, Signal fence],
               mCurrBackBuffer := (mCurrBackBuffer s + 1) mod SwapChainBufferCount,
               mCurrentFence := fence\<rparr>))))))"

section \<open>Registering render items in layers\<close>

text \<open>\<open>mRitemLayer[(int)RenderLayer::L].push_back(h)\<close>, and a sequence of such calls.\<close>

definition push_back_layer :: "RenderLayer \<Rightarrow> handle \<Rightarrow> handle list list \<Rightarrow> handle list list" where
  "push_back_layer L h layers = layers[layer_index L := layers ! layer_index L @ [h]]"

fun register_items :: "(RenderLayer \<times> handle) list \<Rightarrow> handle list list \<Rightarrow> handle list list" where
  "register_items [] layers = layers"
| "register_items ((L, h) # regs) layers = register_items regs (push_back_layer L h layers)"

text \<open>The handles registered in a layer, in the order of their registration.\<close>

definition registered_in :: "RenderLayer \<Rightarrow> (RenderLayer \<times> handle) list \<Rightarrow> handle list" where
  "registered_in L regs = map snd (filter (\<lambda>p. fst p = L) regs)"

section \<open>Frames\<close>

text \<open>
  Modelled from the spec: the loop \<open>D3DApp::Run\<close> is in \<open>Common/d3dApp.cpp\<close>, which is not
  among the sources. By section 4.5 of the spec a frame advances the ring index, waits if
  needed, runs the update phase against the slot, then the draw phase, submits and stamps
  the fence: a frame is \<open>Update\<close> followed by \<open>Draw\<close>, both with the timer of the
  application, which has ticked to the time \<open>gt\<close> of the frame.
\<close>

definition Frame ::
    "Lib \<Rightarrow> 'w WavesAPI \<Rightarrow> (nat \<Rightarrow> nat) \<Rightarrow> GameTimer \<times> FrameEnv \<Rightarrow> ('w, 'a) TreeBillboardsApp_scheme
     \<Rightarrow> fault + ('w, 'a) TreeBillboardsApp_scheme" where
  "Frame X W cbSize f s =
     bindE (Update X W (fst f) (snd f) (s\<lparr>mTimer := fst f\<rparr>)) (\<lambda>s1. Draw cbSize s1)"

fun Frames ::
    "Lib \<Rightarrow> 'w WavesAPI \<Rightarrow> (nat \<Rightarrow> nat) \<Rightarrow> (GameTimer \<times> FrameEnv) list \<Rightarrow> ('w, 'a) TreeBillboardsApp_scheme
     \<Rightarrow> fault + ('w, 'a) TreeBillboardsApp_scheme" where
  "Frames X W cbSize [] s = Inr s"
| "Frames X W cbSize (f # fs) s = bindE (Frame X W cbSize f s) (\<lambda>s1. Frames X W cbSize fs s1)"

section \<open>One step of a dirty counter\<close>

text \<open>
  What one pass of \<open>UpdateObjectCBs\<close> or of \<open>UpdateMaterialCBs\<close> does to the counter of
  an entry: it is decremented exactly when it is positive.
\<close>

definition tick_item :: "handle \<times> RenderItem \<Rightarrow> handle \<times> RenderItem" where
  "tick_item p = (fst p, if RenderItem.NumFramesDirty (snd p) > 0
      then (snd p)\<lparr>RenderItem.NumFramesDirty := RenderItem.NumFramesDirty (snd p) - 1\<rparr> else snd p)"

definition tick_mat :: "string \<times> Material \<Rightarrow> string \<times> Material" where
  "tick_mat p = (fst p, if Material.NumFramesDirty (snd p) > 0
      then (snd p)\<lparr>Material.NumFramesDirty := Material.NumFramesDirty (snd p) - 1\<rparr> else snd p)"

section \<open>Building the geometry\<close>

text \<open>
  The class \<open>GeometryGenerator\<close> is not among the sources: the meshes it returns are
  arguments of the functions below, and so are the resources that
  \<open>d3dUtil::CreateDefaultBuffer\<close> returns, the numbers that \<open>MathHelper::RandF\<close> returns
  and the colours of \<open>DirectX::Colors\<close>.

  Modelled from the spec: \<open>MeshData::GetIndices16\<close> is declared in
  \<open>Common/GeometryGenerator.h\<close>. By section 4.1 of the spec the indices that are
  concatenated are the indices of the shape, as 16-bit values: each 32-bit index is
  converted to \<open>uint16_t\<close>.
\<close>

definition GetIndices16 :: "MeshData \<Rightarrow> nat list" where
  "GetIndices16 m = map (\<lambda>i. i mod 2 ^ 16) (Indices32 m)"

text \<open>The sizes of the vertex structures, as the input layouts of the source lay them out.\<close>

definition sizeof_Vertex :: nat where
  "sizeof_Vertex = 32"

definition sizeof_TreeSpriteVertex :: nat where
  "sizeof_TreeSpriteVertex = 20"

definition sizeof_ColorVertex :: nat where
  "sizeof_ColorVertex = 28"

definition sizeof_uint16 :: nat where
  "sizeof_uint16 = 2"

definition Submesh :: "nat \<Rightarrow> nat \<Rightarrow> nat \<Rightarrow> SubmeshGeometry" where
  "Submesh indexCount startIndex baseVertex =
     \<lparr>SubmeshGeometry.IndexCount = indexCount,
      SubmeshGeometry.StartIndexLocation = startIndex,
      SubmeshGeometry.BaseVertexLocation = to_INT baseVertex\<rparr>"

text \<open>The size of a container, converted to \<open>UINT\<close>.\<close>

definition usize :: "'a list \<Rightarrow> nat" where
  "usize xs = to_UINT (length xs)"

subsection \<open>\<open>TreeBillboardsApp\<close>\<close>

definition GetHillsHeight :: "Lib \<Rightarrow> real \<Rightarrow> real \<Rightarrow> real" where
  "GetHillsHeight X x z =
     rnd X (rnd X 0.3 * rnd X (rnd X (z * sinf X (rnd X (rnd X 0.1 * x)))
                               + rnd X (x * cosf X (rnd X (rnd X 0.1 * z)))))"

definition GetHillsNormal :: "Lib \<Rightarrow> real \<Rightarrow> real \<Rightarrow> XMFLOAT3" where
  "GetHillsNormal X x z =
     XMVector3Normalize X
       (rnd X (rnd X (rnd X (rnd X (- 0.03) * z) * cosf X (rnd X (rnd X 0.1 * x)))
               - rnd X (rnd X 0.3 * cosf X (rnd X (rnd X 0.1 * z)))),
        1,
        rnd X (rnd X (rnd X (- 0.3) * sinf X (rnd X (rnd X 0.1 * x)))
               + rnd X (rnd X (rnd X 0.03 * x) * sinf X (rnd X (rnd X 0.1 * z)))))"

definition BuildLandGeometry :: "Lib \<Rightarrow> MeshData \<Rightarrow> resource \<Rightarrow> resource \<Rightarrow> MeshGeometry" where
  "BuildLandGeometry X grid vbGPU ibGPU =
     (let vertices =
            map (\<lambda>v. let (px, py, pz) = GenVertex.Position v
                      in \<lparr>Vertex.Pos = (px, 0.5, pz),
                          Vertex.Normal = GetHillsNormal X px pz,
                          Vertex.TexC = GenVertex.TexC v\<rparr>) (Vertices grid);
          vbByteSize = to_UINT (usize vertices * sizeof_Vertex);
          indices = GetIndices16 grid;
          ibByteSize = to_UINT (usize indices * sizeof_uint16)
      in \<lparr>MeshGeometry.Name = ''landGeo'',
          VertexBufferCPU = Some (StdVertices vertices),
          IndexBufferCPU = indices,
          VertexBufferGPU = Some vbGPU,
          IndexBufferGPU = Some ibGPU,
          VertexByteStride = sizeof_Vertex,
          VertexBufferByteSize = vbByteSize,
          IndexFormat = DXGI_FORMAT_R16_UINT,
          IndexBufferByteSize = ibByteSize,
          DrawArgs = [(''grid'', Submesh (usize indices) 0 0)]\<rparr>)"

text \<open>The six indices that the loop of \<open>BuildWavesGeometry\<close> writes for the quad \<open>(i, j)\<close>.\<close>

definition wave_quad :: "nat \<Rightarrow> nat \<Rightarrow> nat \<Rightarrow> nat list" where
  "wave_quad n i j =
     map (\<lambda>x. x mod 2 ^ 16)
       [i * n + j, i * n + j + 1, (i + 1) * n + j,
        (i + 1) * n + j, i * n + j + 1, (i + 1) * n + j + 1]"

text \<open>
  \<open>BuildWavesGeometry\<close>. The vector of indices has \<open>3 * TriangleCount\<close> elements, zero
  at first; the loops write six of them for each quad, from the front, and a write behind
  the end of the vector is out of bounds. The \<open>assert\<close> is the one of the source.
\<close>

definition BuildWavesGeometry :: "'w WavesAPI \<Rightarrow> 'w \<Rightarrow> resource \<Rightarrow> fault + MeshGeometry" where
  "BuildWavesGeometry W w ibGPU =
     (let size = 3 * TriangleCount W w;
          m = RowCount W w;
          n = ColumnCount W w;
          written = concat (map (\<lambda>i. concat (map (\<lambda>j. wave_quad n i j) [0..<n - 1])) [0..<m - 1])
      in if \<not> VertexCount W w < 65535 then Inl AssertionFailed
         else if length written > size then Inl OutOfBounds
         else
           (let indices = written @ replicate (size - length written) 0;
                vbByteSize = to_UINT (VertexCount W w * sizeof_Vertex);
                ibByteSize = to_UINT (usize indices * sizeof_uint16)
            in Inr \<lparr>MeshGeometry.Name = ''waterGeo'',
                    VertexBufferCPU = None,
                    IndexBufferCPU = indices,
                    VertexBufferGPU = None,
                    IndexBufferGPU = Some ibGPU,
                    VertexByteStride = sizeof_Vertex,
                    VertexBufferByteSize = vbByteSize,
                    IndexFormat = DXGI_FORMAT_R16_UINT,
                    IndexBufferByteSize = ibByteSize,
                    DrawArgs = [(''grid'', Submesh (usize indices) 0 0)]\<rparr>))"

definition to_Vertex :: "GenVertex \<Rightarrow> Vertex" where
  "to_Vertex v =
     \<lparr>Vertex.Pos = GenVertex.Position v, Vertex.Normal = GenVertex.Normal v,
      Vertex.TexC = GenVertex.TexC v\<rparr>"

text \<open>
  \<open>BuildBoxGeometry\<close>. The offsets and the indices follow the order box, sphere, cylinder,
  cone, flat-headed pyramid, pointed pyramid, wedge, pointed cylinder; the loops that copy
  the vertices have the wedge before the two pyramids. The loop over the vertices of the
  pointed pyramid takes normal and texture coordinate from the vertex of the flat-headed
  pyramid at the same index, which is out of bounds when the pointed pyramid has more
  vertices.
\<close>

definition BuildBoxGeometry ::
    "MeshData \<Rightarrow> MeshData \<Rightarrow> MeshData \<Rightarrow> MeshData \<Rightarrow> MeshData \<Rightarrow> MeshData \<Rightarrow> MeshData \<Rightarrow> MeshData
     \<Rightarrow> resource \<Rightarrow> resource \<Rightarrow> fault + MeshGeometry" where
  "BuildBoxGeometry box sphere cylinder cone Pyramid_flat_head Pyramid_pointed_head wedge
       pointed_cylinder vbGPU ibGPU =
     (let boxVertexOffset = 0;
          sphereVertexOffset = to_UINT (boxVertexOffset + usize (Vertices box));
          cylinderVertexOffset = to_UINT (sphereVertexOffset + usize (Vertices sphere));
          coneVertexOffset = to_UINT (cylinderVertexOffset + usize (Vertices cylinder));
          Pyramid_flat_headVertexOffset = to_UINT (coneVertexOffset + usize (Vertices cone));
          Pyramid_pointed_headVertexOffset =
            to_UINT (Pyramid_flat_headVertexOffset + usize (Vertices Pyramid_flat_head));
          wedgeVertexOffset =
            to_UINT (Pyramid_pointed_headVertexOffset + usize (Vertices Pyramid_pointed_head));
          pointed_cylinderVertexOffset = to_UINT (wedgeVertexOffset + usize (Vertices wedge));
          boxIndexOffset = 0;
          sphereIndexOffset = to_UINT (boxIndexOffset + usize (Indices32 box));
          cylinderIndexOffset = to_UINT (sphereIndexOffset + usize (Indices32 sphere));
          coneIndexOffset = to_UINT (cylinderIndexOffset + usize (Indices32 cylinder));
          Pyramid_flat_headIndexOffset = to_UINT (coneIndexOffset + usize (Indices32 cone));
          Pyramid_pointed_headIndexOffset =
            to_UINT (Pyramid_flat_headIndexOffset + usize (Indices32 Pyramid_flat_head));
          wedgeIndexOffset =
            to_UINT (Pyramid_pointed_headIndexOffset + usize (Indices32 Pyramid_pointed_head));
          pointed_cylinderIndexOffset = to_UINT (wedgeIndexOffset + usize (Indices32 wedge));
          boxSubmesh = Submesh (usize (Indices32 box)) boxIndexOffset boxVertexOffset;
          sphereSubmesh = Submesh (usize (Indices32 sphere)) sphereIndexOffset sphereVertexOffset;
          cylinderSubmesh =
            Submesh (usize (Indices32 cylinder)) cylinderIndexOffset cylinderVertexOffset;
          coneSubmesh = Submesh (usize (Indices32 cone)) coneIndexOffset coneVertexOffset;
          Pyramid_flat_headSubmesh =
            Submesh (usize (Indices32 Pyramid_flat_head)) Pyramid_flat_headIndexOffset
              Pyramid_flat_headVertexOffset;
          Pyramid_pointed_headSubmesh =
            Submesh (usize (Indices32 Pyramid_pointed_head)) Pyramid_pointed_headIndexOffset
              Pyramid_pointed_headVertexOffset;
          wedgeSubmesh = Submesh (usize (Indices32 wedge)) wedgeIndexOffset wedgeVertexOffset;
          pointed_cylinderSubmesh =
            Submesh (usize (Indices32 pointed_cylinder)) pointed_cylinderIndexOffset
              pointed_cylinderVertexOffset
      in if length (Vertices Pyramid_pointed_head) > length (Vertices Pyramid_flat_head)
         then Inl OutOfBounds
         else
           (let vertices =
                  map to_Vertex (Vertices box) @ map to_Vertex (Vertices sphere)
                  @ map to_Vertex (Vertices cylinder) @ map to_Vertex (Vertices cone)
                  @ map to_Vertex (Vertices wedge) @ map to_Vertex (Vertices Pyramid_flat_head)
                  @ map (\<lambda>i. \<lparr>Vertex.Pos = GenVertex.Position (Vertices Pyramid_pointed_head ! i),
                               Vertex.Normal = GenVertex.Normal (Vertices Pyramid_flat_head ! i),
                               Vertex.TexC = GenVertex.TexC (Vertices Pyramid_flat_head ! i)\<rparr>)
                        [0..<length (Vertices Pyramid_pointed_head)]
                  @ map to_Vertex (Vertices pointed_cylinder);
                indices =
                  GetIndices16 box @ GetIndices16 sphere @ GetIndices16 cylinder
                  @ GetIndices16 cone @ GetIndices16 Pyramid_flat_head
                  @ GetIndices16 Pyramid_pointed_head @ GetIndices16 wedge
                  @ GetIndices16 pointed_cylinder;
                vbByteSize = to_UINT (usize vertices * sizeof_Vertex);
                ibByteSize = to_UINT (usize indices * sizeof_uint16)
            in Inr \<lparr>MeshGeometry.Name = ''boxGeo'',
                    VertexBufferCPU = Some (StdVertices vertices),
                    IndexBufferCPU = indices,
                    VertexBufferGPU = Some vbGPU,
                    IndexBufferGPU = Some ibGPU,
                    VertexByteStride = sizeof_Vertex,
                    VertexBufferByteSize = vbByteSize,
                    IndexFormat = DXGI_FORMAT_R16_UINT,
                    IndexBufferByteSize = ibByteSize,
                    DrawArgs =
                      [(''box'', boxSubmesh), (''sphere'', sphereSubmesh),
                       (''cylinder'', cylinderSubmesh), (''cone'', coneSubmesh),
                       (''Pyramid_flat_head'', Pyramid_flat_headSubmesh),
                       (''Pyramid_pointed_head'', Pyramid_pointed_headSubmesh),
                       (''wedge'', wedgeSubmesh),
                       (''pointed_cylinder'', pointed_cylinderSubmesh)]\<rparr>))"

text \<open>
  \<open>BuildTreeSpritesGeometry\<close>. \<open>RandF k\<close> is the number that the call \<open>k\<close> of
  \<open>MathHelper::RandF\<close> returns; the height computed by \<open>GetHillsHeight\<close> is overwritten
  by \<open>9.5f\<close>.
\<close>

definition BuildTreeSpritesGeometry :: "(nat \<Rightarrow> real) \<Rightarrow> resource \<Rightarrow> resource \<Rightarrow> MeshGeometry" where
  "BuildTreeSpritesGeometry RandF vbGPU ibGPU =
     (let vertices =
            map (\<lambda>i. let x = RandF (2 * i); z = RandF (2 * i + 1); y = 9.5
                      in if i \<le> 10
                         then \<lparr>TreeSpriteVertex.Pos = (x, y, z), Size = (20, 20)\<rparr>
                         else \<lparr>TreeSpriteVertex.Pos = (x, y, - z), Size = (20, 20)\<rparr>)
                [0..<20];
          indices = [0, 1, 2, 3, 4, 5, 6, 7, 8, 9, 10, 11, 12, 13, 14, 15, 16, 17, 18, 19];
          vbByteSize = to_UINT (usize vertices * sizeof_TreeSpriteVertex);
          ibByteSize = to_UINT (usize indices * sizeof_uint16)
      in \<lparr>MeshGeometry.Name = ''treeSpritesGeo'',
          VertexBufferCPU = Some (SpriteVertices vertices),
          IndexBufferCPU = indices,
          VertexBufferGPU = Some vbGPU,
          IndexBufferGPU = Some ibGPU,
          VertexByteStride = sizeof_TreeSpriteVertex,
          VertexBufferByteSize = vbByteSize,
          IndexFormat = DXGI_FORMAT_R16_UINT,
          IndexBufferByteSize = ibByteSize,
          DrawArgs = [(''points'', Submesh (usize indices) 0 0)]\<rparr>)"

subsection \<open>\<open>MyCastleApp\<close>\<close>

definition to_ColorVertex :: "XMFLOAT4 \<Rightarrow> GenVertex \<Rightarrow> ColorVertex" where
  "to_ColorVertex c v = \<lparr>ColorVertex.Pos = GenVertex.Position v, Color = c\<rparr>"

text \<open>
  \<open>BuildShapeGeometry\<close>. Offsets, vertices and indices follow the same order: box, grid,
  sphere, cylinder, cone, flat-headed pyramid, pointed pyramid, wedge, pointed cylinder,
  gate.
\<close>

definition MyCastleApp_BuildShapeGeometry ::
    "(string \<Rightarrow> XMFLOAT4) \<Rightarrow> MeshData \<Rightarrow> MeshData \<Rightarrow> MeshData \<Rightarrow> MeshData \<Rightarrow> MeshData \<Rightarrow> MeshData
     \<Rightarrow> MeshData \<Rightarrow> MeshData \<Rightarrow> MeshData \<Rightarrow> MeshData \<Rightarrow> resource \<Rightarrow> resource \<Rightarrow> MeshGeometry" where
  "MyCastleApp_BuildShapeGeometry Colors box grid sphere cylinder cone Pyramid_flat_head
       Pyramid_pointed_head wedge pointed_cylinder gate vbGPU ibGPU =
     (let boxVertexOffset = 0;
          gridVertexOffset = usize (Vertices box);
          sphereVertexOffset = to_UINT (gridVertexOffset + usize (Vertices grid));
          cylinderVertexOffset = to_UINT (sphereVertexOffset + usize (Vertices sphere));
          coneVertexOffset = to_UINT (cylinderVertexOffset + usize (Vertices cylinder));
          Pyramid_flat_headVertexOffset = to_UINT (coneVertexOffset + usize (Vertices cone));
          Pyramid_pointed_headVertexOffset =
            to_UINT (Pyramid_flat_headVertexOffset + usize (Vertices Pyramid_flat_head));
          wedgeVertexOffset =
            to_UINT (Pyramid_pointed_headVertexOffset + usize (Vertices Pyramid_pointed_head));
          pointed_cylinderVertexOffset = to_UINT (wedgeVertexOffset + usize (Vertices wedge));
          gateVertexOffset =
            to_UINT (pointed_cylinderVertexOffset + usize (Vertices pointed_cylinder));
          boxIndexOffset = 0;
          gridIndexOffset = usize (Indices32 box);
          sphereIndexOffset = to_UINT (gridIndexOffset + usize (Indices32 grid));
          cylinderIndexOffset = to_UINT (sphereIndexOffset + usize (Indices32 sphere));
          coneIndexOffset = to_UINT (cylinderIndexOffset + usize (Indices32 cylinder));
          Pyramid_flat_headIndexOffset = to_UINT (coneIndexOffset + usize (Indices32 cone));
          Pyramid_pointed_headIndexOffset =
            to_UINT (Pyramid_flat_headIndexOffset + usize (Indices32 Pyramid_flat_head));
          wedgeIndexOffset =
            to_UINT (Pyramid_pointed_headIndexOffset + usize (Indices32 Pyramid_pointed_head));
          pointed_cylinderIndexOffset = to_UINT (wedgeIndexOffset + usize (Indices32 wedge));
          gateIndexOffset =
            to_UINT (pointed_cylinderIndexOffset + usize (Indices32 pointed_cylinder));
          vertices =
            map (to_ColorVertex (Colors ''Gray'')) (Vertices box)
            @ map (to_ColorVertex (Colors ''ForestGreen'')) (Vertices grid)
            @ map (to_ColorVertex (Colors ''Crimson'')) (Vertices sphere)
            @ map (to_ColorVertex (Colors ''SteelBlue'')) (Vertices cylinder)
            @ map (to_ColorVertex (Colors ''Gold'')) (Vertices cone)
            @ map (to_ColorVertex (Colors ''Red'')) (Vertices Pyramid_flat_head)
            @ map (to_ColorVertex (Colors ''Tan'')) (Vertices Pyramid_pointed_head)
            @ map (to_ColorVertex (Colors ''Chocolate'')) (Vertices wedge)
            @ map (to_ColorVertex (Colors ''Pink'')) (Vertices pointed_cylinder)
            @ map (to_ColorVertex (Colors ''Cyan'')) (Vertices gate);
          indices =
            GetIndices16 box @ GetIndices16 grid @ GetIndices16 sphere @ GetIndices16 cylinder
            @ GetIndices16 cone @ GetIndices16 Pyramid_flat_head
            @ GetIndices16 Pyramid_pointed_head @ GetIndices16 wedge
            @ GetIndices16 pointed_cylinder @ GetIndices16 gate;
          vbByteSize = to_UINT (usize vertices * sizeof_ColorVertex);
          ibByteSize = to_UINT (usize indices * sizeof_uint16)
      in \<lparr>MeshGeometry.Name = ''shapeGeo'',
          VertexBufferCPU = Some (ColorVertices vertices),
          IndexBufferCPU = indices,
          VertexBufferGPU = Some vbGPU,
          IndexBufferGPU = Some ibGPU,
          VertexByteStride = sizeof_ColorVertex,
          VertexBufferByteSize = vbByteSize,
          IndexFormat = DXGI_FORMAT_R16_UINT,
          IndexBufferByteSize = ibByteSize,
          DrawArgs =
            [(''box'', Submesh (usize (Indices32 box)) boxIndexOffset boxVertexOffset),
             (''grid'', Submesh (usize (Indices32 grid)) gridIndexOffset gridVertexOffset),
             (''sphere'', Submesh (usize (Indices32 sphere)) sphereIndexOffset sphereVertexOffset),
             (''cylinder'',
              Submesh (usize (Indices32 cylinder)) cylinderIndexOffset cylinderVertexOffset),
             (''cone'', Submesh (usize (Indices32 cone)) coneIndexOffset coneVertexOffset),
             (''Pyramid_flat_head'',
              Submesh (usize (Indices32 Pyramid_flat_head)) Pyramid_flat_headIndexOffset
                Pyramid_flat_headVertexOffset),
             (''Pyramid_pointed_head'',
              Submesh (usize (Indices32 Pyramid_pointed_head)) Pyramid_pointed_headIndexOffset
                Pyramid_pointed_headVertexOffset),
             (''wedge'', Submesh (usize (Indices32 wedge)) wedgeIndexOffset wedgeVertexOffset),
             (''pointed_cylinder'',
              Submesh (usize (Indices32 pointed_cylinder)) pointed_cylinderIndexOffset
                pointed_cylinderVertexOffset),
             (''gate'', Submesh (usize (Indices32 gate)) gateIndexOffset gateVertexOffset)]\<rparr>)"

subsection \<open>The range of a submesh\<close>

text \<open>
  The numbers of vertices and of indices that the buffer views of a geometry span, and
  the validity of a submesh within them: its index range lies within the index buffer and
  every index of the range, added to the base vertex, is the position of a vertex.
\<close>

definition vertex_count :: "MeshGeometry \<Rightarrow> nat" where
  "vertex_count geo = VertexBufferByteSize geo div VertexByteStride geo"

definition index_count :: "MeshGeometry \<Rightarrow> nat" where
  "index_count geo = IndexBufferByteSize geo div sizeof_uint16"

definition submesh_in_range :: "MeshGeometry \<Rightarrow> SubmeshGeometry \<Rightarrow> bool" where
  "submesh_in_range geo sm \<longleftrightarrow>
     SubmeshGeometry.StartIndexLocation sm + SubmeshGeometry.IndexCount sm \<le> index_count geo
     \<and> index_count geo \<le> length (IndexBufferCPU geo)
     \<and> list_all
         (\<lambda>k. 0 \<le> SubmeshGeometry.BaseVertexLocation sm
                 + int (IndexBufferCPU geo ! (SubmeshGeometry.StartIndexLocation sm + k))
              \<and> SubmeshGeometry.BaseVertexLocation sm
                 + int (IndexBufferCPU geo ! (SubmeshGeometry.StartIndexLocation sm + k))
                < int (vertex_count geo))
         [0..<SubmeshGeometry.IndexCount sm]"

definition MeshData_ok :: "MeshData \<Rightarrow> bool" where
  "MeshData_ok m \<longleftrightarrow> list_all (\<lambda>i. i < length (Vertices m)) (Indices32 m)"

text \<open>
  The sizes of the meshes fit the 32-bit arithmetic of the builders: the byte sizes of the
  two buffers are below \<open>2 ^ 32\<close>.
\<close>

definition fits :: "nat \<Rightarrow> MeshData list \<Rightarrow> bool" where
  "fits stride ms \<longleftrightarrow>
     sum_list (map (\<lambda>m. length (Vertices m)) ms) * stride < 2 ^ 32
     \<and> sum_list (map (\<lambda>m. length (Indices32 m)) ms) * sizeof_uint16 < 2 ^ 32"

section \<open>The waves over a run\<close>

text \<open>\<open>mWavesRitem->Geo->VertexBufferGPU\<close>, the vertex buffer that the waves are drawn from.\<close>

definition waves_vertex_buffer :: "('w, 'a) TreeBillboardsApp_scheme \<Rightarrow> resource option" where
  "waves_vertex_buffer s =
     (case mWavesRitem s of
        None \<Rightarrow> None
      | Some h \<Rightarrow>
          (case map_of (mAllRitems s) h of
             None \<Rightarrow> None
           | Some ri \<Rightarrow>
               (case map_of (mGeometries s) (Geo ri) of
                  None \<Rightarrow> None
                | Some geo \<Rightarrow> VertexBufferGPU geo)))"

text \<open>The resource of the wave vertex buffer of the frame resource \<open>j\<close>.\<close>

definition slot_waves_buffer :: "nat \<Rightarrow> ('w, 'a) TreeBillboardsApp_scheme \<Rightarrow> resource" where
  "slot_waves_buffer j s = Resource (WavesVB (mFrameResources s ! j))"

text \<open>
  The simulation of the spec: in each frame, when a quarter second has elapsed since the
  last disturbance was due, one grid cell is disturbed by the random amount and the next
  disturbance falls due a quarter second later; then the simulation is integrated by one
  step of the frame's delta time.
\<close>

fun integrate_waves ::
    "Lib \<Rightarrow> 'w WavesAPI \<Rightarrow> (GameTimer \<times> FrameEnv) list \<Rightarrow> real \<times> 'w \<Rightarrow> real \<times> 'w" where
  "integrate_waves X W [] (due, w) = (due, w)"
| "integrate_waves X W ((gt, env) # fs) (due, w) =
     (if rnd X (GameTimer.TotalTime gt - due) \<ge> 0.25
      then integrate_waves X W fs
             (rnd X (due + 0.25),
              WUpdate W
                (Disturb W w (randI env 4 (int (RowCount W w) - 5))
                   (randJ env 4 (int (ColumnCount W w) - 5)) (randR env (rnd X 0.2) 0.5))
                (GameTimer.DeltaTime gt))
      else integrate_waves X W fs (due, WUpdate W w (GameTimer.DeltaTime gt)))"

text \<open>
  \<open>MathHelper::Rand\<close> is outside the repository. That it returns a number between its
  two arguments, when the first is not above the second, is a condition on the numbers a
  frame receives.
\<close>

definition Rand_in_range :: "FrameEnv \<Rightarrow> bool" where
  "Rand_in_range env \<longleftrightarrow>
     (\<forall>a b. a \<le> b \<longrightarrow> a \<le> randI env a b \<and> randI env a b \<le> b
                   \<and> a \<le> randJ env a b \<and> randJ env a b \<le> b)"

text \<open>The cell that \<open>UpdateWaves\<close> disturbs, and what makes a cell an interior cell.\<close>

definition disturbed_cell :: "'w WavesAPI \<Rightarrow> FrameEnv \<Rightarrow> 'w \<Rightarrow> int \<times> int" where
  "disturbed_cell W env w =
     (randI env 4 (int (RowCount W w) - 5), randJ env 4 (int (ColumnCount W w) - 5))"

definition interior_cell :: "'w WavesAPI \<Rightarrow> 'w \<Rightarrow> int \<times> int \<Rightarrow> bool" where
  "interior_cell W w c \<longleftrightarrow>
     0 < fst c \<and> fst c < int (RowCount W w) - 1 \<and> 0 < snd c \<and> snd c < int (ColumnCount W w) - 1"

text \<open>The value of a projection of the state in which a run ends, if it ends.\<close>

definition at_end :: "fault + 's \<Rightarrow> ('s \<Rightarrow> 'b) \<Rightarrow> 'b option" where
  "at_end r f = (case r of Inl e \<Rightarrow> None | Inr s \<Rightarrow> Some (f s))"


section \<open>A small scene for evaluating the model\<close>

text \<open>
  A grid of waves of two rows and two columns whose state is the number of simulation
  steps taken (a disturbance counts ten), three frame resources, two materials, two
  geometries and four render items, one in each layer, registered in the order
  transparent, opaque, tree sprites, alpha tested.
\<close>

definition demo_waves :: "nat WavesAPI" where
  "demo_waves =
     \<lparr>RowCount = (\<lambda>w. 2), ColumnCount = (\<lambda>w. 2), VertexCount = (\<lambda>w. 4),
      TriangleCount = (\<lambda>w. 2), Width = (\<lambda>w. 2), Depth = (\<lambda>w. 2),
      Position = (\<lambda>w i. (of_nat (i mod 2), of_nat w, of_nat (i div 2))),
      WNormal = (\<lambda>w i. (0, 1, 0)),
      Disturb = (\<lambda>w i j r. w + 10),
      WUpdate = (\<lambda>w dt. w + 1)\<rparr>"

text \<open>A mesh of two triangles over four vertices.\<close>

definition demo_mesh :: MeshData where
  "demo_mesh =
     \<lparr>Vertices =
        map (\<lambda>i. \<lparr>GenVertex.Position = (of_nat (i mod 2), 0, of_nat (i div 2)),
                    GenVertex.Normal = (0, 1, 0), TangentU = (1, 0, 0),
                    GenVertex.TexC = (of_nat (i mod 2), of_nat (i div 2))\<rparr>) [0, 1, 2, 3],
      Indices32 = [0, 1, 2, 2, 1, 3]\<rparr>"

definition demo_cbSize :: "nat \<Rightarrow> nat" where
  "demo_cbSize n = ((n + 255) div 256) * 256"

definition demo_pass :: PassConstants where
  "demo_pass =
     \<lparr>View = Identity4x4, InvView = Identity4x4, Proj = Identity4x4, InvProj = Identity4x4,
      ViewProj = Identity4x4, InvViewProj = Identity4x4, EyePosW = (0, 0, 0),
      RenderTargetSize = (0, 0), InvRenderTargetSize = (0, 0), NearZ = 0, FarZ = 0,
      PassConstants.TotalTime = 0, PassConstants.DeltaTime = 0, AmbientLight = (0, 0, 0, 1),
      FogColor = (0.7, 0.7, 0.7, 1),
      Lights = [\<lparr>Strength = (0, 0, 0), Direction = (0, 0, 0)\<rparr>,
                \<lparr>Strength = (0, 0, 0), Direction = (0, 0, 0)\<rparr>,
                \<lparr>Strength = (0, 0, 0), Direction = (0, 0, 0)\<rparr>]\<rparr>"

definition demo_obj :: ObjectConstants where
  "demo_obj = \<lparr>ObjectConstants.World = ((0, 0, 0, 0), (0, 0, 0, 0), (0, 0, 0, 0), (0, 0, 0, 0)),
               ObjectConstants.TexTransform = ((0, 0, 0, 0), (0, 0, 0, 0), (0, 0, 0, 0), (0, 0, 0, 0))\<rparr>"

definition demo_matc :: MaterialConstants where
  "demo_matc = \<lparr>MaterialConstants.DiffuseAlbedo = (0, 0, 0, 0), MaterialConstants.FresnelR0 = (0, 0, 0),
                MaterialConstants.Roughness = 0,
                MaterialConstants.MatTransform = ((0, 0, 0, 0), (0, 0, 0, 0), (0, 0, 0, 0), (0, 0, 0, 0))\<rparr>"

definition demo_vertex :: Vertex where
  "demo_vertex = \<lparr>Vertex.Pos = (0, 0, 0), Vertex.Normal = (0, 0, 0), Vertex.TexC = (0, 0)\<rparr>"

definition demo_frame_resource :: "nat \<Rightarrow> nat \<Rightarrow> FrameResource" where
  "demo_frame_resource r fence =
     \<lparr>CmdListAlloc = [],
      PassCB = \<lparr>Resource = r, mMappedData = [demo_pass]\<rparr>,
      ObjectCB = \<lparr>Resource = r + 1, mMappedData = [demo_obj, demo_obj, demo_obj, demo_obj]\<rparr>,
      MaterialCB = \<lparr>Resource = r + 2, mMappedData = [demo_matc, demo_matc]\<rparr>,
      WavesVB = \<lparr>Resource = r + 3, mMappedData = [demo_vertex, demo_vertex, demo_vertex, demo_vertex]\<rparr>,
      Fence = fence\<rparr>"

definition demo_material :: "string \<Rightarrow> nat \<Rightarrow> Material" where
  "demo_material n i =
     \<lparr>Material.Name = n, MatCBIndex = i, DiffuseSrvHeapIndex = i,
      Material.NumFramesDirty = int gNumFrameResources,
      Material.DiffuseAlbedo = (1, 1, 1, 1), Material.FresnelR0 = (0, 0, 0),
      Material.Roughness = 0.125,
      Material.MatTransform = ((1, 0, 0, 0), (0, 1, 0, 0), (0, 0, 1, 0), (0.5, 0.25, 0, 1))\<rparr>"

definition demo_geometry :: "string \<Rightarrow> resource option \<Rightarrow> MeshGeometry" where
  "demo_geometry n vb =
     \<lparr>MeshGeometry.Name = n, VertexBufferCPU = None, IndexBufferCPU = [0, 1, 2, 2, 1, 3],
      VertexBufferGPU = vb, IndexBufferGPU = Some 2, VertexByteStride = 32,
      VertexBufferByteSize = 128, IndexFormat = DXGI_FORMAT_R16_UINT, IndexBufferByteSize = 12,
      DrawArgs = [(''grid'', \<lparr>SubmeshGeometry.IndexCount = 6,
                              SubmeshGeometry.StartIndexLocation = 0,
                              SubmeshGeometry.BaseVertexLocation = 0\<rparr>)]\<rparr>"

definition demo_item :: "XMFLOAT4X4 \<Rightarrow> nat \<Rightarrow> string \<Rightarrow> string \<Rightarrow> RenderItem" where
  "demo_item w i m g =
     \<lparr>RenderItem.World = w, RenderItem.TexTransform = Identity4x4,
      RenderItem.NumFramesDirty = int gNumFrameResources, ObjCBIndex = i, Mat = m, Geo = g,
      PrimitiveType = D3D_PRIMITIVE_TOPOLOGY_TRIANGLELIST,
      RenderItem.IndexCount = 6, RenderItem.StartIndexLocation = 0,
      RenderItem.BaseVertexLocation = 0\<rparr>"

definition demo_regs :: "(RenderLayer \<times> handle) list" where
  "demo_regs = [(Transparent, 0), (Opaque, 1), (AlphaTestedTreeSprites, 3), (AlphaTested, 2)]"

definition demo_app :: "nat TreeBillboardsApp" where
  "demo_app =
     \<lparr>mTheta = 0, mPhi = 1, mRadius = 50, mLastMousePos = (0, 0),
      mFrameResources =
        [demo_frame_resource 10 0, demo_frame_resource 20 0, demo_frame_resource 30 0],
      mCurrFrameResource = None,
      mCurrFrameResourceIndex = 0,
      mGeometries = [(''waterGeo'', demo_geometry ''waterGeo'' None),
                     (''landGeo'', demo_geometry ''landGeo'' (Some 1))],
      mMaterials = [(''grass'', demo_material ''grass'' 0), (''water'', demo_material ''water'' 1)],
      mWavesRitem = Some 0,
      mAllRitems =
        [(1, demo_item Identity4x4 1 ''grass'' ''landGeo''),
         (2, demo_item ((2, 0, 0, 0), (0, 2, 0, 0), (0, 0, 2, 0), (3, 4, 5, 1)) 2 ''grass'' ''landGeo''),
         (0, demo_item Identity4x4 0 ''water'' ''waterGeo''),
         (3, demo_item Identity4x4 3 ''grass'' ''landGeo'')],
      mRitemLayer = register_items demo_regs [[], [], [], []],
      mWaves = 0,
      mMainPassCB = demo_pass,
      mEyePos = (0, 0, 0),
      mView = Identity4x4,
      mProj = Identity4x4,
      t_base = 0,
      mTimer = \<lparr>GameTimer.TotalTime = 0, GameTimer.DeltaTime = 0\<rparr>,
      mCurrentFence = 0,
      mFence = 0,
      mCommandQueue = [],
      mCurrBackBuffer = 0,
      mClientWidth = 800,
      mClientHeight = 600\<rparr>"

text \<open>
  The frame \<open>k\<close> of a run at a hundred frames per second in which the device keeps up;
  no wave is generated in the first 24 frames.
\<close>

definition demo_frame :: "nat \<Rightarrow> GameTimer \<times> FrameEnv" where
  "demo_frame k =
     (\<lparr>GameTimer.TotalTime = of_nat k / 100, GameTimer.DeltaTime = 1 / 100\<rparr>,
      \<lparr>gpuCompleted = k - 1, gpuOnWake = k - 1, randI = (\<lambda>a b. a), randJ = (\<lambda>a b. b),
       randR = (\<lambda>a b. a)\<rparr>)"

text \<open>A state in which the three frame resources carry the fences 6, 7 and 8.\<close>

definition demo_busy :: "nat TreeBillboardsApp" where
  "demo_busy = demo_app
     \<lparr>mFrameResources :=
        [demo_frame_resource 10 6, demo_frame_resource 20 7, demo_frame_resource 30 8],
      mCurrentFence := 8, mFence := 6\<rparr>"

definition demo_env :: "nat \<Rightarrow> nat \<Rightarrow> FrameEnv" where
  "demo_env c w =
     \<lparr>gpuCompleted = c, gpuOnWake = w, randI = (\<lambda>a b. a), randJ = (\<lambda>a b. b),
      randR = (\<lambda>a b. a)\<rparr>"


text \<open>
  The small scene with the two items of handle 1 and 2 and the grass material settled:
  their counters are 0.
\<close>

definition demo_settled :: "nat TreeBillboardsApp" where
  "demo_settled = demo_app
     \<lparr>mMaterials :=
        [(''grass'', (demo_material ''grass'' 0)\<lparr>Material.NumFramesDirty := 0\<rparr>),
         (''water'', demo_material ''water'' 1)],
      mAllRitems :=
        [(1, (demo_item Identity4x4 1 ''grass'' ''landGeo'')\<lparr>RenderItem.NumFramesDirty := 0\<rparr>),
         (2, (demo_item ((2, 0, 0, 0), (0, 2, 0, 0), (0, 0, 2, 0), (3, 4, 5, 1)) 2 ''grass'' ''landGeo'')
               \<lparr>RenderItem.NumFramesDirty := 0\<rparr>),
         (0, demo_item Identity4x4 0 ''water'' ''waterGeo''),
         (3, demo_item Identity4x4 3 ''grass'' ''landGeo'')]\<rparr>"

text \<open>
  A pond of nine rows and nine columns, eight units wide and deep and centred at the
  origin, whose state is again the number of simulation steps taken, and the small scene
  with wave vertex buffers for its 81 vertices.
\<close>

definition demo_pond :: "nat WavesAPI" where
  "demo_pond =
     \<lparr>RowCount = (\<lambda>w. 9), ColumnCount = (\<lambda>w. 9), VertexCount = (\<lambda>w. 81),
      TriangleCount = (\<lambda>w. 128), Width = (\<lambda>w. 8), Depth = (\<lambda>w. 8),
      Position = (\<lambda>w i. (of_nat (i mod 9) - 4, of_nat w, 4 - of_nat (i div 9))),
      WNormal = (\<lambda>w i. (0, 1, 0)),
      Disturb = (\<lambda>w i j r. w + 10),
      WUpdate = (\<lambda>w dt. w + 1)\<rparr>"

text \<open>
  The frame \<open>k\<close> of a run at ten frames per second: a wave is generated in the third
  frame, at the cell (4, 4).
\<close>

definition pond_frame :: "nat \<Rightarrow> GameTimer \<times> FrameEnv" where
  "pond_frame k =
     (\<lparr>GameTimer.TotalTime = of_nat k / 10, GameTimer.DeltaTime = 1 / 10\<rparr>,
      \<lparr>gpuCompleted = k - 1, gpuOnWake = k - 1, randI = (\<lambda>a b. a), randJ = (\<lambda>a b. b),
       randR = (\<lambda>a b. a)\<rparr>)"

definition pond_app :: "nat TreeBillboardsApp" where
  "pond_app = demo_app
     \<lparr>mFrameResources :=
        map (\<lambda>fr. fr\<lparr>WavesVB := (WavesVB fr)\<lparr>mMappedData := replicate 81 demo_vertex\<rparr>\<rparr>)
          (mFrameResources demo_app)\<rparr>"


section \<open>Properties\<close>

subsection \<open>The effect of the update functions\<close>

lemma bindE_Inr: "bindE m f = Inr r \<longleftrightarrow> (\<exists>v. m = Inr v \<and> f v = Inr r)"
  by (cases m) (simp_all add: bindE_def)

lemma CopyData_Inr:
  "CopyData i v b = Inr b' \<longleftrightarrow> i < length (mMappedData b) \<and> b' = b\<lparr>mMappedData := (mMappedData b)[i := v]\<rparr>"
  by (auto simp: CopyData_def)

lemma obj_loop_items:
  "UpdateObjectCBs_loop X cb es = Inr (cb', es') \<Longrightarrow>
   es' = map tick_item es \<and> length (mMappedData cb') = length (mMappedData cb) \<and> Resource cb' = Resource cb"
proof (induction es arbitrary: cb cb' es')
  case Nil
  then show ?case by simp
next
  case (Cons p es)
  obtain h e where p: "p = (h, e)" by (cases p)
  show ?case
  proof (cases "RenderItem.NumFramesDirty e > 0")
    case True
    with Cons.prems p obtain cb1 cb2 es2 where
      c: "CopyData (ObjCBIndex e) (objConstants X e) cb = Inr cb1"
      and l: "UpdateObjectCBs_loop X cb1 es = Inr (cb2, es2)"
      and r: "cb' = cb2" "es' = (h, e\<lparr>RenderItem.NumFramesDirty := RenderItem.NumFramesDirty e - 1\<rparr>) # es2"
      by (auto simp: bindE_Inr)
    from Cons.IH[OF l] c r True p show ?thesis
      by (auto simp: tick_item_def CopyData_Inr)
  next
    case False
    with Cons.prems p obtain cb2 es2 where
      l: "UpdateObjectCBs_loop X cb es = Inr (cb2, es2)"
      and r: "cb' = cb2" "es' = (h, e) # es2"
      by (auto simp: bindE_Inr)
    from Cons.IH[OF l] r False p show ?thesis
      by (auto simp: tick_item_def)
  qed
qed

lemma obj_loop_other:
  "UpdateObjectCBs_loop X cb es = Inr (cb', es') \<Longrightarrow>
   \<forall>p \<in> set es. RenderItem.NumFramesDirty (snd p) > 0 \<longrightarrow> ObjCBIndex (snd p) \<noteq> k \<Longrightarrow>
   mMappedData cb' ! k = mMappedData cb ! k"
proof (induction es arbitrary: cb cb' es')
  case Nil
  then show ?case by simp
next
  case (Cons p es)
  obtain h e where p: "p = (h, e)" by (cases p)
  show ?case
  proof (cases "RenderItem.NumFramesDirty e > 0")
    case True
    with Cons.prems(1) p obtain cb1 es2 where
      c: "CopyData (ObjCBIndex e) (objConstants X e) cb = Inr cb1"
      and l: "UpdateObjectCBs_loop X cb1 es = Inr (cb', es2)"
      by (auto simp: bindE_Inr)
    have "mMappedData cb' ! k = mMappedData cb1 ! k"
      using Cons.IH[OF l] Cons.prems(2) by simp
    moreover have "ObjCBIndex e \<noteq> k" using Cons.prems(2) p True by simp
    ultimately show ?thesis using c by (auto simp: CopyData_Inr)
  next
    case False
    with Cons.prems(1) p obtain es2 where
      l: "UpdateObjectCBs_loop X cb es = Inr (cb', es2)"
      by (auto simp: bindE_Inr)
    show ?thesis using Cons.IH[OF l] Cons.prems(2) by simp
  qed
qed

lemma obj_loop_written:
  "UpdateObjectCBs_loop X cb es = Inr (cb', es') \<Longrightarrow>
   distinct (map (\<lambda>p. ObjCBIndex (snd p)) es) \<Longrightarrow>
   p \<in> set es \<Longrightarrow> RenderItem.NumFramesDirty (snd p) > 0 \<Longrightarrow>
   mMappedData cb' ! ObjCBIndex (snd p) = objConstants X (snd p)"
proof (induction es arbitrary: cb cb' es')
  case Nil
  then show ?case by simp
next
  case (Cons q es)
  obtain h e where q: "q = (h, e)" by (cases q)
  show ?case
  proof (cases "RenderItem.NumFramesDirty e > 0")
    case True
    with Cons.prems(1) q obtain cb1 es2 where
      c: "CopyData (ObjCBIndex e) (objConstants X e) cb = Inr cb1"
      and l: "UpdateObjectCBs_loop X cb1 es = Inr (cb', es2)"
      by (auto simp: bindE_Inr)
    show ?thesis
    proof (cases "p = q")
      case True
      have "\<forall>r \<in> set es. RenderItem.NumFramesDirty (snd r) > 0 \<longrightarrow> ObjCBIndex (snd r) \<noteq> ObjCBIndex e"
        using Cons.prems(2) q by (force simp: image_iff)
      from obj_loop_other[OF l this] c True q show ?thesis
        by (auto simp: CopyData_Inr)
    next
      case False
      then have "p \<in> set es" using Cons.prems(3) by simp
      then show ?thesis using Cons.IH[OF l] Cons.prems(2,4) by simp
    qed
  next
    case False
    with Cons.prems(1) q obtain es2 where
      l: "UpdateObjectCBs_loop X cb es = Inr (cb', es2)"
      by (auto simp: bindE_Inr)
    have "p \<noteq> q" using False Cons.prems(4) q by auto
    then have "p \<in> set es" using Cons.prems(3) by simp
    then show ?thesis using Cons.IH[OF l] Cons.prems(2,4) by simp
  qed
qed

lemma obj_loop_total:
  "\<forall>p \<in> set es. RenderItem.NumFramesDirty (snd p) > 0 \<longrightarrow> ObjCBIndex (snd p) < length (mMappedData cb) \<Longrightarrow>
   \<exists>r. UpdateObjectCBs_loop X cb es = Inr r"
proof (induction es arbitrary: cb)
  case Nil
  then show ?case by simp
next
  case (Cons q es)
  obtain h e where q: "q = (h, e)" by (cases q)
  show ?case
  proof (cases "RenderItem.NumFramesDirty e > 0")
    case True
    then have i: "ObjCBIndex e < length (mMappedData cb)" using Cons.prems q by simp
    let ?cb1 = "cb\<lparr>mMappedData := (mMappedData cb)[ObjCBIndex e := objConstants X e]\<rparr>"
    have "\<exists>r. UpdateObjectCBs_loop X ?cb1 es = Inr r"
      using Cons.prems by (intro Cons.IH) simp
    then obtain cb2 es2 where "UpdateObjectCBs_loop X ?cb1 es = Inr (cb2, es2)" by auto
    then show ?thesis using True i q by (simp add: CopyData_def bindE_def)
  next
    case False
    have "\<exists>r. UpdateObjectCBs_loop X cb es = Inr r"
      using Cons.prems by (intro Cons.IH) simp
    then obtain cb2 es2 where "UpdateObjectCBs_loop X cb es = Inr (cb2, es2)" by auto
    then show ?thesis using False q by (simp add: bindE_def)
  qed
qed

lemma mat_loop_items:
  "UpdateMaterialCBs_loop X cb es = Inr (cb', es') \<Longrightarrow>
   es' = map tick_mat es \<and> length (mMappedData cb') = length (mMappedData cb) \<and> Resource cb' = Resource cb"
proof (induction es arbitrary: cb cb' es')
  case Nil
  then show ?case by simp
next
  case (Cons p es)
  obtain h e where p: "p = (h, e)" by (cases p)
  show ?case
  proof (cases "Material.NumFramesDirty e > 0")
    case True
    with Cons.prems p obtain cb1 cb2 es2 where
      c: "CopyData (MatCBIndex e) (matConstants X e) cb = Inr cb1"
      and l: "UpdateMaterialCBs_loop X cb1 es = Inr (cb2, es2)"
      and r: "cb' = cb2" "es' = (h, e\<lparr>Material.NumFramesDirty := Material.NumFramesDirty e - 1\<rparr>) # es2"
      by (auto simp: bindE_Inr)
    from Cons.IH[OF l] c r True p show ?thesis
      by (auto simp: tick_mat_def CopyData_Inr)
  next
    case False
    with Cons.prems p obtain cb2 es2 where
      l: "UpdateMaterialCBs_loop X cb es = Inr (cb2, es2)"
      and r: "cb' = cb2" "es' = (h, e) # es2"
      by (auto simp: bindE_Inr)
    from Cons.IH[OF l] r False p show ?thesis
      by (auto simp: tick_mat_def)
  qed
qed

lemma mat_loop_other:
  "UpdateMaterialCBs_loop X cb es = Inr (cb', es') \<Longrightarrow>
   \<forall>p \<in> set es. Material.NumFramesDirty (snd p) > 0 \<longrightarrow> MatCBIndex (snd p) \<noteq> k \<Longrightarrow>
   mMappedData cb' ! k = mMappedData cb ! k"
proof (induction es arbitrary: cb cb' es')
  case Nil
  then show ?case by simp
next
  case (Cons p es)
  obtain h e where p: "p = (h, e)" by (cases p)
  show ?case
  proof (cases "Material.NumFramesDirty e > 0")
    case True
    with Cons.prems(1) p obtain cb1 es2 where
      c: "CopyData (MatCBIndex e) (matConstants X e) cb = Inr cb1"
      and l: "UpdateMaterialCBs_loop X cb1 es = Inr (cb', es2)"
      by (auto simp: bindE_Inr)
    have "mMappedData cb' ! k = mMappedData cb1 ! k"
      using Cons.IH[OF l] Cons.prems(2) by simp
    moreover have "MatCBIndex e \<noteq> k" using Cons.prems(2) p True by simp
    ultimately show ?thesis using c by (auto simp: CopyData_Inr)
  next
    case False
    with Cons.prems(1) p obtain es2 where
      l: "UpdateMaterialCBs_loop X cb es = Inr (cb', es2)"
      by (auto simp: bindE_Inr)
    show ?thesis using Cons.IH[OF l] Cons.prems(2) by simp
  qed
qed

lemma mat_loop_written:
  "UpdateMaterialCBs_loop X cb es = Inr (cb', es') \<Longrightarrow>
   distinct (map (\<lambda>p. MatCBIndex (snd p)) es) \<Longrightarrow>
   p \<in> set es \<Longrightarrow> Material.NumFramesDirty (snd p) > 0 \<Longrightarrow>
   mMappedData cb' ! MatCBIndex (snd p) = matConstants X (snd p)"
proof (induction es arbitrary: cb cb' es')
  case Nil
  then show ?case by simp
next
  case (Cons q es)
  obtain h e where q: "q = (h, e)" by (cases q)
  show ?case
  proof (cases "Material.NumFramesDirty e > 0")
    case True
    with Cons.prems(1) q obtain cb1 es2 where
      c: "CopyData (MatCBIndex e) (matConstants X e) cb = Inr cb1"
      and l: "UpdateMaterialCBs_loop X cb1 es = Inr (cb', es2)"
      by (auto simp: bindE_Inr)
    show ?thesis
    proof (cases "p = q")
      case True
      have "\<forall>r \<in> set es. Material.NumFramesDirty (snd r) > 0 \<longrightarrow> MatCBIndex (snd r) \<noteq> MatCBIndex e"
        using Cons.prems(2) q by (force simp: image_iff)
      from mat_loop_other[OF l this] c True q show ?thesis
        by (auto simp: CopyData_Inr)
    next
      case False
      then have "p \<in> set es" using Cons.prems(3) by simp
      then show ?thesis using Cons.IH[OF l] Cons.prems(2,4) by simp
    qed
  next
    case False
    with Cons.prems(1) q obtain es2 where
      l: "UpdateMaterialCBs_loop X cb es = Inr (cb', es2)"
      by (auto simp: bindE_Inr)
    have "p \<noteq> q" using False Cons.prems(4) q by auto
    then have "p \<in> set es" using Cons.prems(3) by simp
    then show ?thesis using Cons.IH[OF l] Cons.prems(2,4) by simp
  qed
qed

lemma mat_loop_total:
  "\<forall>p \<in> set es. Material.NumFramesDirty (snd p) > 0 \<longrightarrow> MatCBIndex (snd p) < length (mMappedData cb) \<Longrightarrow>
   \<exists>r. UpdateMaterialCBs_loop X cb es = Inr r"
proof (induction es arbitrary: cb)
  case Nil
  then show ?case by simp
next
  case (Cons q es)
  obtain h e where q: "q = (h, e)" by (cases q)
  show ?case
  proof (cases "Material.NumFramesDirty e > 0")
    case True
    then have i: "MatCBIndex e < length (mMappedData cb)" using Cons.prems q by simp
    let ?cb1 = "cb\<lparr>mMappedData := (mMappedData cb)[MatCBIndex e := matConstants X e]\<rparr>"
    have "\<exists>r. UpdateMaterialCBs_loop X ?cb1 es = Inr r"
      using Cons.prems by (intro Cons.IH) simp
    then obtain cb2 es2 where "UpdateMaterialCBs_loop X ?cb1 es = Inr (cb2, es2)" by auto
    then show ?thesis using True i q by (simp add: CopyData_def bindE_def)
  next
    case False
    have "\<exists>r. UpdateMaterialCBs_loop X cb es = Inr r"
      using Cons.prems by (intro Cons.IH) simp
    then obtain cb2 es2 where "UpdateMaterialCBs_loop X cb es = Inr (cb2, es2)" by auto
    then show ?thesis using False q by (simp add: bindE_def)
  qed
qed


lemma CurrFrameResource_Inr:
  "CurrFrameResource s = Inr i \<longleftrightarrow> mCurrFrameResource s = Some i \<and> i < length (mFrameResources s)"
  by (auto simp: CurrFrameResource_def split: option.splits)

lemma AnimateMaterials_effect:
  "AnimateMaterials X gt s = Inr s' \<Longrightarrow>
   \<exists>w. map_of (mMaterials s) ''water'' = Some w
     \<and> s' = s\<lparr>mMaterials := AList.update ''water'' (AnimateMaterials_water X gt w) (mMaterials s)\<rparr>"
  by (auto simp: AnimateMaterials_def split: option.splits)

lemma UpdateObjectCBs_effect:
  "UpdateObjectCBs X s = Inr s' \<Longrightarrow>
   \<exists>i cb es. mCurrFrameResource s = Some i \<and> i < length (mFrameResources s)
     \<and> UpdateObjectCBs_loop X (ObjectCB (mFrameResources s ! i)) (mAllRitems s) = Inr (cb, es)
     \<and> s' = s\<lparr>mFrameResources := (mFrameResources s)[i := (mFrameResources s ! i)\<lparr>ObjectCB := cb\<rparr>],
              mAllRitems := es\<rparr>"
  by (auto simp: UpdateObjectCBs_def bindE_Inr CurrFrameResource_Inr)

lemma UpdateMaterialCBs_effect:
  "UpdateMaterialCBs X s = Inr s' \<Longrightarrow>
   \<exists>i cb es. mCurrFrameResource s = Some i \<and> i < length (mFrameResources s)
     \<and> UpdateMaterialCBs_loop X (MaterialCB (mFrameResources s ! i)) (mMaterials s) = Inr (cb, es)
     \<and> s' = s\<lparr>mFrameResources := (mFrameResources s)[i := (mFrameResources s ! i)\<lparr>MaterialCB := cb\<rparr>],
              mMaterials := es\<rparr>"
  by (auto simp: UpdateMaterialCBs_def bindE_Inr CurrFrameResource_Inr)

lemma UpdateMainPassCB_effect:
  "UpdateMainPassCB X gt s = Inr s' \<Longrightarrow>
   \<exists>i cb pcb. mCurrFrameResource s = Some i \<and> i < length (mFrameResources s)
     \<and> s' = s\<lparr>mMainPassCB := cb,
              mFrameResources := (mFrameResources s)[i := (mFrameResources s ! i)\<lparr>PassCB := pcb\<rparr>]\<rparr>"
  by (auto simp: UpdateMainPassCB_def Let_def bindE_Inr CurrFrameResource_Inr)

lemma UpdateWaves_effect:
  assumes "UpdateWaves X W gt env s = Inr s'"
  shows "\<exists>i vb h ri geo. mCurrFrameResource s = Some i \<and> i < length (mFrameResources s)
     \<and> UpdateWaves_loop X W (mWaves s') (WavesVB (mFrameResources s ! i)) [0..<VertexCount W (mWaves s')] = Inr vb
     \<and> (t_base s', mWaves s') =
          UpdateWaves_simulate X W (GameTimer.TotalTime (mTimer s)) gt env (t_base s, mWaves s)
     \<and> mWavesRitem s = Some h \<and> map_of (mAllRitems s) h = Some ri
     \<and> map_of (mGeometries s) (Geo ri) = Some geo
     \<and> s' = s\<lparr>t_base := t_base s', mWaves := mWaves s',
              mFrameResources := (mFrameResources s)[i := (mFrameResources s ! i)\<lparr>WavesVB := vb\<rparr>],
              mGeometries := AList.update (Geo ri) (geo\<lparr>VertexBufferGPU := Some (Resource vb)\<rparr>)
                               (mGeometries s)\<rparr>"
proof -
  obtain tb w where sim:
    "UpdateWaves_simulate X W (GameTimer.TotalTime (mTimer s)) gt env (t_base s, mWaves s) = (tb, w)"
    by (cases "UpdateWaves_simulate X W (GameTimer.TotalTime (mTimer s)) gt env (t_base s, mWaves s)")
  from assms sim obtain i vb where
    i: "mCurrFrameResource s = Some i" "i < length (mFrameResources s)"
    and l: "UpdateWaves_loop X W w (WavesVB (mFrameResources s ! i)) [0..<VertexCount W w] = Inr vb"
    and r: "(case mWavesRitem s of
           None \<Rightarrow> Inl NullDereference
         | Some h \<Rightarrow>
             (case map_of (mAllRitems s) h of
                None \<Rightarrow> Inl NullDereference
              | Some ri \<Rightarrow>
                  (case map_of (mGeometries s) (Geo ri) of
                     None \<Rightarrow> Inl NullDereference
                   | Some geo \<Rightarrow>
                       Inr (s\<lparr>t_base := tb, mWaves := w,
                              mFrameResources :=
                                (mFrameResources s)[i := (mFrameResources s ! i)\<lparr>WavesVB := vb\<rparr>],
                              mGeometries :=
                                AList.update (Geo ri) (geo\<lparr>VertexBufferGPU := Some (Resource vb)\<rparr>)
                                  (mGeometries s)\<rparr>)))) = Inr s'"
    by (auto simp: UpdateWaves_def bindE_Inr CurrFrameResource_Inr)
  from r obtain h where h: "mWavesRitem s = Some h" by (cases "mWavesRitem s") auto
  from r h obtain ri where ri: "map_of (mAllRitems s) h = Some ri"
    by (cases "map_of (mAllRitems s) h") auto
  from r h ri obtain geo where geo: "map_of (mGeometries s) (Geo ri) = Some geo"
    by (cases "map_of (mGeometries s) (Geo ri)") auto
  from r h ri geo have s': "s' = s\<lparr>t_base := tb, mWaves := w,
        mFrameResources := (mFrameResources s)[i := (mFrameResources s ! i)\<lparr>WavesVB := vb\<rparr>],
        mGeometries := AList.update (Geo ri) (geo\<lparr>VertexBufferGPU := Some (Resource vb)\<rparr>)
                         (mGeometries s)\<rparr>"
    by simp
  then have tw: "t_base s' = tb" "mWaves s' = w" by simp_all
  show ?thesis
    using i l sim h ri geo s' tw by auto
qed

lemma WaitForFence_Inr:
  assumes "WaitForFence env fence s = Inr s3"
  shows "\<exists>f. s3 = s\<lparr>mFence := f\<rparr> \<and> fence \<le> f
           \<and> (fence = 0 \<or> f = gpuCompleted env \<or> (gpuCompleted env < fence \<and> f = gpuOnWake env))"
proof (cases "fence = 0")
  case True
  with assms have "s3 = s\<lparr>mFence := mFence s\<rparr>" by (simp add: WaitForFence_def)
  with True show ?thesis by (metis le0)
next
  case False
  with assms show ?thesis by (auto simp: WaitForFence_def split: if_splits)
qed

lemma UpdateCamera_fields:
  "mCurrFrameResourceIndex (UpdateCamera X s) = mCurrFrameResourceIndex s"
  "mFrameResources (UpdateCamera X s) = mFrameResources s"
  by (simp_all add: UpdateCamera_def Let_def)

lemma Update_unfold:
  assumes "i = (mCurrFrameResourceIndex s + 1) mod gNumFrameResources"
  shows "Update X W gt env s =
     (if i \<ge> length (mFrameResources s) then Inl OutOfBounds
         else
           bindE (WaitForFence env (Fence (mFrameResources s ! i))
                    ((UpdateCamera X s)\<lparr>mCurrFrameResourceIndex := i, mCurrFrameResource := Some i\<rparr>)) (\<lambda>s3.
           bindE (AnimateMaterials X gt s3) (\<lambda>s4.
           bindE (UpdateObjectCBs X s4) (\<lambda>s5.
           bindE (UpdateMaterialCBs X s5) (\<lambda>s6.
           bindE (UpdateMainPassCB X gt s6) (\<lambda>s7.
           UpdateWaves X W gt env s7))))))"
  by (simp add: Update_def Update_statements_def AdvanceFrameResource_def
      WaitForCurrFrameResource_def CurrFrameResource_def Let_def UpdateCamera_fields assms bindE_def
      split: sum.splits)

lemma Update_steps:
  assumes "Update X W gt env s = Inr s'"
    and "i = (mCurrFrameResourceIndex s + 1) mod gNumFrameResources"
  shows "\<exists>f s4 s5 s6 s7.
     i < length (mFrameResources s)
     \<and> Fence (mFrameResources s ! i) \<le> f
     \<and> (Fence (mFrameResources s ! i) = 0 \<or> f = gpuCompleted env
          \<or> (gpuCompleted env < Fence (mFrameResources s ! i) \<and> f = gpuOnWake env))
     \<and> AnimateMaterials X gt ((UpdateCamera X s)\<lparr>mCurrFrameResourceIndex := i,
            mCurrFrameResource := Some i, mFence := f\<rparr>) = Inr s4
     \<and> UpdateObjectCBs X s4 = Inr s5
     \<and> UpdateMaterialCBs X s5 = Inr s6
     \<and> UpdateMainPassCB X gt s6 = Inr s7
     \<and> UpdateWaves X W gt env s7 = Inr s'"
proof -
  let ?s2 = "(UpdateCamera X s)\<lparr>mCurrFrameResourceIndex := i, mCurrFrameResource := Some i\<rparr>"
  note U = Update_unfold[OF assms(2), of X W gt env]
  from assms(1) have len: "i < length (mFrameResources s)"
    unfolding U by (cases "i < length (mFrameResources s)") simp_all
  with assms(1) obtain s3 s4 s5 s6 s7 where
    g: "WaitForFence env (Fence (mFrameResources s ! i)) ?s2 = Inr s3"
    and st: "AnimateMaterials X gt s3 = Inr s4" "UpdateObjectCBs X s4 = Inr s5"
    "UpdateMaterialCBs X s5 = Inr s6" "UpdateMainPassCB X gt s6 = Inr s7"
    "UpdateWaves X W gt env s7 = Inr s'"
    unfolding U by (auto simp: bindE_Inr)
  from WaitForFence_Inr[OF g] obtain f where
    f: "s3 = ?s2\<lparr>mFence := f\<rparr>" "Fence (mFrameResources s ! i) \<le> f"
      "Fence (mFrameResources s ! i) = 0 \<or> f = gpuCompleted env
          \<or> (gpuCompleted env < Fence (mFrameResources s ! i) \<and> f = gpuOnWake env)" by blast
  show ?thesis using len f st by blast
qed

lemma Update_frame:
  assumes U: "Update X W gt env s = Inr s'"
    and i: "i = (mCurrFrameResourceIndex s + 1) mod gNumFrameResources"
  shows "i < length (mFrameResources s)"
    and "mCurrFrameResourceIndex s' = i" and "mCurrFrameResource s' = Some i"
    and "length (mFrameResources s') = length (mFrameResources s)"
    and "\<forall>j. j \<noteq> i \<longrightarrow> mFrameResources s' ! j = mFrameResources s ! j"
    and "Fence (mFrameResources s' ! i) = Fence (mFrameResources s ! i)"
    and "CmdListAlloc (mFrameResources s' ! i) = CmdListAlloc (mFrameResources s ! i)"
    and "Fence (mFrameResources s ! i) \<le> mFence s'"
    and "Fence (mFrameResources s ! i) = 0 \<or> mFence s' = gpuCompleted env
          \<or> (gpuCompleted env < Fence (mFrameResources s ! i) \<and> mFence s' = gpuOnWake env)"
    and "UpdateObjectCBs_loop X (ObjectCB (mFrameResources s ! i)) (mAllRitems s)
           = Inr (ObjectCB (mFrameResources s' ! i), mAllRitems s')"
    and "\<exists>w. map_of (mMaterials s) ''water'' = Some w
           \<and> UpdateMaterialCBs_loop X (MaterialCB (mFrameResources s ! i))
                (AList.update ''water'' (AnimateMaterials_water X gt w) (mMaterials s))
              = Inr (MaterialCB (mFrameResources s' ! i), mMaterials s')"
    and "(t_base s', mWaves s') =
           UpdateWaves_simulate X W (GameTimer.TotalTime (mTimer s)) gt env (t_base s, mWaves s)"
    and "UpdateWaves_loop X W (mWaves s') (WavesVB (mFrameResources s ! i))
           [0..<VertexCount W (mWaves s')] = Inr (WavesVB (mFrameResources s' ! i))"
    and "\<exists>h ri geo. mWavesRitem s = Some h \<and> map_of (mAllRitems s') h = Some ri
           \<and> map_of (mGeometries s) (Geo ri) = Some geo
           \<and> mGeometries s' =
               AList.update (Geo ri)
                 (geo\<lparr>VertexBufferGPU := Some (Resource (WavesVB (mFrameResources s' ! i)))\<rparr>)
                 (mGeometries s)"
    and "mRitemLayer s' = mRitemLayer s \<and> mWavesRitem s' = mWavesRitem s
           \<and> mCurrentFence s' = mCurrentFence s \<and> mCommandQueue s' = mCommandQueue s
           \<and> mCurrBackBuffer s' = mCurrBackBuffer s \<and> mTimer s' = mTimer s"
proof -
  from Update_steps[OF U i] obtain f s4 s5 s6 s7 where
    len: "i < length (mFrameResources s)"
    and f: "Fence (mFrameResources s ! i) \<le> f"
    and f2: "Fence (mFrameResources s ! i) = 0 \<or> f = gpuCompleted env
          \<or> (gpuCompleted env < Fence (mFrameResources s ! i) \<and> f = gpuOnWake env)"
    and a: "AnimateMaterials X gt ((UpdateCamera X s)\<lparr>mCurrFrameResourceIndex := i,
            mCurrFrameResource := Some i, mFence := f\<rparr>) = Inr s4"
    and o: "UpdateObjectCBs X s4 = Inr s5"
    and m: "UpdateMaterialCBs X s5 = Inr s6"
    and p: "UpdateMainPassCB X gt s6 = Inr s7"
    and w: "UpdateWaves X W gt env s7 = Inr s'"
    by blast
  let ?s3 = "(UpdateCamera X s)\<lparr>mCurrFrameResourceIndex := i,
            mCurrFrameResource := Some i, mFence := f\<rparr>"
  have s3: "mFrameResources ?s3 = mFrameResources s" "mMaterials ?s3 = mMaterials s"
    "mAllRitems ?s3 = mAllRitems s" "mCurrFrameResource ?s3 = Some i"
    "mCurrFrameResourceIndex ?s3 = i" "mFence ?s3 = f" "mGeometries ?s3 = mGeometries s"
    "mWavesRitem ?s3 = mWavesRitem s" "t_base ?s3 = t_base s" "mWaves ?s3 = mWaves s"
    "mTimer ?s3 = mTimer s" "mRitemLayer ?s3 = mRitemLayer s" "mCurrentFence ?s3 = mCurrentFence s"
    "mCommandQueue ?s3 = mCommandQueue s" "mCurrBackBuffer ?s3 = mCurrBackBuffer s"
    by (simp_all add: UpdateCamera_def Let_def)
  from AnimateMaterials_effect[OF a] obtain wm where
    wm: "map_of (mMaterials s) ''water'' = Some wm"
    and s4: "s4 = ?s3\<lparr>mMaterials := AList.update ''water'' (AnimateMaterials_water X gt wm) (mMaterials s)\<rparr>"
    by (auto simp: s3)
  have s4f: "mFrameResources s4 = mFrameResources s" "mAllRitems s4 = mAllRitems s"
    "mCurrFrameResource s4 = Some i"
    "mMaterials s4 = AList.update ''water'' (AnimateMaterials_water X gt wm) (mMaterials s)"
    "mCurrFrameResourceIndex s4 = i" "mFence s4 = f" "mGeometries s4 = mGeometries s"
    "mWavesRitem s4 = mWavesRitem s" "t_base s4 = t_base s" "mWaves s4 = mWaves s"
    "mTimer s4 = mTimer s" "mRitemLayer s4 = mRitemLayer s" "mCurrentFence s4 = mCurrentFence s"
    "mCommandQueue s4 = mCommandQueue s" "mCurrBackBuffer s4 = mCurrBackBuffer s"
    unfolding s4 using s3 by simp_all
  from UpdateObjectCBs_effect[OF o] obtain ocb es where
    ol: "UpdateObjectCBs_loop X (ObjectCB (mFrameResources s ! i)) (mAllRitems s) = Inr (ocb, es)"
    and s5: "s5 = s4\<lparr>mFrameResources := (mFrameResources s)[i := (mFrameResources s ! i)\<lparr>ObjectCB := ocb\<rparr>],
              mAllRitems := es\<rparr>"
    by (auto simp: s4f)
  have s5f: "mFrameResources s5 = (mFrameResources s)[i := (mFrameResources s ! i)\<lparr>ObjectCB := ocb\<rparr>]"
    "mAllRitems s5 = es" "mCurrFrameResource s5 = Some i"
    "mMaterials s5 = AList.update ''water'' (AnimateMaterials_water X gt wm) (mMaterials s)"
    "mCurrFrameResourceIndex s5 = i" "mFence s5 = f" "mGeometries s5 = mGeometries s"
    "mWavesRitem s5 = mWavesRitem s" "t_base s5 = t_base s" "mWaves s5 = mWaves s"
    "mTimer s5 = mTimer s" "mRitemLayer s5 = mRitemLayer s" "mCurrentFence s5 = mCurrentFence s"
    "mCommandQueue s5 = mCommandQueue s" "mCurrBackBuffer s5 = mCurrBackBuffer s"
    unfolding s5 using s4f by simp_all
  from UpdateMaterialCBs_effect[OF m] len obtain mcb ms where
    ml: "UpdateMaterialCBs_loop X (MaterialCB (mFrameResources s ! i))
           (AList.update ''water'' (AnimateMaterials_water X gt wm) (mMaterials s)) = Inr (mcb, ms)"
    and s6: "s6 = s5\<lparr>mFrameResources :=
                 (mFrameResources s)[i := (mFrameResources s ! i)\<lparr>ObjectCB := ocb, MaterialCB := mcb\<rparr>],
              mMaterials := ms\<rparr>"
    by (auto simp: s5f)
  have s6f: "mFrameResources s6 =
      (mFrameResources s)[i := (mFrameResources s ! i)\<lparr>ObjectCB := ocb, MaterialCB := mcb\<rparr>]"
    "mAllRitems s6 = es" "mCurrFrameResource s6 = Some i" "mMaterials s6 = ms"
    "mCurrFrameResourceIndex s6 = i" "mFence s6 = f" "mGeometries s6 = mGeometries s"
    "mWavesRitem s6 = mWavesRitem s" "t_base s6 = t_base s" "mWaves s6 = mWaves s"
    "mTimer s6 = mTimer s" "mRitemLayer s6 = mRitemLayer s" "mCurrentFence s6 = mCurrentFence s"
    "mCommandQueue s6 = mCommandQueue s" "mCurrBackBuffer s6 = mCurrBackBuffer s"
    unfolding s6 using s5f by simp_all
  from UpdateMainPassCB_effect[OF p] len obtain cb pcb where
    s7: "s7 = s6\<lparr>mMainPassCB := cb, mFrameResources :=
           (mFrameResources s)[i := (mFrameResources s ! i)\<lparr>ObjectCB := ocb, MaterialCB := mcb, PassCB := pcb\<rparr>]\<rparr>"
    by (auto simp: s6f)
  have s7f: "mFrameResources s7 =
      (mFrameResources s)[i := (mFrameResources s ! i)\<lparr>ObjectCB := ocb, MaterialCB := mcb, PassCB := pcb\<rparr>]"
    "mAllRitems s7 = es" "mCurrFrameResource s7 = Some i" "mMaterials s7 = ms"
    "mCurrFrameResourceIndex s7 = i" "mFence s7 = f" "mGeometries s7 = mGeometries s"
    "mWavesRitem s7 = mWavesRitem s" "t_base s7 = t_base s" "mWaves s7 = mWaves s"
    "mTimer s7 = mTimer s" "mRitemLayer s7 = mRitemLayer s" "mCurrentFence s7 = mCurrentFence s"
    "mCommandQueue s7 = mCommandQueue s" "mCurrBackBuffer s7 = mCurrBackBuffer s"
    unfolding s7 using s6f by simp_all
  from UpdateWaves_effect[OF w] len obtain vb h ri geo where
    wl: "UpdateWaves_loop X W (mWaves s') (WavesVB (mFrameResources s ! i)) [0..<VertexCount W (mWaves s')] = Inr vb"
    and sim: "(t_base s', mWaves s') =
          UpdateWaves_simulate X W (GameTimer.TotalTime (mTimer s)) gt env (t_base s, mWaves s)"
    and h: "mWavesRitem s = Some h" "map_of es h = Some ri" "map_of (mGeometries s) (Geo ri) = Some geo"
    and s': "s' = s7\<lparr>t_base := t_base s', mWaves := mWaves s',
              mFrameResources := (mFrameResources s)[i := (mFrameResources s ! i)
                 \<lparr>ObjectCB := ocb, MaterialCB := mcb, PassCB := pcb, WavesVB := vb\<rparr>],
              mGeometries := AList.update (Geo ri) (geo\<lparr>VertexBufferGPU := Some (Resource vb)\<rparr>)
                               (mGeometries s)\<rparr>"
    by (auto simp: s7f)
  have s'f: "mFrameResources s' = (mFrameResources s)[i := (mFrameResources s ! i)
                 \<lparr>ObjectCB := ocb, MaterialCB := mcb, PassCB := pcb, WavesVB := vb\<rparr>]"
    "mAllRitems s' = es" "mCurrFrameResource s' = Some i" "mMaterials s' = ms"
    "mCurrFrameResourceIndex s' = i" "mFence s' = f"
    "mGeometries s' = AList.update (Geo ri) (geo\<lparr>VertexBufferGPU := Some (Resource vb)\<rparr>) (mGeometries s)"
    "mWavesRitem s' = mWavesRitem s"
    "mTimer s' = mTimer s" "mRitemLayer s' = mRitemLayer s" "mCurrentFence s' = mCurrentFence s"
    "mCommandQueue s' = mCommandQueue s" "mCurrBackBuffer s' = mCurrBackBuffer s"
    by (subst s'; simp add: s7f)+
  show "i < length (mFrameResources s)" by (rule len)
  show "mCurrFrameResourceIndex s' = i" "mCurrFrameResource s' = Some i" by (rule s'f)+
  show "length (mFrameResources s') = length (mFrameResources s)" by (simp add: s'f)
  show "\<forall>j. j \<noteq> i \<longrightarrow> mFrameResources s' ! j = mFrameResources s ! j" by (simp add: s'f)
  show "Fence (mFrameResources s' ! i) = Fence (mFrameResources s ! i)" using len by (simp add: s'f)
  show "CmdListAlloc (mFrameResources s' ! i) = CmdListAlloc (mFrameResources s ! i)"
    using len by (simp add: s'f)
  show "Fence (mFrameResources s ! i) \<le> mFence s'" using f by (simp add: s'f)
  show "Fence (mFrameResources s ! i) = 0 \<or> mFence s' = gpuCompleted env
          \<or> (gpuCompleted env < Fence (mFrameResources s ! i) \<and> mFence s' = gpuOnWake env)"
    using f2 by (simp add: s'f)
  show "UpdateObjectCBs_loop X (ObjectCB (mFrameResources s ! i)) (mAllRitems s)
           = Inr (ObjectCB (mFrameResources s' ! i), mAllRitems s')"
    using ol len by (simp add: s'f)
  show "\<exists>w. map_of (mMaterials s) ''water'' = Some w
           \<and> UpdateMaterialCBs_loop X (MaterialCB (mFrameResources s ! i))
                (AList.update ''water'' (AnimateMaterials_water X gt w) (mMaterials s))
              = Inr (MaterialCB (mFrameResources s' ! i), mMaterials s')"
    using wm ml len by (simp add: s'f)
  show "(t_base s', mWaves s') =
           UpdateWaves_simulate X W (GameTimer.TotalTime (mTimer s)) gt env (t_base s, mWaves s)"
    by (rule sim)
  show "UpdateWaves_loop X W (mWaves s') (WavesVB (mFrameResources s ! i))
           [0..<VertexCount W (mWaves s')] = Inr (WavesVB (mFrameResources s' ! i))"
    using wl len by (simp add: s'f)
  show "\<exists>h ri geo. mWavesRitem s = Some h \<and> map_of (mAllRitems s') h = Some ri
           \<and> map_of (mGeometries s) (Geo ri) = Some geo
           \<and> mGeometries s' =
               AList.update (Geo ri)
                 (geo\<lparr>VertexBufferGPU := Some (Resource (WavesVB (mFrameResources s' ! i)))\<rparr>)
                 (mGeometries s)"
    using h len by (simp add: s'f)
  show "mRitemLayer s' = mRitemLayer s \<and> mWavesRitem s' = mWavesRitem s
           \<and> mCurrentFence s' = mCurrentFence s \<and> mCommandQueue s' = mCommandQueue s
           \<and> mCurrBackBuffer s' = mCurrBackBuffer s \<and> mTimer s' = mTimer s"
    by (simp add: s'f)
qed



subsection \<open>The effect of the draw phase\<close>

lemma Draw_effect:
  assumes "Draw cbSize s = Inr s'"
  shows "\<exists>i c0 c1 c2 c3. mCurrFrameResource s = Some i \<and> i < length (mFrameResources s)
     \<and> DrawRenderItems cbSize s i (mRitemLayer s ! layer_index Opaque) = Inr c0
     \<and> DrawRenderItems cbSize s i (mRitemLayer s ! layer_index AlphaTested) = Inr c1
     \<and> DrawRenderItems cbSize s i (mRitemLayer s ! layer_index AlphaTestedTreeSprites) = Inr c2
     \<and> DrawRenderItems cbSize s i (mRitemLayer s ! layer_index Transparent) = Inr c3
     \<and> s' = s\<lparr>mFrameResources :=
                 (mFrameResources s)[i := (mFrameResources s ! i)
                    \<lparr>CmdListAlloc := Draw_prologue s i @ c0 @ [SetPipelineState ''alphaTested''] @ c1
                       @ [SetPipelineState ''treeSprites''] @ c2
                       @ [SetPipelineState ''transparent''] @ c3
                       @ [ResourceBarrier_RenderTarget_to_Present (mCurrBackBuffer s), Close],
                     Fence := mCurrentFence s + 1\<rparr>],
               mCommandQueue := mCommandQueue s @
                  [ExecuteCommandLists (Draw_prologue s i @ c0 @ [SetPipelineState ''alphaTested''] @ c1
                       @ [SetPipelineState ''treeSprites''] @ c2
                       @ [SetPipelineState ''transparent''] @ c3
                       @ [ResourceBarrier_RenderTarget_to_Present (mCurrBackBuffer s), Close]),
                   Present, Signal (mCurrentFence s + 1)],
               mCurrBackBuffer := (mCurrBackBuffer s + 1) mod SwapChainBufferCount,
               mCurrentFence := mCurrentFence s + 1\<rparr>"
  using assms unfolding Draw_def Let_def bindE_Inr CurrFrameResource_Inr by blast

lemma DrawRenderItem_object_draw:
  assumes "DrawRenderItem cbSize s i h = Inr c"
  shows "filter is_object_draw c = object_draw cbSize s i h"
proof -
  from assms obtain ri where ri: "map_of (mAllRitems s) h = Some ri"
    by (cases "map_of (mAllRitems s) h") (simp_all add: DrawRenderItem_def Let_def)
  from assms ri obtain geo where geo: "map_of (mGeometries s) (Geo ri) = Some geo"
    by (cases "map_of (mGeometries s) (Geo ri)") (simp_all add: DrawRenderItem_def Let_def)
  from assms ri geo obtain vr where vr: "VertexBufferGPU geo = Some vr"
    by (cases "VertexBufferGPU geo")
       (simp_all add: DrawRenderItem_def Let_def VertexBufferView_def bindE_def)
  from assms ri geo vr obtain ir where ir: "IndexBufferGPU geo = Some ir"
    by (cases "IndexBufferGPU geo")
       (simp_all add: DrawRenderItem_def Let_def VertexBufferView_def IndexBufferView_def bindE_def)
  from assms ri geo vr ir obtain mat where mat: "map_of (mMaterials s) (Mat ri) = Some mat"
    by (cases "map_of (mMaterials s) (Mat ri)")
       (simp_all add: DrawRenderItem_def Let_def VertexBufferView_def IndexBufferView_def bindE_def)
  from assms ri geo vr ir mat show ?thesis
    by (auto simp: DrawRenderItem_def Let_def VertexBufferView_def IndexBufferView_def bindE_def
        object_draw_def)
qed

lemma DrawRenderItems_object_draws:
  "DrawRenderItems cbSize s i hs = Inr cs \<Longrightarrow>
   filter is_object_draw cs = concat (map (object_draw cbSize s i) hs)"
proof (induction hs arbitrary: cs)
  case Nil
  then show ?case by simp
next
  case (Cons h hs)
  from Cons.prems obtain c cs' where c: "DrawRenderItem cbSize s i h = Inr c"
    and r: "DrawRenderItems cbSize s i hs = Inr cs'" and e: "cs = c @ cs'"
    by (auto simp: bindE_Inr)
  show ?case
    unfolding e by (simp add: DrawRenderItem_object_draw[OF c] Cons.IH[OF r])
qed

lemma push_back_layer_nth:
  "layer_index L < length layers \<Longrightarrow>
   push_back_layer L h layers ! layer_index K =
     (if K = L then layers ! layer_index K @ [h] else layers ! layer_index K)"
  by (cases K; cases L) (simp_all add: push_back_layer_def)

lemma push_back_layer_length: "length (push_back_layer L h layers) = length layers"
  by (simp add: push_back_layer_def)

lemma layer_index_less: "layer_index L < 4"
  by (cases L) simp_all

lemma register_items_nth:
  "length layers = 4 \<Longrightarrow>
   register_items regs layers ! layer_index K = layers ! layer_index K @ registered_in K regs"
proof (induction regs arbitrary: layers)
  case Nil
  then show ?case by (simp add: registered_in_def)
next
  case (Cons p regs)
  obtain L h where p: "p = (L, h)" by (cases p)
  have l: "length (push_back_layer L h layers) = 4"
    using Cons.prems by (simp add: push_back_layer_length)
  have li: "layer_index L < length layers" using Cons.prems layer_index_less[of L] by simp
  show ?case
    using Cons.IH[OF l] p push_back_layer_nth[OF li, of h K]
    by (auto simp: registered_in_def)
qed

subsection \<open>Frames\<close>

lemma Frame_Inr:
  "Frame X W cbSize f s = Inr s' \<longleftrightarrow>
   (\<exists>s1. Update X W (fst f) (snd f) (s\<lparr>mTimer := fst f\<rparr>) = Inr s1 \<and> Draw cbSize s1 = Inr s')"
  by (simp add: Frame_def bindE_Inr)

lemma Frame_frame:
  assumes F: "Frame X W cbSize f s = Inr s'"
    and i: "i = (mCurrFrameResourceIndex s + 1) mod gNumFrameResources"
  shows "i < length (mFrameResources s)"
    and "mCurrFrameResourceIndex s' = i" and "mCurrFrameResource s' = Some i"
    and "length (mFrameResources s') = length (mFrameResources s)"
    and "\<forall>j. j \<noteq> i \<longrightarrow> mFrameResources s' ! j = mFrameResources s ! j"
    and "Fence (mFrameResources s' ! i) = mCurrentFence s + 1"
    and "mCurrentFence s' = mCurrentFence s + 1"
    and "UpdateObjectCBs_loop X (ObjectCB (mFrameResources s ! i)) (mAllRitems s)
           = Inr (ObjectCB (mFrameResources s' ! i), mAllRitems s')"
    and "\<exists>w. map_of (mMaterials s) ''water'' = Some w
           \<and> UpdateMaterialCBs_loop X (MaterialCB (mFrameResources s ! i))
                (AList.update ''water'' (AnimateMaterials_water X (fst f) w) (mMaterials s))
              = Inr (MaterialCB (mFrameResources s' ! i), mMaterials s')"
    and "(t_base s', mWaves s') =
           UpdateWaves_simulate X W (GameTimer.TotalTime (fst f)) (fst f) (snd f) (t_base s, mWaves s)"
    and "UpdateWaves_loop X W (mWaves s') (WavesVB (mFrameResources s ! i))
           [0..<VertexCount W (mWaves s')] = Inr (WavesVB (mFrameResources s' ! i))"
    and "\<exists>h ri geo. mWavesRitem s = Some h \<and> map_of (mAllRitems s') h = Some ri
           \<and> map_of (mGeometries s) (Geo ri) = Some geo
           \<and> mGeometries s' =
               AList.update (Geo ri)
                 (geo\<lparr>VertexBufferGPU := Some (Resource (WavesVB (mFrameResources s' ! i)))\<rparr>)
                 (mGeometries s)"
    and "mRitemLayer s' = mRitemLayer s \<and> mWavesRitem s' = mWavesRitem s"
proof -
  from F obtain s1 where U: "Update X W (fst f) (snd f) (s\<lparr>mTimer := fst f\<rparr>) = Inr s1"
    and D: "Draw cbSize s1 = Inr s'"
    by (auto simp: Frame_Inr)
  let ?s = "s\<lparr>mTimer := fst f\<rparr>"
  have i': "i = (mCurrFrameResourceIndex ?s + 1) mod gNumFrameResources" using i by simp
  note uf = Update_frame[OF U i']
  have len: "i < length (mFrameResources s)" using uf(1) by simp
  from Draw_effect[OF D] uf(3) obtain cmds q where
    s': "s' = s1\<lparr>mFrameResources :=
                 (mFrameResources s1)[i := (mFrameResources s1 ! i)
                    \<lparr>CmdListAlloc := cmds, Fence := mCurrentFence s1 + 1\<rparr>],
               mCommandQueue := q,
               mCurrBackBuffer := (mCurrBackBuffer s1 + 1) mod SwapChainBufferCount,
               mCurrentFence := mCurrentFence s1 + 1\<rparr>"
    by auto
  have len1: "i < length (mFrameResources s1)" using uf(4) len by simp
  have fr: "mFrameResources s' = (mFrameResources s1)[i := (mFrameResources s1 ! i)
                    \<lparr>CmdListAlloc := cmds, Fence := mCurrentFence s1 + 1\<rparr>]"
    and same: "mAllRitems s' = mAllRitems s1" "mMaterials s' = mMaterials s1"
      "mCurrFrameResourceIndex s' = mCurrFrameResourceIndex s1"
      "mCurrFrameResource s' = mCurrFrameResource s1" "t_base s' = t_base s1"
      "mWaves s' = mWaves s1" "mGeometries s' = mGeometries s1"
      "mRitemLayer s' = mRitemLayer s1" "mWavesRitem s' = mWavesRitem s1"
      "mCurrentFence s' = mCurrentFence s1 + 1"
    by (simp_all add: s')
  have at_i: "ObjectCB (mFrameResources s' ! i) = ObjectCB (mFrameResources s1 ! i)"
    "MaterialCB (mFrameResources s' ! i) = MaterialCB (mFrameResources s1 ! i)"
    "WavesVB (mFrameResources s' ! i) = WavesVB (mFrameResources s1 ! i)"
    "Fence (mFrameResources s' ! i) = mCurrentFence s1 + 1"
    using len1 by (simp_all add: fr)
  show "i < length (mFrameResources s)" by (rule len)
  show "mCurrFrameResourceIndex s' = i" using uf(2) same by simp
  show "mCurrFrameResource s' = Some i" using uf(3) same by simp
  show "length (mFrameResources s') = length (mFrameResources s)" using uf(4) by (simp add: fr)
  show "\<forall>j. j \<noteq> i \<longrightarrow> mFrameResources s' ! j = mFrameResources s ! j"
    using uf(5) by (simp add: fr)
  show "Fence (mFrameResources s' ! i) = mCurrentFence s + 1" using at_i uf(15) by simp
  show "mCurrentFence s' = mCurrentFence s + 1" using same uf(15) by simp
  show "UpdateObjectCBs_loop X (ObjectCB (mFrameResources s ! i)) (mAllRitems s)
           = Inr (ObjectCB (mFrameResources s' ! i), mAllRitems s')"
    using uf(10) at_i same by simp
  show "\<exists>w. map_of (mMaterials s) ''water'' = Some w
           \<and> UpdateMaterialCBs_loop X (MaterialCB (mFrameResources s ! i))
                (AList.update ''water'' (AnimateMaterials_water X (fst f) w) (mMaterials s))
              = Inr (MaterialCB (mFrameResources s' ! i), mMaterials s')"
    using uf(11) at_i same by simp
  show "(t_base s', mWaves s') =
           UpdateWaves_simulate X W (GameTimer.TotalTime (fst f)) (fst f) (snd f) (t_base s, mWaves s)"
    using uf(12) same by simp
  show "UpdateWaves_loop X W (mWaves s') (WavesVB (mFrameResources s ! i))
           [0..<VertexCount W (mWaves s')] = Inr (WavesVB (mFrameResources s' ! i))"
    using uf(13) at_i same by simp
  show "\<exists>h ri geo. mWavesRitem s = Some h \<and> map_of (mAllRitems s') h = Some ri
           \<and> map_of (mGeometries s) (Geo ri) = Some geo
           \<and> mGeometries s' =
               AList.update (Geo ri)
                 (geo\<lparr>VertexBufferGPU := Some (Resource (WavesVB (mFrameResources s' ! i)))\<rparr>)
                 (mGeometries s)"
    using uf(14) at_i same by simp
  show "mRitemLayer s' = mRitemLayer s \<and> mWavesRitem s' = mWavesRitem s"
    using uf(15) same by simp
qed

lemma tick_item_index: "map (\<lambda>p. ObjCBIndex (snd p)) (map tick_item es) = map (\<lambda>p. ObjCBIndex (snd p)) es"
  by (simp add: tick_item_def o_def)

lemma tick_mat_index: "map (\<lambda>p. MatCBIndex (snd p)) (map tick_mat es) = map (\<lambda>p. MatCBIndex (snd p)) es"
  by (simp add: tick_mat_def o_def)

lemma objConstants_dirty [simp]:
  "objConstants X (e\<lparr>RenderItem.NumFramesDirty := n\<rparr>) = objConstants X e"
  by (simp add: objConstants_def)

lemma matConstants_dirty [simp]:
  "matConstants X (m\<lparr>Material.NumFramesDirty := n\<rparr>) = matConstants X m"
  by (simp add: matConstants_def)

lemma update_other_mem:
  "(k, m) \<in> set al \<Longrightarrow> k \<noteq> k0 \<Longrightarrow> (k, m) \<in> set (AList.update k0 v al)"
  by (induction al) auto

lemma update_self_mem: "(k0, v) \<in> set (AList.update k0 v al)"
  by (induction al) auto

lemma update_index:
  "map_of al k0 = Some w \<Longrightarrow> MatCBIndex v = MatCBIndex w \<Longrightarrow>
   map (\<lambda>p. MatCBIndex (snd p)) (AList.update k0 v al) = map (\<lambda>p. MatCBIndex (snd p)) al"
  by (induction al) (auto split: if_splits)

lemma map_of_tick_mat:
  "map_of (map tick_mat al) k = map_option (\<lambda>m. snd (tick_mat (k, m))) (map_of al k)"
  by (induction al) (auto simp: tick_mat_def)

lemma AnimateMaterials_water_fields:
  "MatCBIndex (AnimateMaterials_water X gt w) = MatCBIndex w"
  "Material.NumFramesDirty (AnimateMaterials_water X gt w) = int gNumFrameResources"
  by (simp_all add: AnimateMaterials_water_def Let_def)

text \<open>One frame, seen from a render item whose counter is positive.\<close>

lemma Frame_item:
  assumes F: "Frame X W cbSize f s = Inr s'"
    and d: "distinct (map (\<lambda>p. ObjCBIndex (snd p)) (mAllRitems s))"
    and p: "(h, e) \<in> set (mAllRitems s)" and pos: "RenderItem.NumFramesDirty e > 0"
  shows "mMappedData (ObjectCB (mFrameResources s' ! mCurrFrameResourceIndex s')) ! ObjCBIndex e
           = objConstants X e"
    and "(h, e\<lparr>RenderItem.NumFramesDirty := RenderItem.NumFramesDirty e - 1\<rparr>) \<in> set (mAllRitems s')"
    and "distinct (map (\<lambda>p. ObjCBIndex (snd p)) (mAllRitems s'))"
proof -
  note ff = Frame_frame[OF F refl]
  have it: "mAllRitems s' = map tick_item (mAllRitems s)"
    using obj_loop_items[OF ff(8)] by simp
  show "mMappedData (ObjectCB (mFrameResources s' ! mCurrFrameResourceIndex s')) ! ObjCBIndex e
           = objConstants X e"
    using obj_loop_written[OF ff(8) d p] pos ff(2) by simp
  have "tick_item (h, e) \<in> set (mAllRitems s')" unfolding it set_map using p by (rule imageI)
  then show "(h, e\<lparr>RenderItem.NumFramesDirty := RenderItem.NumFramesDirty e - 1\<rparr>) \<in> set (mAllRitems s')"
    using pos by (simp add: tick_item_def)
  show "distinct (map (\<lambda>p. ObjCBIndex (snd p)) (mAllRitems s'))"
    unfolding it tick_item_index by (rule d)
qed

text \<open>One frame, seen from a material other than water whose counter is positive.\<close>

lemma Frame_material:
  assumes F: "Frame X W cbSize f s = Inr s'"
    and d: "distinct (map (\<lambda>p. MatCBIndex (snd p)) (mMaterials s))"
    and p: "(k, m) \<in> set (mMaterials s)" and k: "k \<noteq> ''water''"
    and pos: "Material.NumFramesDirty m > 0"
  shows "mMappedData (MaterialCB (mFrameResources s' ! mCurrFrameResourceIndex s')) ! MatCBIndex m
           = matConstants X m"
    and "(k, m\<lparr>Material.NumFramesDirty := Material.NumFramesDirty m - 1\<rparr>) \<in> set (mMaterials s')"
    and "distinct (map (\<lambda>p. MatCBIndex (snd p)) (mMaterials s'))"
proof -
  note ff = Frame_frame[OF F refl]
  from ff(9) obtain w where w: "map_of (mMaterials s) ''water'' = Some w"
    and l: "UpdateMaterialCBs_loop X
              (MaterialCB (mFrameResources s ! ((mCurrFrameResourceIndex s + 1) mod gNumFrameResources)))
              (AList.update ''water'' (AnimateMaterials_water X (fst f) w) (mMaterials s))
            = Inr (MaterialCB (mFrameResources s' ! ((mCurrFrameResourceIndex s + 1) mod gNumFrameResources)),
                   mMaterials s')"
    by blast
  let ?al = "AList.update ''water'' (AnimateMaterials_water X (fst f) w) (mMaterials s)"
  have d': "distinct (map (\<lambda>p. MatCBIndex (snd p)) ?al)"
    using update_index[OF w AnimateMaterials_water_fields(1)] d by simp
  have p': "(k, m) \<in> set ?al" using update_other_mem[OF p k] .
  have it: "mMaterials s' = map tick_mat ?al" using mat_loop_items[OF l] by simp
  show "mMappedData (MaterialCB (mFrameResources s' ! mCurrFrameResourceIndex s')) ! MatCBIndex m
           = matConstants X m"
    using mat_loop_written[OF l d' p'] pos ff(2) by simp
  have "tick_mat (k, m) \<in> set (mMaterials s')" unfolding it set_map using p' by (rule imageI)
  then show "(k, m\<lparr>Material.NumFramesDirty := Material.NumFramesDirty m - 1\<rparr>) \<in> set (mMaterials s')"
    using pos by (simp add: tick_mat_def)
  show "distinct (map (\<lambda>p. MatCBIndex (snd p)) (mMaterials s'))"
    unfolding it tick_mat_index by (rule d')
qed

text \<open>One frame, seen from the water material.\<close>

lemma Frame_water:
  assumes F: "Frame X W cbSize f s = Inr s'"
  shows "\<exists>w. map_of (mMaterials s) ''water'' = Some w
     \<and> map_of (mMaterials s') ''water''
         = Some ((AnimateMaterials_water X (fst f) w)\<lparr>Material.NumFramesDirty := 2\<rparr>)
     \<and> (distinct (map (\<lambda>p. MatCBIndex (snd p)) (mMaterials s)) \<longrightarrow>
          mMappedData (MaterialCB (mFrameResources s' ! mCurrFrameResourceIndex s')) ! MatCBIndex w
            = matConstants X (AnimateMaterials_water X (fst f) w))"
proof -
  note ff = Frame_frame[OF F refl]
  from ff(9) obtain w where w: "map_of (mMaterials s) ''water'' = Some w"
    and l: "UpdateMaterialCBs_loop X
              (MaterialCB (mFrameResources s ! ((mCurrFrameResourceIndex s + 1) mod gNumFrameResources)))
              (AList.update ''water'' (AnimateMaterials_water X (fst f) w) (mMaterials s))
            = Inr (MaterialCB (mFrameResources s' ! ((mCurrFrameResourceIndex s + 1) mod gNumFrameResources)),
                   mMaterials s')"
    by blast
  let ?w = "AnimateMaterials_water X (fst f) w"
  let ?al = "AList.update ''water'' ?w (mMaterials s)"
  have it: "mMaterials s' = map tick_mat ?al" using mat_loop_items[OF l] by simp
  have pos: "Material.NumFramesDirty ?w > 0"
    by (simp add: AnimateMaterials_water_fields gNumFrameResources_def)
  have "map_of (mMaterials s') ''water'' = Some (snd (tick_mat (''water'', ?w)))"
    unfolding it map_of_tick_mat by (simp add: update_conv')
  then have m: "map_of (mMaterials s') ''water'' = Some (?w\<lparr>Material.NumFramesDirty := 2\<rparr>)"
    by (simp add: tick_mat_def AnimateMaterials_water_fields gNumFrameResources_def)
  have c: "mMappedData (MaterialCB (mFrameResources s' ! mCurrFrameResourceIndex s')) ! MatCBIndex w
            = matConstants X ?w"
    if d: "distinct (map (\<lambda>p. MatCBIndex (snd p)) (mMaterials s))"
  proof -
    have d': "distinct (map (\<lambda>p. MatCBIndex (snd p)) ?al)"
      using update_index[OF w AnimateMaterials_water_fields(1)] d by simp
    have "mMappedData (MaterialCB (mFrameResources s' ! mCurrFrameResourceIndex s')) ! MatCBIndex (snd (''water'', ?w))
            = matConstants X (snd (''water'', ?w))"
      using mat_loop_written[OF l d' update_self_mem] pos ff(2) by simp
    then show ?thesis by (simp add: AnimateMaterials_water_fields)
  qed
  show ?thesis using w m c by blast
qed

lemma ring_three:
  fixes a :: nat
  assumes "i1 = (a + 1) mod 3" "i2 = (i1 + 1) mod 3" "i3 = (i2 + 1) mod 3" "j < 3"
  shows "i1 \<noteq> i2 \<and> i2 \<noteq> i3 \<and> i1 \<noteq> i3 \<and> (j = i1 \<or> j = i2 \<or> j = i3)"
proof -
  have i1: "i1 = (a mod 3 + 1) mod 3" using assms(1) by (simp add: mod_Suc_eq)
  have "a mod 3 = 0 \<or> a mod 3 = 1 \<or> a mod 3 = 2" by arith
  then show ?thesis
  proof (elim disjE)
    assume "a mod 3 = 0"
    then have "i1 = 1" "i2 = 2" "i3 = 0" using i1 assms(2,3) by simp_all
    then show ?thesis using assms(4) by arith
  next
    assume "a mod 3 = 1"
    then have "i1 = 2" "i2 = 0" "i3 = 1" using i1 assms(2,3) by simp_all
    then show ?thesis using assms(4) by arith
  next
    assume "a mod 3 = 2"
    then have "i1 = 0" "i2 = 1" "i3 = 2" using i1 assms(2,3) by simp_all
    then show ?thesis using assms(4) by arith
  qed
qed

lemma Frames3_Inr:
  "Frames X W cbSize [f1, f2, f3] s0 = Inr s3 \<Longrightarrow>
   \<exists>s1 s2. Frame X W cbSize f1 s0 = Inr s1 \<and> Frame X W cbSize f2 s1 = Inr s2
      \<and> Frame X W cbSize f3 s2 = Inr s3"
  by (auto simp: bindE_Inr)

lemma items_three_frames:
  assumes F: "Frames X W cbSize [f1, f2, f3] s0 = Inr s3"
    and d: "distinct (map (\<lambda>p. ObjCBIndex (snd p)) (mAllRitems s0))"
    and p: "(h, e) \<in> set (mAllRitems s0)"
    and n: "RenderItem.NumFramesDirty e = int gNumFrameResources"
  shows "(\<forall>j<gNumFrameResources.
            mMappedData (ObjectCB (mFrameResources s3 ! j)) ! ObjCBIndex e = objConstants X e)
       \<and> (h, e\<lparr>RenderItem.NumFramesDirty := 0\<rparr>) \<in> set (mAllRitems s3)"
proof -
  from Frames3_Inr[OF F] obtain s1 s2 where
    F1: "Frame X W cbSize f1 s0 = Inr s1" and F2: "Frame X W cbSize f2 s1 = Inr s2"
    and F3: "Frame X W cbSize f3 s2 = Inr s3" by blast
  let ?e1 = "e\<lparr>RenderItem.NumFramesDirty := 2\<rparr>"
  let ?e2 = "e\<lparr>RenderItem.NumFramesDirty := 1\<rparr>"
  let ?e3 = "e\<lparr>RenderItem.NumFramesDirty := 0\<rparr>"
  have n3: "RenderItem.NumFramesDirty e = 3" using n by (simp add: gNumFrameResources_def)
  have pos0: "RenderItem.NumFramesDirty e > 0" using n3 by simp
  have pos1: "RenderItem.NumFramesDirty ?e1 > 0" and pos2: "RenderItem.NumFramesDirty ?e2 > 0"
    by simp_all
  note a1 = Frame_item[OF F1 d p pos0] and b1 = Frame_frame[OF F1 refl]
  have p1: "(h, ?e1) \<in> set (mAllRitems s1)" using a1(2) n3 by simp
  note a2 = Frame_item[OF F2 a1(3) p1 pos1] and b2 = Frame_frame[OF F2 refl]
  have p2: "(h, ?e2) \<in> set (mAllRitems s2)" using a2(2) by simp
  note a3 = Frame_item[OF F3 a2(3) p2 pos2] and b3 = Frame_frame[OF F3 refl]
  have p3: "(h, ?e3) \<in> set (mAllRitems s3)" using a3(2) by simp
  define i1 where "i1 = mCurrFrameResourceIndex s1"
  define i2 where "i2 = mCurrFrameResourceIndex s2"
  define i3 where "i3 = mCurrFrameResourceIndex s3"
  have idx: "i1 = (mCurrFrameResourceIndex s0 + 1) mod 3" "i2 = (i1 + 1) mod 3" "i3 = (i2 + 1) mod 3"
    using b1(2) b2(2) b3(2) by (simp_all add: i1_def i2_def i3_def gNumFrameResources_def)
  have w1: "mMappedData (ObjectCB (mFrameResources s1 ! i1)) ! ObjCBIndex e = objConstants X e"
    using a1(1) n3 by (simp add: i1_def)
  have w2: "mMappedData (ObjectCB (mFrameResources s2 ! i2)) ! ObjCBIndex e = objConstants X e"
    using a2(1) by (simp add: i2_def)
  have w3: "mMappedData (ObjectCB (mFrameResources s3 ! i3)) ! ObjCBIndex e = objConstants X e"
    using a3(1) by (simp add: i3_def)
  have k2: "\<forall>j. j \<noteq> i2 \<longrightarrow> mFrameResources s2 ! j = mFrameResources s1 ! j"
    using b2(5) by (simp add: i2_def idx(2) b2(2) gNumFrameResources_def)
  have k3: "\<forall>j. j \<noteq> i3 \<longrightarrow> mFrameResources s3 ! j = mFrameResources s2 ! j"
    using b3(5) by (simp add: i3_def b3(2) gNumFrameResources_def)
  have "mMappedData (ObjectCB (mFrameResources s3 ! j)) ! ObjCBIndex e = objConstants X e"
    if j: "j < 3" for j
  proof -
    from ring_three[OF idx j] have r: "i1 \<noteq> i2" "i2 \<noteq> i3" "i1 \<noteq> i3" "j = i1 \<or> j = i2 \<or> j = i3"
      by simp_all
    have "mFrameResources s3 ! i1 = mFrameResources s1 ! i1" using k2 k3 r by simp
    moreover have "mFrameResources s3 ! i2 = mFrameResources s2 ! i2" using k3 r by simp
    ultimately show ?thesis using r(4) w1 w2 w3 by auto
  qed
  then show ?thesis using p3 by (simp add: gNumFrameResources_def)
qed

lemma materials_three_frames:
  assumes F: "Frames X W cbSize [f1, f2, f3] s0 = Inr s3"
    and d: "distinct (map (\<lambda>p. MatCBIndex (snd p)) (mMaterials s0))"
    and p: "(k, m) \<in> set (mMaterials s0)" and kw: "k \<noteq> ''water''"
    and n: "Material.NumFramesDirty m = int gNumFrameResources"
  shows "(\<forall>j<gNumFrameResources.
            mMappedData (MaterialCB (mFrameResources s3 ! j)) ! MatCBIndex m = matConstants X m)
       \<and> (k, m\<lparr>Material.NumFramesDirty := 0\<rparr>) \<in> set (mMaterials s3)"
proof -
  from Frames3_Inr[OF F] obtain s1 s2 where
    F1: "Frame X W cbSize f1 s0 = Inr s1" and F2: "Frame X W cbSize f2 s1 = Inr s2"
    and F3: "Frame X W cbSize f3 s2 = Inr s3" by blast
  let ?e1 = "m\<lparr>Material.NumFramesDirty := 2\<rparr>"
  let ?e2 = "m\<lparr>Material.NumFramesDirty := 1\<rparr>"
  let ?e3 = "m\<lparr>Material.NumFramesDirty := 0\<rparr>"
  have n3: "Material.NumFramesDirty m = 3" using n by (simp add: gNumFrameResources_def)
  have pos0: "Material.NumFramesDirty m > 0" using n3 by simp
  have pos1: "Material.NumFramesDirty ?e1 > 0" and pos2: "Material.NumFramesDirty ?e2 > 0"
    by simp_all
  note a1 = Frame_material[OF F1 d p kw pos0] and b1 = Frame_frame[OF F1 refl]
  have p1: "(k, ?e1) \<in> set (mMaterials s1)" using a1(2) n3 by simp
  note a2 = Frame_material[OF F2 a1(3) p1 kw pos1] and b2 = Frame_frame[OF F2 refl]
  have p2: "(k, ?e2) \<in> set (mMaterials s2)" using a2(2) by simp
  note a3 = Frame_material[OF F3 a2(3) p2 kw pos2] and b3 = Frame_frame[OF F3 refl]
  have p3: "(k, ?e3) \<in> set (mMaterials s3)" using a3(2) by simp
  define i1 where "i1 = mCurrFrameResourceIndex s1"
  define i2 where "i2 = mCurrFrameResourceIndex s2"
  define i3 where "i3 = mCurrFrameResourceIndex s3"
  have idx: "i1 = (mCurrFrameResourceIndex s0 + 1) mod 3" "i2 = (i1 + 1) mod 3" "i3 = (i2 + 1) mod 3"
    using b1(2) b2(2) b3(2) by (simp_all add: i1_def i2_def i3_def gNumFrameResources_def)
  have w1: "mMappedData (MaterialCB (mFrameResources s1 ! i1)) ! MatCBIndex m = matConstants X m"
    using a1(1) n3 by (simp add: i1_def)
  have w2: "mMappedData (MaterialCB (mFrameResources s2 ! i2)) ! MatCBIndex m = matConstants X m"
    using a2(1) by (simp add: i2_def)
  have w3: "mMappedData (MaterialCB (mFrameResources s3 ! i3)) ! MatCBIndex m = matConstants X m"
    using a3(1) by (simp add: i3_def)
  have k2: "\<forall>j. j \<noteq> i2 \<longrightarrow> mFrameResources s2 ! j = mFrameResources s1 ! j"
    using b2(5) by (simp add: i2_def idx(2) b2(2) gNumFrameResources_def)
  have k3: "\<forall>j. j \<noteq> i3 \<longrightarrow> mFrameResources s3 ! j = mFrameResources s2 ! j"
    using b3(5) by (simp add: i3_def b3(2) gNumFrameResources_def)
  have "mMappedData (MaterialCB (mFrameResources s3 ! j)) ! MatCBIndex m = matConstants X m"
    if j: "j < 3" for j
  proof -
    from ring_three[OF idx j] have r: "i1 \<noteq> i2" "i2 \<noteq> i3" "i1 \<noteq> i3" "j = i1 \<or> j = i2 \<or> j = i3"
      by simp_all
    have "mFrameResources s3 ! i1 = mFrameResources s1 ! i1" using k2 k3 r by simp
    moreover have "mFrameResources s3 ! i2 = mFrameResources s2 ! i2" using k3 r by simp
    ultimately show ?thesis using r(4) w1 w2 w3 by auto
  qed
  then show ?thesis using p3 by (simp add: gNumFrameResources_def)
qed

lemma Frames_snoc:
  "Frames X W cbSize (fs @ [f]) s = bindE (Frames X W cbSize fs s) (\<lambda>s1. Frame X W cbSize f s1)"
proof (induction fs arbitrary: s)
  case Nil
  show ?case by (cases "Frame X W cbSize f s") (simp_all add: bindE_def)
next
  case (Cons g fs)
  show ?case by (cases "Frame X W cbSize g s") (simp_all add: bindE_def Cons.IH)
qed

lemma Frames_append:
  "Frames X W cbSize (fs @ gs) s = bindE (Frames X W cbSize fs s) (\<lambda>s1. Frames X W cbSize gs s1)"
proof (induction fs arbitrary: s)
  case Nil
  show ?case by (simp add: bindE_def)
next
  case (Cons g fs)
  show ?case by (cases "Frame X W cbSize g s") (simp_all add: bindE_def Cons.IH)
qed

lemma Frames_water:
  assumes "Frames X W cbSize fs s = Inr s'" and "fs \<noteq> []"
  shows "\<exists>w. map_of (mMaterials s') ''water'' = Some w \<and> Material.NumFramesDirty w = 2"
proof -
  from assms(2) obtain gs f where fs: "fs = gs @ [f]" by (metis rev_exhaust)
  with assms(1) obtain s1 where "Frame X W cbSize f s1 = Inr s'"
    by (auto simp: Frames_snoc bindE_Inr)
  from Frame_water[OF this] show ?thesis by auto
qed

subsection \<open>Evaluating the small scene\<close>

lemmas demo_defs = demo_app_def demo_frame_def demo_regs_def demo_item_def demo_geometry_def
  demo_material_def demo_frame_resource_def demo_vertex_def demo_matc_def demo_obj_def demo_pass_def
  demo_cbSize_def demo_waves_def ExactLib_def gNumFrameResources_def

lemmas step_defs = Update_def Update_statements_def AdvanceFrameResource_def
  WaitForCurrFrameResource_def UpdateCamera_def WaitForFence_def AnimateMaterials_def
  AnimateMaterials_water_def UpdateObjectCBs_def UpdateMaterialCBs_def UpdateMainPassCB_def
  UpdateWaves_def UpdateWaves_simulate_def CurrFrameResource_def CopyData_def bindE_def
  objConstants_def matConstants_def wave_vertex_def set_light_def Identity4x4_def
  push_back_layer_def upt_rec Frame_def Draw_def Draw_prologue_def DrawRenderItem_def
  VertexBufferView_def IndexBufferView_def SwapChainBufferCount_def to_UINT_def
  sizeof_ObjectConstants_def sizeof_MaterialConstants_def

lemma demo_three_frames:
  "\<exists>s. Frames ExactLib demo_waves demo_cbSize [demo_frame 1, demo_frame 2, demo_frame 3] demo_app = Inr s"
  by (simp add: demo_defs step_defs Let_def)

lemma demo_first_frame:
  "\<exists>s1 s2. Update ExactLib demo_waves (fst (demo_frame 1)) (snd (demo_frame 1)) demo_app = Inr s1
     \<and> Draw demo_cbSize s1 = Inr s2"
  by (simp add: demo_defs step_defs Let_def)

lemma demo_busy_update:
  "\<exists>s1 s2. Update ExactLib demo_waves (fst (demo_frame 9)) (demo_env 6 7) demo_busy = Inr s1
     \<and> Draw demo_cbSize s1 = Inr s2"
  by (simp add: demo_busy_def demo_env_def demo_defs step_defs Let_def)

subsection \<open>The fence gate\<close>

lemma states_of_hd: "states_of gs s ! 0 = s"
  by (cases gs) simp_all

lemma states_of_nonempty: "0 < length (states_of gs s)"
  by (cases gs) simp_all

lemma states_of_step:
  "k + 1 < length (states_of gs s) \<Longrightarrow>
   k < length gs \<and> (gs ! k) (states_of gs s ! k) = Inr (states_of gs s ! (k + 1))"
proof (induction gs arbitrary: s k)
  case Nil
  then show ?case by simp
next
  case (Cons g gs)
  show ?case
  proof (cases "g s")
    case (Inl e)
    with Cons.prems show ?thesis by simp
  next
    case (Inr a)
    show ?thesis
    proof (cases k)
      case 0
      then show ?thesis using Inr by (simp add: states_of_hd)
    next
      case (Suc n)
      with Cons.prems Inr have "n + 1 < length (states_of gs a)" by simp
      from Cons.IH[OF this] show ?thesis using Suc Inr by simp
    qed
  qed
qed

lemma states_of_run:
  "run_steps gs s = Inr s1 \<Longrightarrow>
   states_of (gs @ hs) s ! length gs = s1
   \<and> length (states_of (gs @ hs) s) = length gs + length (states_of hs s1)"
proof (induction gs arbitrary: s)
  case Nil
  then show ?case by (simp add: states_of_hd)
next
  case (Cons g gs)
  from Cons.prems obtain a where a: "g s = Inr a" and r: "run_steps gs a = Inr s1"
    by (auto simp: bindE_Inr)
  from Cons.IH[OF r] show ?case using a by simp
qed

lemma states_of_invariant:
  assumes "P s" and "\<And>g a b. g \<in> set gs \<Longrightarrow> P a \<Longrightarrow> g a = Inr b \<Longrightarrow> P b"
  shows "\<forall>x \<in> set (states_of gs s). P x"
  using assms
proof (induction gs arbitrary: s)
  case Nil
  then show ?case by simp
next
  case (Cons g gs)
  show ?case
  proof (cases "g s")
    case (Inl e)
    then show ?thesis using Cons.prems(1) by simp
  next
    case (Inr a)
    have a: "P a" using Cons.prems(2)[of g s a] Cons.prems(1) Inr by simp
    have "\<forall>x \<in> set (states_of gs a). P x"
    proof (rule Cons.IH[OF a])
      fix g' a' b' assume "g' \<in> set gs" "P a'" "g' a' = Inr b'"
      then show "P b'" using Cons.prems(2)[of g' a' b'] by simp
    qed
    then show ?thesis using Inr Cons.prems(1) by simp
  qed
qed

lemma UpdateWaves_fields:
  assumes "UpdateWaves X W gt env a = Inr b"
  shows "mCurrFrameResource b = mCurrFrameResource a \<and> mFence b = mFence a
     \<and> (\<exists>i vb. mCurrFrameResource a = Some i
           \<and> mFrameResources b = (mFrameResources a)[i := (mFrameResources a ! i)\<lparr>WavesVB := vb\<rparr>])"
proof -
  from UpdateWaves_effect[OF assms] obtain i vb h ri geo where
    c: "mCurrFrameResource a = Some i" and len: "i < length (mFrameResources a)"
    and l: "UpdateWaves_loop X W (mWaves b) (WavesVB (mFrameResources a ! i))
              [0..<VertexCount W (mWaves b)] = Inr vb"
    and h: "mWavesRitem a = Some h" "map_of (mAllRitems a) h = Some ri"
      "map_of (mGeometries a) (Geo ri) = Some geo"
    and b: "b = a\<lparr>t_base := t_base b, mWaves := mWaves b,
              mFrameResources := (mFrameResources a)[i := (mFrameResources a ! i)\<lparr>WavesVB := vb\<rparr>],
              mGeometries := AList.update (Geo ri) (geo\<lparr>VertexBufferGPU := Some (Resource vb)\<rparr>)
                               (mGeometries a)\<rparr>"
    by blast
  have "mCurrFrameResource b = mCurrFrameResource a" "mFence b = mFence a"
    "mFrameResources b = (mFrameResources a)[i := (mFrameResources a ! i)\<lparr>WavesVB := vb\<rparr>]"
    by (subst b; simp)+
  then show ?thesis using c by blast
qed

text \<open>The statements of a frame after the wait leave the selection and the other slots alone.\<close>

lemma after_wait_invariant:
  assumes g: "g \<in> set [AnimateMaterials X gt, UpdateObjectCBs X, UpdateMaterialCBs X,
                        UpdateMainPassCB X gt, UpdateWaves X W gt env, Draw cbSize]"
    and P: "mCurrFrameResource a = Some i \<and> mFence a = f
            \<and> (\<forall>j. j \<noteq> i \<longrightarrow> mFrameResources a ! j = R ! j)"
    and r: "g a = Inr b"
  shows "mCurrFrameResource b = Some i \<and> mFence b = f
            \<and> (\<forall>j. j \<noteq> i \<longrightarrow> mFrameResources b ! j = R ! j)"
proof -
  from g consider "g = AnimateMaterials X gt" | "g = UpdateObjectCBs X" | "g = UpdateMaterialCBs X"
    | "g = UpdateMainPassCB X gt" | "g = UpdateWaves X W gt env" | "g = Draw cbSize"
    by auto
  then show ?thesis
  proof cases
    case 1
    with r AnimateMaterials_effect[of X gt a b] P show ?thesis by auto
  next
    case 2
    with r UpdateObjectCBs_effect[of X a b] P show ?thesis by auto
  next
    case 3
    with r UpdateMaterialCBs_effect[of X a b] P show ?thesis by auto
  next
    case 4
    with r UpdateMainPassCB_effect[of X gt a b] P show ?thesis by auto
  next
    case 5
    with r have "UpdateWaves X W gt env a = Inr b" by simp
    from UpdateWaves_fields[OF this] P show ?thesis by auto
  next
    case 6
    with r Draw_effect[of cbSize a b] P show ?thesis by auto
  qed
qed

lemma nth_after_three:
  "3 \<le> k \<and> k < length ([a, b, c] @ xs) \<Longrightarrow>
   ([a, b, c] @ xs) ! k = xs ! (k - 3) \<and> k - 3 < length xs"
proof -
  assume a: "3 \<le> k \<and> k < length ([a, b, c] @ xs)"
  have "length [a, b, c] = 3" by simp
  then have "([a, b, c] @ xs) ! k = xs ! (k - 3)"
    using a by (metis nth_append not_less)
  moreover have "k - 3 < length xs" using a by (simp add: eval_nat_numeral) arith
  ultimately show ?thesis by simp
qed

text \<open>The states of a frame: up to the wait, and from the state in which the wait returns.\<close>

lemma frame_states:
  assumes "i = (mCurrFrameResourceIndex s + 1) mod gNumFrameResources"
  shows "states_of (Update_statements X W gt env @ [Draw cbSize]) s =
     s # UpdateCamera X s #
       (if length (mFrameResources s) \<le> i then []
        else (UpdateCamera X s)\<lparr>mCurrFrameResourceIndex := i, mCurrFrameResource := Some i\<rparr> #
          (case WaitForFence env (Fence (mFrameResources s ! i))
                  ((UpdateCamera X s)\<lparr>mCurrFrameResourceIndex := i, mCurrFrameResource := Some i\<rparr>) of
             Inl e \<Rightarrow> []
           | Inr s3 \<Rightarrow>
               states_of [AnimateMaterials X gt, UpdateObjectCBs X, UpdateMaterialCBs X,
                          UpdateMainPassCB X gt, UpdateWaves X W gt env, Draw cbSize] s3))"
  by (simp add: Update_statements_def AdvanceFrameResource_def WaitForCurrFrameResource_def
      CurrFrameResource_def Let_def UpdateCamera_fields assms bindE_def split: sum.splits)

text \<open>
  C1. The states that a frame passes through are listed in \<open>t\<close>: the state it starts in
  and the state after each statement of \<open>Update\<close> and then \<open>Draw\<close> that returns; the
  statement of index 2 is the wait on the fence of the frame resource that the statement
  before it has selected, of ring index \<open>i\<close>. When the fence of slot \<open>i\<close> is not zero,
  the completed value read from the device is below it and the fence has not reached it,
  \<open>Update\<close> does not return and the frame has passed through three states only: the
  program is waiting. No state up to the one in which the wait returns, of index 3,
  differs from the first in any frame resource, so that a statement that changes a frame
  resource, be it a constant buffer, the wave vertex buffer or the command allocator,
  starts in a state of index 3 at least. In every such state slot \<open>i\<close> is the selected
  one, the completed value that the program has observed is at least the fence last
  stamped on slot \<open>i\<close> (read directly, or through the wait; nothing is read when the
  fence is zero, the slot never having been submitted), and no other slot differs from
  what it was. When \<open>Update\<close> returns, the command allocator of slot \<open>i\<close> has not yet
  been reset, and the \<open>Draw\<close> that follows resets and stamps slot \<open>i\<close> only.
\<close>

theorem C1_recording_waits_for_fence:
  assumes i: "i = (mCurrFrameResourceIndex s + 1) mod gNumFrameResources"
    and t: "t = states_of (Update_statements X W gt env @ [Draw cbSize]) s"
  shows "(t ! 0 = s
        \<and> (\<forall>k. k + 1 < length t \<longrightarrow>
              ((Update_statements X W gt env @ [Draw cbSize]) ! k) (t ! k) = Inr (t ! (k + 1)))
        \<and> (Update_statements X W gt env @ [Draw cbSize]) ! 2 = WaitForCurrFrameResource env)
       \<and> (i < length (mFrameResources s) \<and> Fence (mFrameResources s ! i) \<noteq> 0
            \<and> gpuCompleted env < Fence (mFrameResources s ! i)
            \<and> gpuOnWake env < Fence (mFrameResources s ! i)
          \<longrightarrow> Update X W gt env s = Inl WaitingForFence \<and> length t = 3)
       \<and> (\<forall>k. k \<le> 3 \<and> k < length t \<longrightarrow> mFrameResources (t ! k) = mFrameResources s)
       \<and> (\<forall>k. 3 \<le> k \<and> k < length t \<longrightarrow>
             mCurrFrameResource (t ! k) = Some i
           \<and> Fence (mFrameResources s ! i) \<le> mFence (t ! k)
           \<and> (Fence (mFrameResources s ! i) = 0 \<or> mFence (t ! k) = gpuCompleted env
                \<or> (gpuCompleted env < Fence (mFrameResources s ! i) \<and> mFence (t ! k) = gpuOnWake env))
           \<and> (\<forall>j. j \<noteq> i \<longrightarrow> mFrameResources (t ! k) ! j = mFrameResources s ! j))
       \<and> (\<forall>k. k + 1 < length t \<and> mFrameResources (t ! (k + 1)) \<noteq> mFrameResources (t ! k) \<longrightarrow> 3 \<le> k)
       \<and> (\<forall>s1. Update X W gt env s = Inr s1 \<longrightarrow>
             mCurrFrameResourceIndex s1 = i \<and> mCurrFrameResource s1 = Some i
           \<and> Fence (mFrameResources s ! i) \<le> mFence s1
           \<and> (Fence (mFrameResources s ! i) = 0 \<or> mFence s1 = gpuCompleted env
                \<or> (gpuCompleted env < Fence (mFrameResources s ! i) \<and> mFence s1 = gpuOnWake env))
           \<and> (\<forall>j. j \<noteq> i \<longrightarrow> mFrameResources s1 ! j = mFrameResources s ! j)
           \<and> CmdListAlloc (mFrameResources s1 ! i) = CmdListAlloc (mFrameResources s ! i)
           \<and> Fence (mFrameResources s1 ! i) = Fence (mFrameResources s ! i)
           \<and> 8 < length t \<and> t ! 8 = s1
           \<and> (\<forall>s2. Draw cbSize s1 = Inr s2 \<longrightarrow>
                 (\<forall>j. j \<noteq> i \<longrightarrow> mFrameResources s2 ! j = mFrameResources s ! j)
               \<and> Fence (mFrameResources s2 ! i) = mCurrentFence s + 1
               \<and> mCurrentFence s2 = mCurrentFence s + 1
               \<and> length t = 10 \<and> t ! 9 = s2))"
    (is "?steps \<and> ?blocked \<and> ?before \<and> ?after \<and> ?changed \<and> ?ret")
proof -
  let ?s1 = "UpdateCamera X s"
  let ?s2 = "?s1\<lparr>mCurrFrameResourceIndex := i, mCurrFrameResource := Some i\<rparr>"
  let ?rest = "[AnimateMaterials X gt, UpdateObjectCBs X, UpdateMaterialCBs X,
                UpdateMainPassCB X gt, UpdateWaves X W gt env, Draw cbSize]"
  note ts = frame_states[OF i, of X W gt env cbSize, folded t]
  have fr12: "mFrameResources ?s1 = mFrameResources s" "mFrameResources ?s2 = mFrameResources s"
    by (simp_all add: UpdateCamera_fields)
  have steps: ?steps
  proof (intro conjI allI impI)
    show "t ! 0 = s" unfolding t by (rule states_of_hd)
    show "(Update_statements X W gt env @ [Draw cbSize]) ! 2 = WaitForCurrFrameResource env"
      by (simp add: Update_statements_def)
    fix k assume "k + 1 < length t"
    then have "k + 1 < length (states_of (Update_statements X W gt env @ [Draw cbSize]) s)"
      unfolding t .
    from states_of_step[OF this]
    show "((Update_statements X W gt env @ [Draw cbSize]) ! k) (t ! k) = Inr (t ! (k + 1))"
      unfolding t by (rule conjunct2)
  qed
  have blocked: ?blocked
  proof (intro impI)
    assume a: "i < length (mFrameResources s) \<and> Fence (mFrameResources s ! i) \<noteq> 0
            \<and> gpuCompleted env < Fence (mFrameResources s ! i)
            \<and> gpuOnWake env < Fence (mFrameResources s ! i)"
    then have w: "WaitForFence env (Fence (mFrameResources s ! i)) ?s2 = Inl WaitingForFence"
      by (simp add: WaitForFence_def)
    have "Update X W gt env s = Inl WaitingForFence"
      unfolding Update_unfold[OF i] using a w by (simp add: bindE_def)
    moreover have "length t = 3" unfolding ts using a w by simp
    ultimately show "Update X W gt env s = Inl WaitingForFence \<and> length t = 3" by simp
  qed
  have split: "(length (mFrameResources s) \<le> i \<and> t = [s, ?s1])
      \<or> (i < length (mFrameResources s) \<and> t = [s, ?s1, ?s2])
      \<or> (\<exists>s3 f. i < length (mFrameResources s) \<and> s3 = ?s2\<lparr>mFence := f\<rparr>
            \<and> Fence (mFrameResources s ! i) \<le> f
            \<and> (Fence (mFrameResources s ! i) = 0 \<or> f = gpuCompleted env
                 \<or> (gpuCompleted env < Fence (mFrameResources s ! i) \<and> f = gpuOnWake env))
            \<and> t = [s, ?s1, ?s2] @ states_of ?rest s3)"
  proof (cases "length (mFrameResources s) \<le> i")
    case True
    then show ?thesis unfolding ts by simp
  next
    case False
    show ?thesis
    proof (cases "WaitForFence env (Fence (mFrameResources s ! i)) ?s2")
      case (Inl e)
      then show ?thesis unfolding ts using False by simp
    next
      case (Inr s3)
      from WaitForFence_Inr[OF Inr] obtain f where
        "s3 = ?s2\<lparr>mFence := f\<rparr>" "Fence (mFrameResources s ! i) \<le> f"
        "Fence (mFrameResources s ! i) = 0 \<or> f = gpuCompleted env
          \<or> (gpuCompleted env < Fence (mFrameResources s ! i) \<and> f = gpuOnWake env)"
        by blast
      moreover have "t = [s, ?s1, ?s2] @ states_of ?rest s3"
        unfolding ts using False Inr by simp
      ultimately show ?thesis using False by auto
    qed
  qed
  have before: ?before
  proof (intro allI impI)
    fix k assume k: "k \<le> 3 \<and> k < length t"
    then have "k = 0 \<or> k = 1 \<or> k = 2 \<or> k = 3" by arith
    moreover have "mFrameResources (t ! 0) = mFrameResources s"
      unfolding ts by simp
    moreover have "1 < length t \<longrightarrow> mFrameResources (t ! 1) = mFrameResources s"
      unfolding ts by (simp add: fr12)
    moreover have "2 < length t \<longrightarrow> mFrameResources (t ! 2) = mFrameResources s"
      using split fr12 by auto
    moreover have "3 < length t \<longrightarrow> mFrameResources (t ! 3) = mFrameResources s"
    proof
      assume l: "3 < length t"
      with split obtain s3 f where s3: "s3 = ?s2\<lparr>mFence := f\<rparr>"
        and tt: "t = [s, ?s1, ?s2] @ states_of ?rest s3"
        by auto
      have "t ! 3 = s3" unfolding tt by simp
      then show "mFrameResources (t ! 3) = mFrameResources s"
        by (simp add: s3 fr12)
    qed
    ultimately show "mFrameResources (t ! k) = mFrameResources s" using k by auto
  qed
  have after: ?after
  proof (intro allI impI)
    fix k assume k: "3 \<le> k \<and> k < length t"
    with split obtain s3 f where len: "i < length (mFrameResources s)"
      and s3: "s3 = ?s2\<lparr>mFence := f\<rparr>"
      and f1: "Fence (mFrameResources s ! i) \<le> f"
      and f2: "Fence (mFrameResources s ! i) = 0 \<or> f = gpuCompleted env
                 \<or> (gpuCompleted env < Fence (mFrameResources s ! i) \<and> f = gpuOnWake env)"
      and tt: "t = [s, ?s1, ?s2] @ states_of ?rest s3"
      by auto
    have P3: "mCurrFrameResource s3 = Some i \<and> mFence s3 = f
            \<and> (\<forall>j. j \<noteq> i \<longrightarrow> mFrameResources s3 ! j = mFrameResources s ! j)"
      by (simp add: s3 fr12)
    have inv: "\<forall>x \<in> set (states_of ?rest s3).
            mCurrFrameResource x = Some i \<and> mFence x = f
            \<and> (\<forall>j. j \<noteq> i \<longrightarrow> mFrameResources x ! j = mFrameResources s ! j)"
    proof (rule states_of_invariant[where s = s3 and gs = "?rest" and P = "\<lambda>x.
            mCurrFrameResource x = Some i \<and> mFence x = f
            \<and> (\<forall>j. j \<noteq> i \<longrightarrow> mFrameResources x ! j = mFrameResources s ! j)"])
      show "mCurrFrameResource s3 = Some i \<and> mFence s3 = f
            \<and> (\<forall>j. j \<noteq> i \<longrightarrow> mFrameResources s3 ! j = mFrameResources s ! j)"
        by (rule P3)
    next
      fix g a b
      assume "g \<in> set ?rest"
        and "mCurrFrameResource a = Some i \<and> mFence a = f
            \<and> (\<forall>j. j \<noteq> i \<longrightarrow> mFrameResources a ! j = mFrameResources s ! j)"
        and "g a = Inr b"
      then show "mCurrFrameResource b = Some i \<and> mFence b = f
            \<and> (\<forall>j. j \<noteq> i \<longrightarrow> mFrameResources b ! j = mFrameResources s ! j)"
        by (rule after_wait_invariant)
    qed
    have "t ! k = states_of ?rest s3 ! (k - 3)" "k - 3 < length (states_of ?rest s3)"
      using nth_after_three[of k s ?s1 ?s2 "states_of ?rest s3"] k unfolding tt by blast+
    then have "t ! k \<in> set (states_of ?rest s3)" by (metis nth_mem)
    with inv have "mCurrFrameResource (t ! k) = Some i \<and> mFence (t ! k) = f
            \<and> (\<forall>j. j \<noteq> i \<longrightarrow> mFrameResources (t ! k) ! j = mFrameResources s ! j)"
      by blast
    then show "mCurrFrameResource (t ! k) = Some i
           \<and> Fence (mFrameResources s ! i) \<le> mFence (t ! k)
           \<and> (Fence (mFrameResources s ! i) = 0 \<or> mFence (t ! k) = gpuCompleted env
                \<or> (gpuCompleted env < Fence (mFrameResources s ! i) \<and> mFence (t ! k) = gpuOnWake env))
           \<and> (\<forall>j. j \<noteq> i \<longrightarrow> mFrameResources (t ! k) ! j = mFrameResources s ! j)"
      using f1 f2 by simp
  qed
  have changed: ?changed
  proof (intro allI impI)
    fix k
    assume a: "k + 1 < length t \<and> mFrameResources (t ! (k + 1)) \<noteq> mFrameResources (t ! k)"
    show "3 \<le> k"
    proof (rule ccontr)
      assume "\<not> 3 \<le> k"
      then have "k \<le> 3 \<and> k < length t" "k + 1 \<le> 3 \<and> k + 1 < length t" using a by simp_all
      then have "mFrameResources (t ! k) = mFrameResources s"
        "mFrameResources (t ! (k + 1)) = mFrameResources s"
        using before by blast+
      with a show False by simp
    qed
  qed
  have ret: ?ret
  proof (intro conjI impI allI)
    fix s1 assume U: "Update X W gt env s = Inr s1"
    note uf = Update_frame[OF U i]
    show "mCurrFrameResourceIndex s1 = i" "mCurrFrameResource s1 = Some i"
      "Fence (mFrameResources s ! i) \<le> mFence s1"
      "Fence (mFrameResources s ! i) = 0 \<or> mFence s1 = gpuCompleted env
         \<or> (gpuCompleted env < Fence (mFrameResources s ! i) \<and> mFence s1 = gpuOnWake env)"
      "CmdListAlloc (mFrameResources s1 ! i) = CmdListAlloc (mFrameResources s ! i)"
      "Fence (mFrameResources s1 ! i) = Fence (mFrameResources s ! i)"
      using uf by simp_all
    show "\<And>j. j \<noteq> i \<Longrightarrow> mFrameResources s1 ! j = mFrameResources s ! j"
      using uf(5) by simp
    have R: "run_steps (Update_statements X W gt env) s = Inr s1"
      using U by (simp add: Update_def)
    have l8: "length (Update_statements X W gt env) = 8"
      by (simp add: Update_statements_def)
    note sr = states_of_run[OF R, of "[Draw cbSize]", folded t, unfolded l8]
    show "8 < length t" using sr states_of_nonempty[of "[Draw cbSize]" s1] by simp
    show "t ! 8 = s1" using sr by simp
    fix s2 assume D: "Draw cbSize s1 = Inr s2"
    have len1: "i < length (mFrameResources s1)" using uf(1,4) by simp
    from Draw_effect[OF D] uf(3) obtain cmds q where
      s2: "s2 = s1\<lparr>mFrameResources :=
                 (mFrameResources s1)[i := (mFrameResources s1 ! i)
                    \<lparr>CmdListAlloc := cmds, Fence := mCurrentFence s1 + 1\<rparr>],
               mCommandQueue := q,
               mCurrBackBuffer := (mCurrBackBuffer s1 + 1) mod SwapChainBufferCount,
               mCurrentFence := mCurrentFence s1 + 1\<rparr>"
      by auto
    show "\<And>j. j \<noteq> i \<Longrightarrow> mFrameResources s2 ! j = mFrameResources s ! j"
      using uf(5) by (simp add: s2)
    show "Fence (mFrameResources s2 ! i) = mCurrentFence s + 1"
      using len1 uf(15) by (simp add: s2)
    show "mCurrentFence s2 = mCurrentFence s + 1" using uf(15) by (simp add: s2)
    show l10: "length t = 10" using sr D by simp
    have "((Update_statements X W gt env @ [Draw cbSize]) ! 8) (t ! 8) = Inr (t ! (8 + 1))"
      using steps l10 by simp
    then show "t ! 9 = s2" using sr D by (simp add: Update_statements_def)
  qed
  show ?thesis
    by (rule conjI[OF steps conjI[OF blocked conjI[OF before conjI[OF after conjI[OF changed ret]]]]])
qed

text \<open>
  The theorem at \<open>demo_busy\<close>: slot 1 carries the fence 7 and the device has completed
  6. When the fence stays at 6 the frame stops in its third state. When the wait ends with
  the fence at 7, the frame passes through ten states; the state of index 3 records the
  value 7 and has the frame resources of the first, and the object constants of slot 1 are
  overwritten after it.
\<close>

theorem C1_recording_waits_for_fence_witness:
  "1 = (mCurrFrameResourceIndex demo_busy + 1) mod gNumFrameResources
   \<and> 1 < length (mFrameResources demo_busy) \<and> Fence (mFrameResources demo_busy ! 1) = 7
   \<and> mFence demo_busy = 6
   \<and> Update ExactLib demo_waves (fst (demo_frame 9)) (demo_env 6 6) demo_busy = Inl WaitingForFence
   \<and> length (states_of (Update_statements ExactLib demo_waves (fst (demo_frame 9)) (demo_env 6 6)
                          @ [Draw demo_cbSize]) demo_busy) = 3
   \<and> (\<exists>s1 s2 t.
         t = states_of (Update_statements ExactLib demo_waves (fst (demo_frame 9)) (demo_env 6 7)
                        @ [Draw demo_cbSize]) demo_busy
         \<and> Update ExactLib demo_waves (fst (demo_frame 9)) (demo_env 6 7) demo_busy = Inr s1
         \<and> Draw demo_cbSize s1 = Inr s2
         \<and> length t = 10 \<and> t ! 8 = s1 \<and> t ! 9 = s2
         \<and> mFence (t ! 3) = 7
         \<and> mFrameResources (t ! 3) = mFrameResources demo_busy
         \<and> mCurrFrameResource s1 = Some 1 \<and> mFence s1 = 7
         \<and> mFrameResources s1 ! 0 = mFrameResources demo_busy ! 0
         \<and> mMappedData (ObjectCB (mFrameResources demo_busy ! 1)) ! 2 = demo_obj
         \<and> mMappedData (ObjectCB (mFrameResources s1 ! 1)) ! 2 =
               \<lparr>ObjectConstants.World = ((2, 0, 0, 3), (0, 2, 0, 4), (0, 0, 2, 5), (0, 0, 0, 1)),
                ObjectConstants.TexTransform = Identity4x4\<rparr>
         \<and> Fence (mFrameResources s2 ! 1) = 9)"
proof -
  let ?gt = "fst (demo_frame 9)"
  have i: "1 = (mCurrFrameResourceIndex demo_busy + 1) mod gNumFrameResources"
    by (simp add: demo_busy_def demo_defs)
  have f: "1 < length (mFrameResources demo_busy)" "Fence (mFrameResources demo_busy ! 1) = 7"
    "mCurrentFence demo_busy = 8" "mFence demo_busy = 6"
    by (simp_all add: demo_busy_def demo_defs)
  have e: "gpuCompleted (demo_env 6 6) = 6" "gpuOnWake (demo_env 6 6) = 6"
    "gpuCompleted (demo_env 6 7) = 6" "gpuOnWake (demo_env 6 7) = 7"
    by (simp_all add: demo_env_def)
  note c6 = C1_recording_waits_for_fence[OF i refl, of ExactLib demo_waves ?gt "demo_env 6 6" demo_cbSize]
  have blocked:
    "Update ExactLib demo_waves ?gt (demo_env 6 6) demo_busy = Inl WaitingForFence
     \<and> length (states_of (Update_statements ExactLib demo_waves ?gt (demo_env 6 6)
                          @ [Draw demo_cbSize]) demo_busy) = 3"
    by (rule c6[THEN conjunct2, THEN conjunct1, rule_format]) (insert f, simp add: e)
  define t where "t = states_of (Update_statements ExactLib demo_waves ?gt (demo_env 6 7)
                        @ [Draw demo_cbSize]) demo_busy"
  from demo_busy_update obtain s1 s2 where
    U: "Update ExactLib demo_waves ?gt (demo_env 6 7) demo_busy = Inr s1"
    and D: "Draw demo_cbSize s1 = Inr s2" by blast
  note c7 = C1_recording_waits_for_fence[OF i t_def]
  note r = c7[THEN conjunct2, THEN conjunct2, THEN conjunct2, THEN conjunct2, THEN conjunct2,
              rule_format, OF U]
  have c1: "mCurrFrameResource s1 = Some 1" using r by blast
  have "mFence s1 = gpuCompleted (demo_env 6 7)
          \<or> (gpuCompleted (demo_env 6 7) < 7 \<and> mFence s1 = gpuOnWake (demo_env 6 7))"
    and "7 \<le> mFence s1"
    using r f(2) by auto
  then have c2: "mFence s1 = 7" by (simp add: e)
  have c3: "mFrameResources s1 ! 0 = mFrameResources demo_busy ! 0" using r by simp
  have t8: "t ! 8 = s1" using r by blast
  have "Fence (mFrameResources s2 ! 1) = mCurrentFence demo_busy + 1"
    and l10: "length t = 10" and t9: "t ! 9 = s2"
    using r D by blast+
  then have c4: "Fence (mFrameResources s2 ! 1) = 9" by (simp add: f)
  have b3: "mFrameResources (t ! 3) = mFrameResources demo_busy"
    using c7[THEN conjunct2, THEN conjunct2, THEN conjunct1, rule_format, of 3] l10 by simp
  note a3 = c7[THEN conjunct2, THEN conjunct2, THEN conjunct2, THEN conjunct1, rule_format, of 3]
  have "7 \<le> mFence (t ! 3)"
    and "mFence (t ! 3) = gpuCompleted (demo_env 6 7)
          \<or> (gpuCompleted (demo_env 6 7) < 7 \<and> mFence (t ! 3) = gpuOnWake (demo_env 6 7))"
    using a3 l10 f(2) by auto
  then have m3: "mFence (t ! 3) = 7" by (simp add: e)
  have o0: "mMappedData (ObjectCB (mFrameResources demo_busy ! 1)) ! 2 = demo_obj"
    by (simp add: demo_busy_def demo_app_def demo_frame_resource_def)
  have d: "distinct (map (\<lambda>p. ObjCBIndex (snd p)) (mAllRitems demo_busy))"
    by (simp add: demo_busy_def demo_app_def demo_item_def)
  let ?e = "demo_item ((2, 0, 0, 0), (0, 2, 0, 0), (0, 0, 2, 0), (3, 4, 5, 1)) 2 ''grass'' ''landGeo''"
  have pe: "(2, ?e) \<in> set (mAllRitems demo_busy)"
    by (simp add: demo_busy_def demo_app_def)
  have pos: "RenderItem.NumFramesDirty (snd (2 :: nat, ?e)) > 0"
    by (simp add: demo_item_def gNumFrameResources_def)
  from obj_loop_written[OF Update_frame(10)[OF U i] d pe pos]
  have o1: "mMappedData (ObjectCB (mFrameResources s1 ! 1)) ! 2 =
               \<lparr>ObjectConstants.World = ((2, 0, 0, 3), (0, 2, 0, 4), (0, 0, 2, 5), (0, 0, 0, 1)),
                ObjectConstants.TexTransform = Identity4x4\<rparr>"
    by (simp add: objConstants_def demo_item_def ExactLib_def Identity4x4_def)
  show ?thesis
    using i f blocked t_def U D l10 t8 t9 m3 b3 c1 c2 c3 o0 o1 c4 by blast
qed

subsection \<open>Propagation of dirty data\<close>

lemma distinct_map_eq:
  "distinct (map f xs) \<Longrightarrow> p \<in> set xs \<Longrightarrow> q \<in> set xs \<Longrightarrow> f p = f q \<Longrightarrow> p = q"
  by (meson distinct_map inj_on_def)

text \<open>One frame, seen from a render item whose counter is not positive.\<close>

lemma Frame_item_clean:
  assumes F: "Frame X W cbSize f s = Inr s'"
    and d: "distinct (map (\<lambda>p. ObjCBIndex (snd p)) (mAllRitems s))"
    and p: "(h, e) \<in> set (mAllRitems s)" and cl: "\<not> RenderItem.NumFramesDirty e > 0"
  shows "mMappedData (ObjectCB (mFrameResources s' ! mCurrFrameResourceIndex s')) ! ObjCBIndex e
           = mMappedData (ObjectCB (mFrameResources s ! mCurrFrameResourceIndex s')) ! ObjCBIndex e"
proof -
  note ff = Frame_frame[OF F refl]
  have "ObjCBIndex (snd q) \<noteq> ObjCBIndex e"
    if "q \<in> set (mAllRitems s)" "RenderItem.NumFramesDirty (snd q) > 0" for q
  proof
    assume "ObjCBIndex (snd q) = ObjCBIndex e"
    then have "q = (h, e)"
      using distinct_map_eq[OF d that(1) p] by simp
    then show False using that(2) cl by simp
  qed
  then show ?thesis using obj_loop_other[OF ff(8)] ff(2) by simp
qed

lemma Frame_material_clean:
  assumes F: "Frame X W cbSize f s = Inr s'"
    and d: "distinct (map (\<lambda>p. MatCBIndex (snd p)) (mMaterials s))"
    and p: "(k, m) \<in> set (mMaterials s)" and k: "k \<noteq> ''water''"
    and cl: "\<not> Material.NumFramesDirty m > 0"
  shows "mMappedData (MaterialCB (mFrameResources s' ! mCurrFrameResourceIndex s')) ! MatCBIndex m
           = mMappedData (MaterialCB (mFrameResources s ! mCurrFrameResourceIndex s')) ! MatCBIndex m"
proof -
  note ff = Frame_frame[OF F refl]
  from ff(9) obtain w where w: "map_of (mMaterials s) ''water'' = Some w"
    and l: "UpdateMaterialCBs_loop X
              (MaterialCB (mFrameResources s ! ((mCurrFrameResourceIndex s + 1) mod gNumFrameResources)))
              (AList.update ''water'' (AnimateMaterials_water X (fst f) w) (mMaterials s))
            = Inr (MaterialCB (mFrameResources s' ! ((mCurrFrameResourceIndex s + 1) mod gNumFrameResources)),
                   mMaterials s')"
    by blast
  let ?al = "AList.update ''water'' (AnimateMaterials_water X (fst f) w) (mMaterials s)"
  have d': "distinct (map (\<lambda>p. MatCBIndex (snd p)) ?al)"
    using update_index[OF w AnimateMaterials_water_fields(1)] d by simp
  have p': "(k, m) \<in> set ?al" using update_other_mem[OF p k] .
  have "MatCBIndex (snd q) \<noteq> MatCBIndex m"
    if "q \<in> set ?al" "Material.NumFramesDirty (snd q) > 0" for q
  proof
    assume "MatCBIndex (snd q) = MatCBIndex m"
    then have "q = (k, m)"
      using distinct_map_eq[OF d' that(1) p'] by simp
    then show False using that(2) cl by simp
  qed
  then show ?thesis using mat_loop_other[OF l] ff(2) by simp
qed

lemma demo_settled_frame:
  "\<exists>s'. Frame ExactLib demo_waves demo_cbSize (demo_frame 1) demo_settled = Inr s'"
  by (simp add: demo_settled_def demo_defs step_defs Let_def)

text \<open>
  C2. After three consecutive frames, every render item and every material other than
  water whose counter was \<open>gNumFrameResources\<close> at the start has its constants in the
  constant buffer of each of the three frame resources, at its own index: for an item the
  transposed world and texture matrices, for a material its albedo, Fresnel term and
  roughness and its transposed matrix; and its counter is 0. The indices of the entries
  are assumed distinct. In each frame every counter is decremented exactly when it is
  positive, the entry of an item or material whose counter is positive is written into
  the buffer of the current frame resource, the entry of one whose counter is not positive
  is left as it was there, and the other frame resources are not touched. The water
  material is edited by \<open>AnimateMaterials\<close> in every frame and is the subject of C10.
\<close>

theorem C2_dirty_propagation:
  assumes F: "Frames X W cbSize [f1, f2, f3] s0 = Inr s3"
    and d: "distinct (map (\<lambda>p. ObjCBIndex (snd p)) (mAllRitems s0))"
    and dm: "distinct (map (\<lambda>p. MatCBIndex (snd p)) (mMaterials s0))"
  shows "(\<forall>h e. (h, e) \<in> set (mAllRitems s0)
              \<and> RenderItem.NumFramesDirty e = int gNumFrameResources \<longrightarrow>
            (\<forall>j<gNumFrameResources.
               mMappedData (ObjectCB (mFrameResources s3 ! j)) ! ObjCBIndex e =
                 \<lparr>ObjectConstants.World = XMMatrixTranspose X (RenderItem.World e),
                  ObjectConstants.TexTransform = XMMatrixTranspose X (RenderItem.TexTransform e)\<rparr>)
            \<and> (h, e\<lparr>RenderItem.NumFramesDirty := 0\<rparr>) \<in> set (mAllRitems s3))
       \<and> (\<forall>k m. (k, m) \<in> set (mMaterials s0) \<and> k \<noteq> ''water''
              \<and> Material.NumFramesDirty m = int gNumFrameResources \<longrightarrow>
            (\<forall>j<gNumFrameResources.
               mMappedData (MaterialCB (mFrameResources s3 ! j)) ! MatCBIndex m =
                 \<lparr>MaterialConstants.DiffuseAlbedo = Material.DiffuseAlbedo m,
                  MaterialConstants.FresnelR0 = Material.FresnelR0 m,
                  MaterialConstants.Roughness = Material.Roughness m,
                  MaterialConstants.MatTransform = XMMatrixTranspose X (Material.MatTransform m)\<rparr>)
            \<and> (k, m\<lparr>Material.NumFramesDirty := 0\<rparr>) \<in> set (mMaterials s3))
       \<and> (\<forall>f s s'. Frame X W cbSize f s = Inr s' \<longrightarrow>
            mAllRitems s' =
              map (\<lambda>(h, e). (h, if RenderItem.NumFramesDirty e > 0
                                then e\<lparr>RenderItem.NumFramesDirty := RenderItem.NumFramesDirty e - 1\<rparr>
                                else e)) (mAllRitems s)
            \<and> (\<forall>j. j \<noteq> mCurrFrameResourceIndex s' \<longrightarrow> mFrameResources s' ! j = mFrameResources s ! j)
            \<and> (distinct (map (\<lambda>p. ObjCBIndex (snd p)) (mAllRitems s)) \<longrightarrow>
                 (\<forall>p \<in> set (mAllRitems s).
                    (RenderItem.NumFramesDirty (snd p) > 0 \<longrightarrow>
                       mMappedData (ObjectCB (mFrameResources s' ! mCurrFrameResourceIndex s'))
                         ! ObjCBIndex (snd p) =
                       \<lparr>ObjectConstants.World = XMMatrixTranspose X (RenderItem.World (snd p)),
                        ObjectConstants.TexTransform =
                          XMMatrixTranspose X (RenderItem.TexTransform (snd p))\<rparr>)
                  \<and> (\<not> RenderItem.NumFramesDirty (snd p) > 0 \<longrightarrow>
                       mMappedData (ObjectCB (mFrameResources s' ! mCurrFrameResourceIndex s'))
                         ! ObjCBIndex (snd p) =
                       mMappedData (ObjectCB (mFrameResources s ! mCurrFrameResourceIndex s'))
                         ! ObjCBIndex (snd p))))
            \<and> (\<exists>w. map_of (mMaterials s) ''water'' = Some w
                 \<and> mMaterials s' =
                     map (\<lambda>(k, m). (k, if Material.NumFramesDirty m > 0
                                       then m\<lparr>Material.NumFramesDirty := Material.NumFramesDirty m - 1\<rparr>
                                       else m))
                       (AList.update ''water'' (AnimateMaterials_water X (fst f) w) (mMaterials s)))
            \<and> (distinct (map (\<lambda>p. MatCBIndex (snd p)) (mMaterials s)) \<longrightarrow>
                 (\<forall>p \<in> set (mMaterials s). fst p \<noteq> ''water'' \<longrightarrow>
                    (Material.NumFramesDirty (snd p) > 0 \<longrightarrow>
                       mMappedData (MaterialCB (mFrameResources s' ! mCurrFrameResourceIndex s'))
                         ! MatCBIndex (snd p) =
                       \<lparr>MaterialConstants.DiffuseAlbedo = Material.DiffuseAlbedo (snd p),
                        MaterialConstants.FresnelR0 = Material.FresnelR0 (snd p),
                        MaterialConstants.Roughness = Material.Roughness (snd p),
                        MaterialConstants.MatTransform =
                          XMMatrixTranspose X (Material.MatTransform (snd p))\<rparr>)
                  \<and> (\<not> Material.NumFramesDirty (snd p) > 0 \<longrightarrow>
                       mMappedData (MaterialCB (mFrameResources s' ! mCurrFrameResourceIndex s'))
                         ! MatCBIndex (snd p) =
                       mMappedData (MaterialCB (mFrameResources s ! mCurrFrameResourceIndex s'))
                         ! MatCBIndex (snd p)))))"
    (is "?A \<and> ?B \<and> ?C")
proof -
  have A: ?A
    using items_three_frames[OF F d] unfolding objConstants_def by blast
  have B: ?B
    using materials_three_frames[OF F dm] unfolding matConstants_def by blast
  have C: "mAllRitems s' =
              map (\<lambda>(h, e). (h, if RenderItem.NumFramesDirty e > 0
                                then e\<lparr>RenderItem.NumFramesDirty := RenderItem.NumFramesDirty e - 1\<rparr>
                                else e)) (mAllRitems s)
            \<and> (\<forall>j. j \<noteq> mCurrFrameResourceIndex s' \<longrightarrow> mFrameResources s' ! j = mFrameResources s ! j)
            \<and> (distinct (map (\<lambda>p. ObjCBIndex (snd p)) (mAllRitems s)) \<longrightarrow>
                 (\<forall>p \<in> set (mAllRitems s).
                    (RenderItem.NumFramesDirty (snd p) > 0 \<longrightarrow>
                       mMappedData (ObjectCB (mFrameResources s' ! mCurrFrameResourceIndex s'))
                         ! ObjCBIndex (snd p) =
                       \<lparr>ObjectConstants.World = XMMatrixTranspose X (RenderItem.World (snd p)),
                        ObjectConstants.TexTransform =
                          XMMatrixTranspose X (RenderItem.TexTransform (snd p))\<rparr>)
                  \<and> (\<not> RenderItem.NumFramesDirty (snd p) > 0 \<longrightarrow>
                       mMappedData (ObjectCB (mFrameResources s' ! mCurrFrameResourceIndex s'))
                         ! ObjCBIndex (snd p) =
                       mMappedData (ObjectCB (mFrameResources s ! mCurrFrameResourceIndex s'))
                         ! ObjCBIndex (snd p))))
            \<and> (\<exists>w. map_of (mMaterials s) ''water'' = Some w
                 \<and> mMaterials s' =
                     map (\<lambda>(k, m). (k, if Material.NumFramesDirty m > 0
                                       then m\<lparr>Material.NumFramesDirty := Material.NumFramesDirty m - 1\<rparr>
                                       else m))
                       (AList.update ''water'' (AnimateMaterials_water X (fst f) w) (mMaterials s)))
            \<and> (distinct (map (\<lambda>p. MatCBIndex (snd p)) (mMaterials s)) \<longrightarrow>
                 (\<forall>p \<in> set (mMaterials s). fst p \<noteq> ''water'' \<longrightarrow>
                    (Material.NumFramesDirty (snd p) > 0 \<longrightarrow>
                       mMappedData (MaterialCB (mFrameResources s' ! mCurrFrameResourceIndex s'))
                         ! MatCBIndex (snd p) =
                       \<lparr>MaterialConstants.DiffuseAlbedo = Material.DiffuseAlbedo (snd p),
                        MaterialConstants.FresnelR0 = Material.FresnelR0 (snd p),
                        MaterialConstants.Roughness = Material.Roughness (snd p),
                        MaterialConstants.MatTransform =
                          XMMatrixTranspose X (Material.MatTransform (snd p))\<rparr>)
                  \<and> (\<not> Material.NumFramesDirty (snd p) > 0 \<longrightarrow>
                       mMappedData (MaterialCB (mFrameResources s' ! mCurrFrameResourceIndex s'))
                         ! MatCBIndex (snd p) =
                       mMappedData (MaterialCB (mFrameResources s ! mCurrFrameResourceIndex s'))
                         ! MatCBIndex (snd p))))"
    if G: "Frame X W cbSize f s = Inr s'" for f s s'
  proof -
    note ff = Frame_frame[OF G refl]
    have ti: "tick_item = (\<lambda>(h, e). (h, if RenderItem.NumFramesDirty e > 0
                                then e\<lparr>RenderItem.NumFramesDirty := RenderItem.NumFramesDirty e - 1\<rparr>
                                else e))"
      by (rule ext) (simp add: tick_item_def case_prod_beta)
    have tm: "tick_mat = (\<lambda>(k, m). (k, if Material.NumFramesDirty m > 0
                                       then m\<lparr>Material.NumFramesDirty := Material.NumFramesDirty m - 1\<rparr>
                                       else m))"
      by (rule ext) (simp add: tick_mat_def case_prod_beta)
    have c1: "mAllRitems s' =
              map (\<lambda>(h, e). (h, if RenderItem.NumFramesDirty e > 0
                                then e\<lparr>RenderItem.NumFramesDirty := RenderItem.NumFramesDirty e - 1\<rparr>
                                else e)) (mAllRitems s)"
      using obj_loop_items[OF ff(8)] unfolding ti by simp
    have c0: "\<forall>j. j \<noteq> mCurrFrameResourceIndex s' \<longrightarrow> mFrameResources s' ! j = mFrameResources s ! j"
      using ff(5) unfolding ff(2) .
    from ff(9) obtain w where w: "map_of (mMaterials s) ''water'' = Some w"
      and l: "UpdateMaterialCBs_loop X
              (MaterialCB (mFrameResources s ! ((mCurrFrameResourceIndex s + 1) mod gNumFrameResources)))
              (AList.update ''water'' (AnimateMaterials_water X (fst f) w) (mMaterials s))
            = Inr (MaterialCB (mFrameResources s' ! ((mCurrFrameResourceIndex s + 1) mod gNumFrameResources)),
                   mMaterials s')"
      by blast
    have c3: "\<exists>w. map_of (mMaterials s) ''water'' = Some w
          \<and> mMaterials s' =
              map (\<lambda>(k, m). (k, if Material.NumFramesDirty m > 0
                                       then m\<lparr>Material.NumFramesDirty := Material.NumFramesDirty m - 1\<rparr>
                                       else m))
                (AList.update ''water'' (AnimateMaterials_water X (fst f) w) (mMaterials s))"
      using w mat_loop_items[OF l] unfolding tm by blast
    have c2: "(RenderItem.NumFramesDirty (snd p) > 0 \<longrightarrow>
                       mMappedData (ObjectCB (mFrameResources s' ! mCurrFrameResourceIndex s'))
                         ! ObjCBIndex (snd p) =
                       \<lparr>ObjectConstants.World = XMMatrixTranspose X (RenderItem.World (snd p)),
                        ObjectConstants.TexTransform =
                          XMMatrixTranspose X (RenderItem.TexTransform (snd p))\<rparr>)
                  \<and> (\<not> RenderItem.NumFramesDirty (snd p) > 0 \<longrightarrow>
                       mMappedData (ObjectCB (mFrameResources s' ! mCurrFrameResourceIndex s'))
                         ! ObjCBIndex (snd p) =
                       mMappedData (ObjectCB (mFrameResources s ! mCurrFrameResourceIndex s'))
                         ! ObjCBIndex (snd p))"
      if dd: "distinct (map (\<lambda>p. ObjCBIndex (snd p)) (mAllRitems s))"
        and pp: "p \<in> set (mAllRitems s)" for p
    proof -
      have pp': "(fst p, snd p) \<in> set (mAllRitems s)" using pp by simp
      show ?thesis
        using Frame_item(1)[OF G dd pp'] Frame_item_clean[OF G dd pp']
        unfolding objConstants_def by blast
    qed
    have c4: "(Material.NumFramesDirty (snd p) > 0 \<longrightarrow>
                       mMappedData (MaterialCB (mFrameResources s' ! mCurrFrameResourceIndex s'))
                         ! MatCBIndex (snd p) =
                       \<lparr>MaterialConstants.DiffuseAlbedo = Material.DiffuseAlbedo (snd p),
                        MaterialConstants.FresnelR0 = Material.FresnelR0 (snd p),
                        MaterialConstants.Roughness = Material.Roughness (snd p),
                        MaterialConstants.MatTransform =
                          XMMatrixTranspose X (Material.MatTransform (snd p))\<rparr>)
                  \<and> (\<not> Material.NumFramesDirty (snd p) > 0 \<longrightarrow>
                       mMappedData (MaterialCB (mFrameResources s' ! mCurrFrameResourceIndex s'))
                         ! MatCBIndex (snd p) =
                       mMappedData (MaterialCB (mFrameResources s ! mCurrFrameResourceIndex s'))
                         ! MatCBIndex (snd p))"
      if dd: "distinct (map (\<lambda>p. MatCBIndex (snd p)) (mMaterials s))"
        and pp: "p \<in> set (mMaterials s)" and kk: "fst p \<noteq> ''water''" for p
    proof -
      have pp': "(fst p, snd p) \<in> set (mMaterials s)" using pp by simp
      show ?thesis
        using Frame_material(1)[OF G dd pp' kk] Frame_material_clean[OF G dd pp' kk]
        unfolding matConstants_def by blast
    qed
    show ?thesis using c0 c1 c2 c3 c4 by blast
  qed
  have C': ?C
    by (intro allI impI) (rule C)
  show ?thesis by (rule conjI[OF A conjI[OF B C']])
qed

text \<open>
  The theorem at the small scene, for the item with handle 2 and the grass material: after
  three frames from \<open>demo_app\<close>, where they are dirty, and after one frame from
  \<open>demo_settled\<close>, where they are not and the buffers keep their initial entries while
  the entry of the dirty item 3 is written.
\<close>

theorem C2_dirty_propagation_witness:
  "\<exists>s3 s'. Frames ExactLib demo_waves demo_cbSize [demo_frame 1, demo_frame 2, demo_frame 3] demo_app = Inr s3
     \<and> distinct (map (\<lambda>p. ObjCBIndex (snd p)) (mAllRitems demo_app))
     \<and> distinct (map (\<lambda>p. MatCBIndex (snd p)) (mMaterials demo_app))
     \<and> (\<forall>j<3. mMappedData (ObjectCB (mFrameResources s3 ! j)) ! 2 =
           \<lparr>ObjectConstants.World = ((2, 0, 0, 3), (0, 2, 0, 4), (0, 0, 2, 5), (0, 0, 0, 1)),
            ObjectConstants.TexTransform = Identity4x4\<rparr>)
     \<and> (2, (demo_item ((2, 0, 0, 0), (0, 2, 0, 0), (0, 0, 2, 0), (3, 4, 5, 1)) 2 ''grass'' ''landGeo'')
             \<lparr>RenderItem.NumFramesDirty := 0\<rparr>) \<in> set (mAllRitems s3)
     \<and> (\<forall>j<3. mMappedData (MaterialCB (mFrameResources s3 ! j)) ! 0 =
           \<lparr>MaterialConstants.DiffuseAlbedo = (1, 1, 1, 1), MaterialConstants.FresnelR0 = (0, 0, 0),
            MaterialConstants.Roughness = 0.125,
            MaterialConstants.MatTransform =
              ((1, 0, 0, 0.5), (0, 1, 0, 0.25), (0, 0, 1, 0), (0, 0, 0, 1))\<rparr>)
     \<and> (''grass'', (demo_material ''grass'' 0)\<lparr>Material.NumFramesDirty := 0\<rparr>) \<in> set (mMaterials s3)
     \<and> Frame ExactLib demo_waves demo_cbSize (demo_frame 1) demo_settled = Inr s'
     \<and> mCurrFrameResourceIndex s' = 1
     \<and> mMappedData (ObjectCB (mFrameResources s' ! 1)) ! 2 = demo_obj
     \<and> mMappedData (ObjectCB (mFrameResources s' ! 1)) ! 3 =
           \<lparr>ObjectConstants.World = Identity4x4, ObjectConstants.TexTransform = Identity4x4\<rparr>
     \<and> mMappedData (MaterialCB (mFrameResources s' ! 1)) ! 0 = demo_matc
     \<and> (1, (demo_item Identity4x4 1 ''grass'' ''landGeo'')\<lparr>RenderItem.NumFramesDirty := 0\<rparr>)
           \<in> set (mAllRitems s')
     \<and> (3, (demo_item Identity4x4 3 ''grass'' ''landGeo'')\<lparr>RenderItem.NumFramesDirty := 2\<rparr>)
           \<in> set (mAllRitems s')"
proof -
  from demo_three_frames obtain s3 where
    F: "Frames ExactLib demo_waves demo_cbSize [demo_frame 1, demo_frame 2, demo_frame 3] demo_app = Inr s3"
    by blast
  from demo_settled_frame obtain s' where
    G: "Frame ExactLib demo_waves demo_cbSize (demo_frame 1) demo_settled = Inr s'"
    by blast
  have d: "distinct (map (\<lambda>p. ObjCBIndex (snd p)) (mAllRitems demo_app))"
    by (simp add: demo_app_def demo_item_def)
  have dm: "distinct (map (\<lambda>p. MatCBIndex (snd p)) (mMaterials demo_app))"
    by (simp add: demo_app_def demo_material_def)
  let ?e = "demo_item ((2, 0, 0, 0), (0, 2, 0, 0), (0, 0, 2, 0), (3, 4, 5, 1)) 2 ''grass'' ''landGeo''"
  let ?m = "demo_material ''grass'' 0"
  have pe: "(2, ?e) \<in> set (mAllRitems demo_app) \<and> RenderItem.NumFramesDirty ?e = int gNumFrameResources"
    by (simp add: demo_app_def demo_item_def)
  have pm: "(''grass'', ?m) \<in> set (mMaterials demo_app) \<and> ''grass'' \<noteq> ''water''
              \<and> Material.NumFramesDirty ?m = int gNumFrameResources"
    by (simp add: demo_app_def demo_material_def)
  note c = C2_dirty_propagation[OF F d dm]
  note ce = c[THEN conjunct1, rule_format, OF pe]
  note cm = c[THEN conjunct2, THEN conjunct1, rule_format, OF pm]
  note cf = c[THEN conjunct2, THEN conjunct2, rule_format, OF G]
  have e1: "\<forall>j<3. mMappedData (ObjectCB (mFrameResources s3 ! j)) ! 2 =
           \<lparr>ObjectConstants.World = ((2, 0, 0, 3), (0, 2, 0, 4), (0, 0, 2, 5), (0, 0, 0, 1)),
            ObjectConstants.TexTransform = Identity4x4\<rparr>"
    using ce[THEN conjunct1]
    by (simp add: demo_item_def ExactLib_def Identity4x4_def gNumFrameResources_def)
  have m1: "\<forall>j<3. mMappedData (MaterialCB (mFrameResources s3 ! j)) ! 0 =
           \<lparr>MaterialConstants.DiffuseAlbedo = (1, 1, 1, 1), MaterialConstants.FresnelR0 = (0, 0, 0),
            MaterialConstants.Roughness = 0.125,
            MaterialConstants.MatTransform =
              ((1, 0, 0, 0.5), (0, 1, 0, 0.25), (0, 0, 1, 0), (0, 0, 0, 1))\<rparr>"
    using cm[THEN conjunct1]
    by (simp add: demo_material_def ExactLib_def gNumFrameResources_def)
  have i': "mCurrFrameResourceIndex s' = 1"
    using Frame_frame(2)[OF G refl] by (simp add: demo_settled_def demo_app_def gNumFrameResources_def)
  have ds: "distinct (map (\<lambda>p. ObjCBIndex (snd p)) (mAllRitems demo_settled))"
    by (simp add: demo_settled_def demo_app_def demo_item_def)
  have dms: "distinct (map (\<lambda>p. MatCBIndex (snd p)) (mMaterials demo_settled))"
    by (simp add: demo_settled_def demo_app_def demo_material_def)
  have items: "mAllRitems s' =
      [(1, (demo_item Identity4x4 1 ''grass'' ''landGeo'')\<lparr>RenderItem.NumFramesDirty := 0\<rparr>),
       (2, ?e\<lparr>RenderItem.NumFramesDirty := 0\<rparr>),
       (0, (demo_item Identity4x4 0 ''water'' ''waterGeo'')\<lparr>RenderItem.NumFramesDirty := 2\<rparr>),
       (3, (demo_item Identity4x4 3 ''grass'' ''landGeo'')\<lparr>RenderItem.NumFramesDirty := 2\<rparr>)]"
    using cf[THEN conjunct1]
    by (simp add: demo_settled_def demo_app_def demo_item_def gNumFrameResources_def)
  note co = cf[THEN conjunct2, THEN conjunct2, THEN conjunct1, rule_format, OF ds]
  have o2: "mMappedData (ObjectCB (mFrameResources s' ! 1)) ! 2 = demo_obj"
    using co[of "(2, ?e\<lparr>RenderItem.NumFramesDirty := 0\<rparr>)"] unfolding i'
    by (simp add: demo_settled_def demo_app_def demo_item_def demo_frame_resource_def)
  have o3: "mMappedData (ObjectCB (mFrameResources s' ! 1)) ! 3 =
           \<lparr>ObjectConstants.World = Identity4x4, ObjectConstants.TexTransform = Identity4x4\<rparr>"
    using co[of "(3, demo_item Identity4x4 3 ''grass'' ''landGeo'')"] unfolding i'
    by (simp add: demo_settled_def demo_app_def demo_item_def ExactLib_def Identity4x4_def
        gNumFrameResources_def)
  note cmat = cf[THEN conjunct2, THEN conjunct2, THEN conjunct2, THEN conjunct2, rule_format, OF dms]
  have m0: "mMappedData (MaterialCB (mFrameResources s' ! 1)) ! 0 = demo_matc"
    using cmat[of "(''grass'', ?m\<lparr>Material.NumFramesDirty := 0\<rparr>)"] unfolding i'
    by (simp add: demo_settled_def demo_app_def demo_material_def demo_frame_resource_def)
  show ?thesis
    using F d dm e1 ce[THEN conjunct2] m1 cm[THEN conjunct2] G i' o2 o3 m0 items by auto
qed

subsection \<open>The order of the layers\<close>

text \<open>
  C3. Whatever the order in which the render items were pushed into the four layer
  buckets, the command list that \<open>Draw\<close> records is the prologue, the commands of the
  opaque items, the switch to the alpha-tested pipeline state, the commands of the
  alpha-tested items, the switch to the tree-sprite state, the commands of the tree
  sprites, the switch to the transparent state, the commands of the transparent items and
  the epilogue. The draw calls, each with the binding of the object constants of its item
  before it, are those of the opaque items, then those of the alpha-tested items, then
  those of the tree sprites, then those of the transparent items, each layer in the order
  of its own registrations.
\<close>

theorem C3_layers_drawn_in_fixed_order:
  assumes D: "Draw cbSize s = Inr s'" and c: "mCurrFrameResource s = Some i"
    and L: "mRitemLayer s = register_items regs [[], [], [], []]"
  shows "\<exists>c0 c1 c2 c3.
      CmdListAlloc (mFrameResources s' ! i) =
        Draw_prologue s i @ c0 @ [SetPipelineState ''alphaTested''] @ c1
        @ [SetPipelineState ''treeSprites''] @ c2
        @ [SetPipelineState ''transparent''] @ c3
        @ [ResourceBarrier_RenderTarget_to_Present (mCurrBackBuffer s), Close]
    \<and> filter is_object_draw c0 = concat (map (object_draw cbSize s i) (registered_in Opaque regs))
    \<and> filter is_object_draw c1 = concat (map (object_draw cbSize s i) (registered_in AlphaTested regs))
    \<and> filter is_object_draw c2 = concat (map (object_draw cbSize s i) (registered_in AlphaTestedTreeSprites regs))
    \<and> filter is_object_draw c3 = concat (map (object_draw cbSize s i) (registered_in Transparent regs))
    \<and> filter is_object_draw (CmdListAlloc (mFrameResources s' ! i)) =
        concat (map (object_draw cbSize s i)
          (registered_in Opaque regs @ registered_in AlphaTested regs
           @ registered_in AlphaTestedTreeSprites regs @ registered_in Transparent regs))"
proof -
  have lay: "mRitemLayer s ! layer_index K = registered_in K regs" for K
    unfolding L using register_items_nth[of "[[], [], [], []]" regs K]
    by (cases K) simp_all
  from Draw_effect[OF D] c obtain c0 c1 c2 c3 where
    len: "i < length (mFrameResources s)"
    and d0: "DrawRenderItems cbSize s i (registered_in Opaque regs) = Inr c0"
    and d1: "DrawRenderItems cbSize s i (registered_in AlphaTested regs) = Inr c1"
    and d2: "DrawRenderItems cbSize s i (registered_in AlphaTestedTreeSprites regs) = Inr c2"
    and d3: "DrawRenderItems cbSize s i (registered_in Transparent regs) = Inr c3"
    and fr: "mFrameResources s' =
                 (mFrameResources s)[i := (mFrameResources s ! i)
                    \<lparr>CmdListAlloc := Draw_prologue s i @ c0 @ [SetPipelineState ''alphaTested''] @ c1
                       @ [SetPipelineState ''treeSprites''] @ c2
                       @ [SetPipelineState ''transparent''] @ c3
                       @ [ResourceBarrier_RenderTarget_to_Present (mCurrBackBuffer s), Close],
                     Fence := mCurrentFence s + 1\<rparr>]"
    unfolding lay by auto
  have cmds: "CmdListAlloc (mFrameResources s' ! i) =
        Draw_prologue s i @ c0 @ [SetPipelineState ''alphaTested''] @ c1
        @ [SetPipelineState ''treeSprites''] @ c2
        @ [SetPipelineState ''transparent''] @ c3
        @ [ResourceBarrier_RenderTarget_to_Present (mCurrBackBuffer s), Close]"
    using len by (simp add: fr)
  note f0 = DrawRenderItems_object_draws[OF d0] and f1 = DrawRenderItems_object_draws[OF d1]
    and f2 = DrawRenderItems_object_draws[OF d2] and f3 = DrawRenderItems_object_draws[OF d3]
  have pro: "filter is_object_draw (Draw_prologue s i) = []"
    by (simp add: Draw_prologue_def)
  have all: "filter is_object_draw (CmdListAlloc (mFrameResources s' ! i)) =
        concat (map (object_draw cbSize s i)
          (registered_in Opaque regs @ registered_in AlphaTested regs
           @ registered_in AlphaTestedTreeSprites regs @ registered_in Transparent regs))"
    unfolding cmds by (simp add: pro f0 f1 f2 f3)
  show ?thesis using cmds f0 f1 f2 f3 all by blast
qed

text \<open>
  The theorem at the small scene after its first \<open>Update\<close>: the items were registered
  in the order transparent (0), opaque (1), tree sprites (3), alpha tested (2). The object
  constants of the item \<open>k\<close> are at the offset \<open>256 * k\<close> of the buffer 21.
\<close>

theorem C3_layers_drawn_in_fixed_order_witness:
  "\<exists>s1 s2. Update ExactLib demo_waves (fst (demo_frame 1)) (snd (demo_frame 1)) demo_app = Inr s1
     \<and> Draw demo_cbSize s1 = Inr s2
     \<and> mCurrFrameResource s1 = Some 1
     \<and> mRitemLayer s1 = register_items demo_regs [[], [], [], []]
     \<and> demo_regs = [(Transparent, 0), (Opaque, 1), (AlphaTestedTreeSprites, 3), (AlphaTested, 2)]
     \<and> filter is_object_draw (CmdListAlloc (mFrameResources s2 ! 1)) =
          [SetGraphicsRootConstantBufferView 1 (21, 256), DrawIndexedInstanced 6 1 0 0 0,
           SetGraphicsRootConstantBufferView 1 (21, 512), DrawIndexedInstanced 6 1 0 0 0,
           SetGraphicsRootConstantBufferView 1 (21, 768), DrawIndexedInstanced 6 1 0 0 0,
           SetGraphicsRootConstantBufferView 1 (21, 0), DrawIndexedInstanced 6 1 0 0 0]"
proof -
  from demo_first_frame obtain s1 s2 where
    U: "Update ExactLib demo_waves (fst (demo_frame 1)) (snd (demo_frame 1)) demo_app = Inr s1"
    and D: "Draw demo_cbSize s1 = Inr s2" by blast
  have i: "1 = (mCurrFrameResourceIndex demo_app + 1) mod gNumFrameResources"
    by (simp add: demo_defs)
  note uf = Update_frame[OF U i]
  have c: "mCurrFrameResource s1 = Some 1" by (rule uf(3))
  have L: "mRitemLayer s1 = register_items demo_regs [[], [], [], []]"
    using uf(15) by (simp add: demo_app_def)
  note ol = obj_loop_items[OF uf(10)]
  have items: "mAllRitems s1 = map tick_item (mAllRitems demo_app)" using ol by simp
  have res: "Resource (ObjectCB (mFrameResources s1 ! 1)) = 21"
    using ol by (simp add: demo_app_def demo_frame_resource_def)
  then have res': "Resource (ObjectCB (mFrameResources s1 ! Suc 0)) = 21" by simp
  from C3_layers_drawn_in_fixed_order[OF D c L]
  have "filter is_object_draw (CmdListAlloc (mFrameResources s2 ! 1)) =
        concat (map (object_draw demo_cbSize s1 1)
          (registered_in Opaque demo_regs @ registered_in AlphaTested demo_regs
           @ registered_in AlphaTestedTreeSprites demo_regs @ registered_in Transparent demo_regs))"
    by blast
  then have "filter is_object_draw (CmdListAlloc (mFrameResources s2 ! 1)) =
          [SetGraphicsRootConstantBufferView 1 (21, 256), DrawIndexedInstanced 6 1 0 0 0,
           SetGraphicsRootConstantBufferView 1 (21, 512), DrawIndexedInstanced 6 1 0 0 0,
           SetGraphicsRootConstantBufferView 1 (21, 768), DrawIndexedInstanced 6 1 0 0 0,
           SetGraphicsRootConstantBufferView 1 (21, 0), DrawIndexedInstanced 6 1 0 0 0]"
    by (simp add: registered_in_def demo_regs_def object_draw_def items res' tick_item_def
        demo_app_def demo_item_def demo_cbSize_def sizeof_ObjectConstants_def to_UINT_def
        gNumFrameResources_def)
  then show ?thesis using U D c L by (simp add: demo_regs_def[symmetric]) (simp add: demo_regs_def)
qed

subsection \<open>The water material\<close>

text \<open>
  C10. \<open>AnimateMaterials\<close> leaves the counter of the water material at
  \<open>gNumFrameResources\<close>. In every frame the constants of the water material are copied
  into the material buffer of the current frame resource, at the index of the material
  (the indices of the materials being distinct): its albedo, its Fresnel term, its
  roughness and the transposed matrix whose elements (3, 0) and (3, 1) have been advanced
  by 0.1 and 0.02 times the frame's delta time, wrapping at 1; and its counter is 2 after
  the frame. After every frame of a run, however long, the counter is 2 and never 0. A
  material other than water whose counter is \<open>gNumFrameResources\<close> has the counter 0
  after three frames.
\<close>

theorem C10_water_recopied_every_frame:
  "(\<forall>s1. AnimateMaterials X gt s = Inr s1 \<longrightarrow>
      (\<exists>w. map_of (mMaterials s1) ''water'' = Some w
         \<and> Material.NumFramesDirty w = int gNumFrameResources))
   \<and> (\<forall>s'. Frame X W cbSize f s = Inr s' \<longrightarrow>
        (\<exists>w. map_of (mMaterials s) ''water'' = Some w
           \<and> (let tu1 = rnd X (M30 (Material.MatTransform w)
                              + rnd X (rnd X 0.1 * GameTimer.DeltaTime (fst f)));
                   tv1 = rnd X (M31 (Material.MatTransform w)
                              + rnd X (rnd X 0.02 * GameTimer.DeltaTime (fst f)));
                   tu = (if tu1 \<ge> 1 then rnd X (tu1 - 1) else tu1);
                   tv = (if tv1 \<ge> 1 then rnd X (tv1 - 1) else tv1);
                   T = set_M31 tv (set_M30 tu (Material.MatTransform w))
               in map_of (mMaterials s') ''water''
                    = Some (w\<lparr>Material.MatTransform := T, Material.NumFramesDirty := 2\<rparr>)
                  \<and> (distinct (map (\<lambda>p. MatCBIndex (snd p)) (mMaterials s)) \<longrightarrow>
                       mMappedData (MaterialCB (mFrameResources s' ! mCurrFrameResourceIndex s'))
                         ! MatCBIndex w
                       = \<lparr>MaterialConstants.DiffuseAlbedo = Material.DiffuseAlbedo w,
                          MaterialConstants.FresnelR0 = Material.FresnelR0 w,
                          MaterialConstants.Roughness = Material.Roughness w,
                          MaterialConstants.MatTransform = XMMatrixTranspose X T\<rparr>))))
   \<and> (\<forall>fs gs t. Frames X W cbSize (fs @ gs) s = Inr t \<and> fs \<noteq> [] \<longrightarrow>
        (\<exists>s'' w. Frames X W cbSize fs s = Inr s''
           \<and> map_of (mMaterials s'') ''water'' = Some w \<and> Material.NumFramesDirty w = 2))
   \<and> (\<forall>f1 f2 f3 s3 k m. Frames X W cbSize [f1, f2, f3] s = Inr s3
          \<and> distinct (map (\<lambda>p. MatCBIndex (snd p)) (mMaterials s))
          \<and> (k, m) \<in> set (mMaterials s) \<and> k \<noteq> ''water''
          \<and> Material.NumFramesDirty m = int gNumFrameResources \<longrightarrow>
        (k, m\<lparr>Material.NumFramesDirty := 0\<rparr>) \<in> set (mMaterials s3))"
  (is "?A \<and> ?B \<and> ?C \<and> ?E")
proof -
  have A: ?A
  proof (intro allI impI)
    fix s1 assume "AnimateMaterials X gt s = Inr s1"
    from AnimateMaterials_effect[OF this] obtain w where
      "s1 = s\<lparr>mMaterials := AList.update ''water'' (AnimateMaterials_water X gt w) (mMaterials s)\<rparr>"
      by blast
    then have "map_of (mMaterials s1) ''water'' = Some (AnimateMaterials_water X gt w)"
      by (simp add: update_conv')
    then show "\<exists>w. map_of (mMaterials s1) ''water'' = Some w
         \<and> Material.NumFramesDirty w = int gNumFrameResources"
      by (simp add: AnimateMaterials_water_fields)
  qed
  have B: ?B
  proof (intro allI impI)
    fix s' assume G: "Frame X W cbSize f s = Inr s'"
    from Frame_water[OF G] obtain w where w: "map_of (mMaterials s) ''water'' = Some w"
      and m: "map_of (mMaterials s') ''water''
         = Some ((AnimateMaterials_water X (fst f) w)\<lparr>Material.NumFramesDirty := 2\<rparr>)"
      and c: "distinct (map (\<lambda>p. MatCBIndex (snd p)) (mMaterials s)) \<longrightarrow>
          mMappedData (MaterialCB (mFrameResources s' ! mCurrFrameResourceIndex s')) ! MatCBIndex w
            = matConstants X (AnimateMaterials_water X (fst f) w)"
      by blast
    show "\<exists>w. map_of (mMaterials s) ''water'' = Some w
           \<and> (let tu1 = rnd X (M30 (Material.MatTransform w)
                              + rnd X (rnd X 0.1 * GameTimer.DeltaTime (fst f)));
                   tv1 = rnd X (M31 (Material.MatTransform w)
                              + rnd X (rnd X 0.02 * GameTimer.DeltaTime (fst f)));
                   tu = (if tu1 \<ge> 1 then rnd X (tu1 - 1) else tu1);
                   tv = (if tv1 \<ge> 1 then rnd X (tv1 - 1) else tv1);
                   T = set_M31 tv (set_M30 tu (Material.MatTransform w))
               in map_of (mMaterials s') ''water''
                    = Some (w\<lparr>Material.MatTransform := T, Material.NumFramesDirty := 2\<rparr>)
                  \<and> (distinct (map (\<lambda>p. MatCBIndex (snd p)) (mMaterials s)) \<longrightarrow>
                       mMappedData (MaterialCB (mFrameResources s' ! mCurrFrameResourceIndex s'))
                         ! MatCBIndex w
                       = \<lparr>MaterialConstants.DiffuseAlbedo = Material.DiffuseAlbedo w,
                          MaterialConstants.FresnelR0 = Material.FresnelR0 w,
                          MaterialConstants.Roughness = Material.Roughness w,
                          MaterialConstants.MatTransform = XMMatrixTranspose X T\<rparr>))"
      using w m c by (auto simp add: AnimateMaterials_water_def matConstants_def Let_def)
  qed
  have C: ?C
  proof (intro allI impI)
    fix fs gs t
    assume a: "Frames X W cbSize (fs @ gs) s = Inr t \<and> fs \<noteq> []"
    then obtain s'' where s'': "Frames X W cbSize fs s = Inr s''"
      by (auto simp: Frames_append bindE_Inr)
    from Frames_water[OF s''] a s''
    show "\<exists>s'' w. Frames X W cbSize fs s = Inr s''
           \<and> map_of (mMaterials s'') ''water'' = Some w \<and> Material.NumFramesDirty w = 2"
      by blast
  qed
  have E: ?E
    using materials_three_frames by blast
  show ?thesis by (rule conjI[OF A conjI[OF B conjI[OF C E]]])
qed

text \<open>The theorem at the small scene, after one frame and after three.\<close>

theorem C10_water_recopied_every_frame_witness:
  "\<exists>s1 s3. Frame ExactLib demo_waves demo_cbSize (demo_frame 1) demo_app = Inr s1
     \<and> Frames ExactLib demo_waves demo_cbSize [demo_frame 1, demo_frame 2, demo_frame 3] demo_app = Inr s3
     \<and> distinct (map (\<lambda>p. MatCBIndex (snd p)) (mMaterials demo_app))
     \<and> map_of (mMaterials s1) ''water''
          = Some ((demo_material ''water'' 1)
                   \<lparr>Material.MatTransform := ((1, 0, 0, 0), (0, 1, 0, 0), (0, 0, 1, 0), (0.501, 0.2502, 0, 1)),
                    Material.NumFramesDirty := 2\<rparr>)
     \<and> mMappedData (MaterialCB (mFrameResources s1 ! mCurrFrameResourceIndex s1)) ! 1
          = \<lparr>MaterialConstants.DiffuseAlbedo = (1, 1, 1, 1), MaterialConstants.FresnelR0 = (0, 0, 0),
             MaterialConstants.Roughness = 0.125,
             MaterialConstants.MatTransform =
               ((1, 0, 0, 0.501), (0, 1, 0, 0.2502), (0, 0, 1, 0), (0, 0, 0, 1))\<rparr>
     \<and> (\<exists>w3. map_of (mMaterials s3) ''water'' = Some w3 \<and> Material.NumFramesDirty w3 = 2)
     \<and> (''grass'', (demo_material ''grass'' 0)\<lparr>Material.NumFramesDirty := 0\<rparr>) \<in> set (mMaterials s3)"
proof -
  from demo_three_frames obtain s3 where
    F: "Frames ExactLib demo_waves demo_cbSize [demo_frame 1, demo_frame 2, demo_frame 3] demo_app = Inr s3"
    by blast
  then obtain s1 where F1: "Frame ExactLib demo_waves demo_cbSize (demo_frame 1) demo_app = Inr s1"
    by (auto simp: bindE_Inr)
  have dm: "distinct (map (\<lambda>p. MatCBIndex (snd p)) (mMaterials demo_app))"
    by (simp add: demo_app_def demo_material_def)
  have w0: "map_of (mMaterials demo_app) ''water'' = Some (demo_material ''water'' 1)"
    by (simp add: demo_app_def)
  note c = C10_water_recopied_every_frame
             [of ExactLib "fst (demo_frame 1)" demo_app demo_waves demo_cbSize "demo_frame 1"]
  from c[THEN conjunct2, THEN conjunct1, rule_format, OF F1] w0 dm
  have b: "map_of (mMaterials s1) ''water''
          = Some ((demo_material ''water'' 1)
                   \<lparr>Material.MatTransform := ((1, 0, 0, 0), (0, 1, 0, 0), (0, 0, 1, 0), (0.501, 0.2502, 0, 1)),
                    Material.NumFramesDirty := 2\<rparr>)"
    and cb: "mMappedData (MaterialCB (mFrameResources s1 ! mCurrFrameResourceIndex s1)) ! 1
          = \<lparr>MaterialConstants.DiffuseAlbedo = (1, 1, 1, 1), MaterialConstants.FresnelR0 = (0, 0, 0),
             MaterialConstants.Roughness = 0.125,
             MaterialConstants.MatTransform =
               ((1, 0, 0, 0.501), (0, 1, 0, 0.2502), (0, 0, 1, 0), (0, 0, 0, 1))\<rparr>"
    by (simp_all add: Let_def demo_material_def demo_frame_def ExactLib_def)
  have F': "Frames ExactLib demo_waves demo_cbSize ([demo_frame 1, demo_frame 2, demo_frame 3] @ []) demo_app
              = Inr s3 \<and> [demo_frame 1, demo_frame 2, demo_frame 3] \<noteq> []"
    using F by simp
  from c[THEN conjunct2, THEN conjunct2, THEN conjunct1, rule_format, OF F'] F
  have w3: "\<exists>w3. map_of (mMaterials s3) ''water'' = Some w3 \<and> Material.NumFramesDirty w3 = 2"
    by auto
  have g: "(''grass'', demo_material ''grass'' 0) \<in> set (mMaterials demo_app) \<and> ''grass'' \<noteq> ''water''
            \<and> Material.NumFramesDirty (demo_material ''grass'' 0) = int gNumFrameResources"
    by (simp add: demo_app_def demo_material_def)
  from c[THEN conjunct2, THEN conjunct2, THEN conjunct2, rule_format, of "demo_frame 1" "demo_frame 2" "demo_frame 3" s3
          "''grass''" "demo_material ''grass'' 0"] F dm g
  have gr: "(''grass'', (demo_material ''grass'' 0)\<lparr>Material.NumFramesDirty := 0\<rparr>) \<in> set (mMaterials s3)"
    by blast
  show ?thesis using F1 F dm b cb w3 gr by blast
qed

subsection \<open>The loop over the wave vertices\<close>

lemma waves_loop_effect:
  "UpdateWaves_loop X W w vb is = Inr vb' \<Longrightarrow>
   Resource vb' = Resource vb \<and> length (mMappedData vb') = length (mMappedData vb)
   \<and> (\<forall>v \<in> set is. mMappedData vb' ! v = wave_vertex X W w v)
   \<and> (\<forall>v. v \<notin> set is \<longrightarrow> mMappedData vb' ! v = mMappedData vb ! v)"
proof (induction "is" arbitrary: vb)
  case Nil
  then show ?case by simp
next
  case (Cons i "is")
  from Cons.prems obtain vb1 where c: "CopyData i (wave_vertex X W w i) vb = Inr vb1"
    and l: "UpdateWaves_loop X W w vb1 is = Inr vb'"
    by (auto simp: bindE_Inr)
  from c have i: "i < length (mMappedData vb)"
    and vb1: "vb1 = vb\<lparr>mMappedData := (mMappedData vb)[i := wave_vertex X W w i]\<rparr>"
    by (simp_all add: CopyData_Inr)
  note ih = Cons.IH[OF l]
  have r: "Resource vb' = Resource vb" "length (mMappedData vb') = length (mMappedData vb)"
    using ih by (simp_all add: vb1)
  have a: "mMappedData vb' ! v = wave_vertex X W w v" if "v \<in> set (i # is)" for v
  proof (cases "v \<in> set is")
    case True
    then show ?thesis using ih by simp
  next
    case False
    then have "v = i" using that by simp
    moreover have "mMappedData vb' ! v = mMappedData vb1 ! v" using ih False by simp
    ultimately show ?thesis using i by (simp add: vb1)
  qed
  have b: "mMappedData vb' ! v = mMappedData vb ! v" if "v \<notin> set (i # is)" for v
  proof -
    have "mMappedData vb' ! v = mMappedData vb1 ! v" using ih that by simp
    then show ?thesis using that by (simp add: vb1)
  qed
  show ?case using r a b by blast
qed

lemma waves_loop_total:
  "\<forall>v \<in> set is. v < length (mMappedData vb) \<Longrightarrow> \<exists>vb'. UpdateWaves_loop X W w vb is = Inr vb'"
proof (induction "is" arbitrary: vb)
  case Nil
  then show ?case by simp
next
  case (Cons i "is")
  let ?vb1 = "vb\<lparr>mMappedData := (mMappedData vb)[i := wave_vertex X W w i]\<rparr>"
  have "\<exists>vb'. UpdateWaves_loop X W w ?vb1 is = Inr vb'"
    using Cons.prems by (intro Cons.IH) simp
  then show ?case using Cons.prems by (simp add: CopyData_def bindE_def)
qed


lemma integrate_waves_step:
  "integrate_waves X W (f # fs) tw =
     integrate_waves X W fs
       (UpdateWaves_simulate X W (GameTimer.TotalTime (fst f)) (fst f) (snd f) tw)"
  by (cases f; cases tw) (simp add: UpdateWaves_simulate_def)

lemma integrate_waves_snoc:
  "integrate_waves X W (fs @ [f]) tw =
     UpdateWaves_simulate X W (GameTimer.TotalTime (fst f)) (fst f) (snd f) (integrate_waves X W fs tw)"
proof (induction fs arbitrary: tw)
  case Nil
  show ?case
    by (cases f; cases tw; cases "UpdateWaves_simulate X W (GameTimer.TotalTime (fst f)) (fst f) (snd f) tw")
       (simp add: UpdateWaves_simulate_def split: if_splits)
next
  case (Cons g fs)
  show ?case unfolding append_Cons integrate_waves_step Cons.IH ..
qed

lemma Frame_waves:
  assumes F: "Frame X W cbSize f s = Inr s'"
  shows "mCurrFrameResourceIndex s' = (mCurrFrameResourceIndex s + 1) mod gNumFrameResources"
    and "waves_vertex_buffer s' = Some (slot_waves_buffer (mCurrFrameResourceIndex s') s')"
    and "slot_waves_buffer j s' = slot_waves_buffer j s"
    and "(t_base s', mWaves s') =
           UpdateWaves_simulate X W (GameTimer.TotalTime (fst f)) (fst f) (snd f) (t_base s, mWaves s)"
    and "\<forall>v < VertexCount W (mWaves s').
           mMappedData (WavesVB (mFrameResources s' ! mCurrFrameResourceIndex s')) ! v
             = wave_vertex X W (mWaves s') v"
proof -
  note ff = Frame_frame[OF F refl]
  note le = waves_loop_effect[OF ff(11)]
  show "mCurrFrameResourceIndex s' = (mCurrFrameResourceIndex s + 1) mod gNumFrameResources"
    by (rule ff(2))
  from ff(12) obtain h ri geo where h: "mWavesRitem s = Some h" "map_of (mAllRitems s') h = Some ri"
    and g: "mGeometries s' =
               AList.update (Geo ri)
                 (geo\<lparr>VertexBufferGPU := Some (Resource (WavesVB (mFrameResources s' !
                     ((mCurrFrameResourceIndex s + 1) mod gNumFrameResources))))\<rparr>)
                 (mGeometries s)"
    by blast
  have "mWavesRitem s' = Some h" using ff(13) h by simp
  then show "waves_vertex_buffer s' = Some (slot_waves_buffer (mCurrFrameResourceIndex s') s')"
    using h(2) by (simp add: waves_vertex_buffer_def slot_waves_buffer_def g update_conv' ff(2))
  show "slot_waves_buffer j s' = slot_waves_buffer j s"
  proof (cases "j = (mCurrFrameResourceIndex s + 1) mod gNumFrameResources")
    case True
    then show ?thesis using le by (simp add: slot_waves_buffer_def)
  next
    case False
    then show ?thesis using ff(5) by (simp add: slot_waves_buffer_def)
  qed
  show "(t_base s', mWaves s') =
           UpdateWaves_simulate X W (GameTimer.TotalTime (fst f)) (fst f) (snd f) (t_base s, mWaves s)"
    by (rule ff(10))
  show "\<forall>v < VertexCount W (mWaves s').
           mMappedData (WavesVB (mFrameResources s' ! mCurrFrameResourceIndex s')) ! v
             = wave_vertex X W (mWaves s') v"
    using le by (simp add: ff(2))
qed

lemma Frames_waves_state:
  "Frames X W cbSize fs s0 = Inr s \<Longrightarrow>
   mCurrFrameResourceIndex s mod gNumFrameResources
     = (mCurrFrameResourceIndex s0 + length fs) mod gNumFrameResources
   \<and> (\<forall>j. slot_waves_buffer j s = slot_waves_buffer j s0)
   \<and> (t_base s, mWaves s) = integrate_waves X W fs (t_base s0, mWaves s0)"
proof (induction fs arbitrary: s rule: rev_induct)
  case Nil
  then show ?case by simp
next
  case (snoc f fs)
  from snoc.prems obtain s1 where a: "Frames X W cbSize fs s0 = Inr s1"
    and b: "Frame X W cbSize f s1 = Inr s"
    by (auto simp: Frames_snoc bindE_Inr)
  note ih = snoc.IH[OF a] and fw = Frame_waves[OF b]
  have "mCurrFrameResourceIndex s mod gNumFrameResources
          = (mCurrFrameResourceIndex s1 mod gNumFrameResources + 1) mod gNumFrameResources"
    unfolding fw(1) by (simp add: mod_Suc_eq)
  also have "\<dots> = (mCurrFrameResourceIndex s0 + length (fs @ [f])) mod gNumFrameResources"
    using ih by (simp add: mod_Suc_eq)
  finally have i: "mCurrFrameResourceIndex s mod gNumFrameResources
          = (mCurrFrameResourceIndex s0 + length (fs @ [f])) mod gNumFrameResources" .
  have r: "\<forall>j. slot_waves_buffer j s = slot_waves_buffer j s0"
    using ih fw(3) by simp
  have "(t_base s, mWaves s) = integrate_waves X W (fs @ [f]) (t_base s0, mWaves s0)"
    unfolding integrate_waves_snoc using fw(4) ih by simp
  with i r show ?case by blast
qed


lemmas run_defs = at_end_def waves_vertex_buffer_def slot_waves_buffer_def


lemma demo_update_waves:
  "\<exists>s'. UpdateWaves ExactLib demo_waves (fst (demo_frame 1)) (snd (demo_frame 1))
           (demo_app\<lparr>mCurrFrameResource := Some 1, mCurrFrameResourceIndex := 1\<rparr>) = Inr s'"
  by (simp add: demo_defs step_defs Let_def)


subsection \<open>The wave vertex buffer\<close>

text \<open>
  C7. When \<open>UpdateWaves\<close> returns, the geometry that the waves item points to differs
  from what it was in the field \<open>VertexBufferGPU\<close> alone, which is now the resource of
  the wave vertex buffer of the current frame resource: its index buffers, index format,
  index buffer size, vertex stride, vertex buffer size and submesh table are as before.
  No other geometry, no render item and no other frame resource has changed, and every
  vertex of the waves has been written into the wave vertex buffer of the current frame
  resource, at its own index.
\<close>

theorem C7_rebuild_touches_vertex_payload_only:
  assumes U: "UpdateWaves X W gt env s = Inr s'"
  shows "\<exists>i h ri geo.
      mCurrFrameResource s = Some i \<and> mWavesRitem s = Some h
    \<and> map_of (mAllRitems s) h = Some ri \<and> map_of (mGeometries s) (Geo ri) = Some geo
    \<and> map_of (mGeometries s') (Geo ri)
        = Some (geo\<lparr>VertexBufferGPU := Some (Resource (WavesVB (mFrameResources s ! i)))\<rparr>)
    \<and> (\<forall>geo'. map_of (mGeometries s') (Geo ri) = Some geo' \<longrightarrow>
          IndexBufferCPU geo' = IndexBufferCPU geo \<and> IndexBufferGPU geo' = IndexBufferGPU geo
        \<and> IndexFormat geo' = IndexFormat geo \<and> IndexBufferByteSize geo' = IndexBufferByteSize geo
        \<and> VertexByteStride geo' = VertexByteStride geo
        \<and> VertexBufferByteSize geo' = VertexBufferByteSize geo
        \<and> VertexBufferCPU geo' = VertexBufferCPU geo
        \<and> DrawArgs geo' = DrawArgs geo \<and> MeshGeometry.Name geo' = MeshGeometry.Name geo)
    \<and> (\<forall>k. k \<noteq> Geo ri \<longrightarrow> map_of (mGeometries s') k = map_of (mGeometries s) k)
    \<and> map (\<lambda>p. fst p) (mGeometries s') = map (\<lambda>p. fst p) (mGeometries s)
    \<and> (\<forall>v < VertexCount W (mWaves s').
          mMappedData (WavesVB (mFrameResources s' ! i)) ! v = wave_vertex X W (mWaves s') v)
    \<and> length (mMappedData (WavesVB (mFrameResources s' ! i)))
        = length (mMappedData (WavesVB (mFrameResources s ! i)))
    \<and> Resource (WavesVB (mFrameResources s' ! i)) = Resource (WavesVB (mFrameResources s ! i))
    \<and> (\<forall>j. j \<noteq> i \<longrightarrow> mFrameResources s' ! j = mFrameResources s ! j)
    \<and> mAllRitems s' = mAllRitems s \<and> mRitemLayer s' = mRitemLayer s"
proof -
  from UpdateWaves_effect[OF U] obtain i vb h ri geo where
    c: "mCurrFrameResource s = Some i" and len: "i < length (mFrameResources s)"
    and l: "UpdateWaves_loop X W (mWaves s') (WavesVB (mFrameResources s ! i))
              [0..<VertexCount W (mWaves s')] = Inr vb"
    and h: "mWavesRitem s = Some h" "map_of (mAllRitems s) h = Some ri"
      "map_of (mGeometries s) (Geo ri) = Some geo"
    and s': "s' = s\<lparr>t_base := t_base s', mWaves := mWaves s',
              mFrameResources := (mFrameResources s)[i := (mFrameResources s ! i)\<lparr>WavesVB := vb\<rparr>],
              mGeometries := AList.update (Geo ri) (geo\<lparr>VertexBufferGPU := Some (Resource vb)\<rparr>)
                               (mGeometries s)\<rparr>"
    by blast
  note le = waves_loop_effect[OF l]
  have fr: "mFrameResources s' = (mFrameResources s)[i := (mFrameResources s ! i)\<lparr>WavesVB := vb\<rparr>]"
    and ge: "mGeometries s' = AList.update (Geo ri)
               (geo\<lparr>VertexBufferGPU := Some (Resource vb)\<rparr>) (mGeometries s)"
    and same: "mAllRitems s' = mAllRitems s" "mRitemLayer s' = mRitemLayer s"
    by (subst s'; simp)+
  have vb: "WavesVB (mFrameResources s' ! i) = vb" using len by (simp add: fr)
  have g1: "map_of (mGeometries s') (Geo ri)
        = Some (geo\<lparr>VertexBufferGPU := Some (Resource (WavesVB (mFrameResources s ! i)))\<rparr>)"
    using le by (simp add: ge update_conv')
  have g2: "\<forall>k. k \<noteq> Geo ri \<longrightarrow> map_of (mGeometries s') k = map_of (mGeometries s) k"
    by (simp add: ge update_conv')
  have g3: "map (\<lambda>p. fst p) (mGeometries s') = map (\<lambda>p. fst p) (mGeometries s)"
    unfolding ge using h(3)
    by (metis (no_types) domI map_fst_zip update_keys dom_map_of_conv_image_fst map_of_eq_None_iff
        option.distinct(1) list.set_map)
  have w: "\<forall>v < VertexCount W (mWaves s').
          mMappedData (WavesVB (mFrameResources s' ! i)) ! v = wave_vertex X W (mWaves s') v"
    using le by (simp add: vb)
  show ?thesis
    using c h g1 g2 g3 w le len same by (auto simp: vb fr)
qed

text \<open>The theorem at the small scene with the second frame resource current.\<close>

theorem C7_rebuild_touches_vertex_payload_only_witness:
  "\<exists>s'. UpdateWaves ExactLib demo_waves (fst (demo_frame 1)) (snd (demo_frame 1))
           (demo_app\<lparr>mCurrFrameResource := Some 1, mCurrFrameResourceIndex := 1\<rparr>) = Inr s'
     \<and> map_of (mGeometries s') ''waterGeo'' = Some (demo_geometry ''waterGeo'' (Some 23))
     \<and> map_of (mGeometries s') ''landGeo'' = Some (demo_geometry ''landGeo'' (Some 1))
     \<and> (\<forall>v < 4. mMappedData (WavesVB (mFrameResources s' ! 1)) ! v
            = wave_vertex ExactLib demo_waves (mWaves s') v)"
proof -
  let ?s = "demo_app\<lparr>mCurrFrameResource := Some 1, mCurrFrameResourceIndex := 1\<rparr>"
  from demo_update_waves obtain s' where
    U: "UpdateWaves ExactLib demo_waves (fst (demo_frame 1)) (snd (demo_frame 1)) ?s = Inr s'"
    by blast
  from C7_rebuild_touches_vertex_payload_only[OF U] obtain i h ri geo where
    c: "mCurrFrameResource ?s = Some i" "mWavesRitem ?s = Some h"
      "map_of (mAllRitems ?s) h = Some ri" "map_of (mGeometries ?s) (Geo ri) = Some geo"
    and g: "map_of (mGeometries s') (Geo ri)
        = Some (geo\<lparr>VertexBufferGPU := Some (Resource (WavesVB (mFrameResources ?s ! i)))\<rparr>)"
    and o: "\<forall>k. k \<noteq> Geo ri \<longrightarrow> map_of (mGeometries s') k = map_of (mGeometries ?s) k"
    and w: "\<forall>v < VertexCount demo_waves (mWaves s').
          mMappedData (WavesVB (mFrameResources s' ! i)) ! v = wave_vertex ExactLib demo_waves (mWaves s') v"
    by blast
  have i: "i = 1" and h: "h = 0" using c(1,2) by (simp_all add: demo_app_def)
  have ri: "Geo ri = ''waterGeo''" using c(3) unfolding h by (auto simp: demo_app_def demo_item_def)
  have geo: "geo = demo_geometry ''waterGeo'' None" using c(4) unfolding ri by (simp add: demo_app_def)
  have g1: "map_of (mGeometries s') ''waterGeo'' = Some (demo_geometry ''waterGeo'' (Some 23))"
    using g unfolding ri geo i
    by (simp add: demo_app_def demo_geometry_def demo_frame_resource_def)
  have g2: "map_of (mGeometries s') ''landGeo'' = Some (demo_geometry ''landGeo'' (Some 1))"
    using o unfolding ri by (simp add: demo_app_def)
  have w': "\<forall>v < 4. mMappedData (WavesVB (mFrameResources s' ! 1)) ! v
            = wave_vertex ExactLib demo_waves (mWaves s') v"
    using w unfolding i by (simp add: demo_waves_def)
  show ?thesis using U g1 g2 w' by blast
qed

lemma waves_loop_closed:
  assumes n: "n \<le> length (mMappedData vb)"
  shows "UpdateWaves_loop X W w vb [0..<n] =
           Inr (vb\<lparr>mMappedData := map (wave_vertex X W w) [0..<n] @ drop n (mMappedData vb)\<rparr>)"
proof -
  have "\<forall>v \<in> set [0..<n]. v < length (mMappedData vb)" using n by simp
  from waves_loop_total[OF this, of X W w] obtain vb' where l: "UpdateWaves_loop X W w vb [0..<n] = Inr vb'"
    by blast
  note e = waves_loop_effect[OF l]
  have "mMappedData vb' = map (wave_vertex X W w) [0..<n] @ drop n (mMappedData vb)"
  proof (rule nth_equalityI)
    show "length (mMappedData vb') = length (map (wave_vertex X W w) [0..<n] @ drop n (mMappedData vb))"
      using e n by simp
  next
    fix v assume "v < length (mMappedData vb')"
    then have v: "v < length (mMappedData vb)" using e by simp
    show "mMappedData vb' ! v = (map (wave_vertex X W w) [0..<n] @ drop n (mMappedData vb)) ! v"
    proof (cases "v < n")
      case True
      then show ?thesis using e by (simp add: nth_append)
    next
      case False
      then show ?thesis using e v n by (simp add: nth_append)
    qed
  qed
  then have "vb' = vb\<lparr>mMappedData := map (wave_vertex X W w) [0..<n] @ drop n (mMappedData vb)\<rparr>"
    using e by (intro UploadBuffer.equality) simp_all
  then show ?thesis using l by simp
qed

lemma pond_three_frames:
  "\<exists>s. Frames ExactLib demo_pond demo_cbSize [pond_frame 1, pond_frame 2, pond_frame 3] pond_app = Inr s"
  by (simp add: pond_app_def pond_frame_def demo_pond_def demo_defs step_defs Let_def
      waves_loop_closed del: upt_rec)

lemma Frame_schedule:
  assumes F: "Frame X W cbSize f a = Inr b"
  shows "if rnd X (GameTimer.TotalTime (fst f) - t_base a) \<ge> 0.25
              then t_base b = rnd X (t_base a + 0.25)
                 \<and> mWaves b =
                     WUpdate W
                       (Disturb W (mWaves a) (fst (disturbed_cell W (snd f) (mWaves a)))
                          (snd (disturbed_cell W (snd f) (mWaves a)))
                          (randR (snd f) (rnd X 0.2) 0.5))
                       (GameTimer.DeltaTime (fst f))
              else t_base b = t_base a
                 \<and> mWaves b = WUpdate W (mWaves a) (GameTimer.DeltaTime (fst f))"
  using Frame_waves(4)[OF F]
  by (simp add: UpdateWaves_simulate_def disturbed_cell_def Let_def split: if_splits)

lemma disturbed_cell_interior:
  assumes "Rand_in_range env" "9 \<le> RowCount W w" "9 \<le> ColumnCount W w"
  shows "interior_cell W w (disturbed_cell W env w)"
proof -
  have r: "(4 :: int) \<le> int (RowCount W w) - 5" "(4 :: int) \<le> int (ColumnCount W w) - 5"
    using assms(2,3) by simp_all
  from assms(1) r(1) have
    "4 \<le> randI env 4 (int (RowCount W w) - 5)"
    "randI env 4 (int (RowCount W w) - 5) \<le> int (RowCount W w) - 5"
    unfolding Rand_in_range_def by blast+
  moreover from assms(1) r(2) have
    "4 \<le> randJ env 4 (int (ColumnCount W w) - 5)"
    "randJ env 4 (int (ColumnCount W w) - 5) \<le> int (ColumnCount W w) - 5"
    unfolding Rand_in_range_def by blast+
  ultimately show ?thesis by (simp add: interior_cell_def disturbed_cell_def)
qed

text \<open>
  C4 (amended). With three frame resources, after a run of \<open>K \<ge> 1\<close> frames from a
  state with the ring index \<open>i\<close> the vertex buffer of the waves geometry is the wave
  vertex buffer of the frame resource \<open>(i + K) mod 3\<close>, which is the current one: from
  the initial index 0 the slots are 1, 2, 0, 1, ... and not 0, 1, 2, 0. The buffers of the
  frame resources are the resources they were. The state of the waves is the initial state
  integrated \<open>K\<close> times under the disturbance schedule of the run: in each frame, when a
  quarter second has elapsed since the last disturbance fell due, the next falls due a
  quarter second later and one cell, drawn at random, is disturbed by a random amount
  before the simulation advances by the frame's delta time; the cell is an interior cell
  when \<open>MathHelper::Rand\<close> returns a number between its bounds and the grid has at least
  nine rows and nine columns. The buffer of the current frame resource holds the vertices
  of that state: position and normal as the simulation gives them, texture coordinates
  \<open>0.5 + x / width\<close> and \<open>0.5 - z / depth\<close>, which map the horizontal extent of the mesh
  to \<open>[0, 1]\<close>: in exact arithmetic they lie in \<open>[0, 1]\<close> when the position lies within
  the extent.
\<close>

theorem C4_waves_round_robin:
  assumes F: "Frames X W cbSize fs s0 = Inr s" and ne: "fs \<noteq> []"
  shows "mCurrFrameResourceIndex s
           = (mCurrFrameResourceIndex s0 + length fs) mod gNumFrameResources
       \<and> (mCurrFrameResourceIndex s0 = 0 \<longrightarrow> mCurrFrameResourceIndex s = length fs mod 3)
       \<and> waves_vertex_buffer s = Some (slot_waves_buffer (mCurrFrameResourceIndex s) s)
       \<and> (\<forall>j. slot_waves_buffer j s = slot_waves_buffer j s0)
       \<and> (t_base s, mWaves s) = integrate_waves X W fs (t_base s0, mWaves s0)
       \<and> (\<forall>v < VertexCount W (mWaves s).
             mMappedData (WavesVB (mFrameResources s ! mCurrFrameResourceIndex s)) ! v
               = wave_vertex X W (mWaves s) v)
       \<and> (\<forall>f a b. Frame X W cbSize f a = Inr b \<longrightarrow>
             (if rnd X (GameTimer.TotalTime (fst f) - t_base a) \<ge> 0.25
              then t_base b = rnd X (t_base a + 0.25)
                 \<and> mWaves b =
                     WUpdate W
                       (Disturb W (mWaves a) (fst (disturbed_cell W (snd f) (mWaves a)))
                          (snd (disturbed_cell W (snd f) (mWaves a)))
                          (randR (snd f) (rnd X 0.2) 0.5))
                       (GameTimer.DeltaTime (fst f))
              else t_base b = t_base a
                 \<and> mWaves b = WUpdate W (mWaves a) (GameTimer.DeltaTime (fst f))))
       \<and> (\<forall>env w. Rand_in_range env \<and> 9 \<le> RowCount W w \<and> 9 \<le> ColumnCount W w \<longrightarrow>
             interior_cell W w (disturbed_cell W env w))
       \<and> (\<forall>w v. Vertex.Pos (wave_vertex X W w v) = Position W w v
             \<and> Vertex.Normal (wave_vertex X W w v) = WNormal W w v
             \<and> Vertex.TexC (wave_vertex X W w v)
                 = (rnd X (0.5 + rnd X (fst (Position W w v) / Width W w)),
                    rnd X (0.5 - rnd X (snd (snd (Position W w v)) / Depth W w))))
       \<and> (\<forall>w v. rnd X = (\<lambda>x. x) \<and> 0 < Width W w \<and> 0 < Depth W w
             \<and> \<bar>fst (Position W w v)\<bar> \<le> Width W w / 2
             \<and> \<bar>snd (snd (Position W w v))\<bar> \<le> Depth W w / 2 \<longrightarrow>
             0 \<le> fst (Vertex.TexC (wave_vertex X W w v)) \<and> fst (Vertex.TexC (wave_vertex X W w v)) \<le> 1
           \<and> 0 \<le> snd (Vertex.TexC (wave_vertex X W w v)) \<and> snd (Vertex.TexC (wave_vertex X W w v)) \<le> 1)"
proof -
  from ne obtain gs f where fs: "fs = gs @ [f]" by (metis rev_exhaust)
  with F obtain s1 where b: "Frame X W cbSize f s1 = Inr s"
    by (auto simp: Frames_snoc bindE_Inr)
  note fw = Frame_waves[OF b] and st = Frames_waves_state[OF F]
  have lt: "mCurrFrameResourceIndex s < gNumFrameResources"
    unfolding fw(1) by (simp add: gNumFrameResources_def)
  have i: "mCurrFrameResourceIndex s
           = (mCurrFrameResourceIndex s0 + length fs) mod gNumFrameResources"
    using st lt by simp
  have i0: "mCurrFrameResourceIndex s0 = 0 \<longrightarrow> mCurrFrameResourceIndex s = length fs mod 3"
    using i by (simp add: gNumFrameResources_def)
  have sc: "(\<forall>f a b. Frame X W cbSize f a = Inr b \<longrightarrow>
               (if rnd X (GameTimer.TotalTime (fst f) - t_base a) \<ge> 0.25
                then t_base b = rnd X (t_base a + 0.25)
                   \<and> mWaves b =
                       WUpdate W
                         (Disturb W (mWaves a) (fst (disturbed_cell W (snd f) (mWaves a)))
                            (snd (disturbed_cell W (snd f) (mWaves a)))
                            (randR (snd f) (rnd X 0.2) 0.5))
                         (GameTimer.DeltaTime (fst f))
                else t_base b = t_base a
                   \<and> mWaves b = WUpdate W (mWaves a) (GameTimer.DeltaTime (fst f))))"
    by (intro allI impI) (rule Frame_schedule)
  have ic: "(\<forall>env w. Rand_in_range env \<and> 9 \<le> RowCount W w \<and> 9 \<le> ColumnCount W w \<longrightarrow>
             interior_cell W w (disturbed_cell W env w))"
  proof (intro allI impI)
    fix env w
    assume "Rand_in_range env \<and> 9 \<le> RowCount W w \<and> 9 \<le> ColumnCount W w"
    then show "interior_cell W w (disturbed_cell W env w)"
      by (intro disturbed_cell_interior) simp_all
  qed
  have v: "\<forall>w v. Vertex.Pos (wave_vertex X W w v) = Position W w v
             \<and> Vertex.Normal (wave_vertex X W w v) = WNormal W w v
             \<and> Vertex.TexC (wave_vertex X W w v)
                 = (rnd X (0.5 + rnd X (fst (Position W w v) / Width W w)),
                    rnd X (0.5 - rnd X (snd (snd (Position W w v)) / Depth W w)))"
    by (simp add: wave_vertex_def Let_def)
  have u: "0 \<le> fst (Vertex.TexC (wave_vertex X W w v)) \<and> fst (Vertex.TexC (wave_vertex X W w v)) \<le> 1
           \<and> 0 \<le> snd (Vertex.TexC (wave_vertex X W w v)) \<and> snd (Vertex.TexC (wave_vertex X W w v)) \<le> 1"
    if a: "rnd X = (\<lambda>x. x) \<and> 0 < Width W w \<and> 0 < Depth W w
             \<and> \<bar>fst (Position W w v)\<bar> \<le> Width W w / 2
             \<and> \<bar>snd (snd (Position W w v))\<bar> \<le> Depth W w / 2" for w v
  proof -
    let ?x = "fst (Position W w v)" and ?z = "snd (snd (Position W w v))"
    have xb: "?x \<le> Width W w / 2" "- (Width W w / 2) \<le> ?x"
      and zb: "?z \<le> Depth W w / 2" "- (Depth W w / 2) \<le> ?z"
      using a by (simp_all add: abs_le_iff) linarith+
    have x: "?x / Width W w \<le> 1 / 2" "- (1 / 2) \<le> ?x / Width W w"
      using a xb by (simp_all add: pos_divide_le_eq pos_le_divide_eq)
    have z: "?z / Depth W w \<le> 1 / 2" "- (1 / 2) \<le> ?z / Depth W w"
      using a zb by (simp_all add: pos_divide_le_eq pos_le_divide_eq)
    have "fst (Vertex.TexC (wave_vertex X W w v)) = 1 / 2 + ?x / Width W w"
      "snd (Vertex.TexC (wave_vertex X W w v)) = 1 / 2 - ?z / Depth W w"
      using a by (simp_all add: wave_vertex_def Let_def)
    then show ?thesis using x z by linarith
  qed
  have u': "\<forall>w v. rnd X = (\<lambda>x. x) \<and> 0 < Width W w \<and> 0 < Depth W w
             \<and> \<bar>fst (Position W w v)\<bar> \<le> Width W w / 2
             \<and> \<bar>snd (snd (Position W w v))\<bar> \<le> Depth W w / 2 \<longrightarrow>
             0 \<le> fst (Vertex.TexC (wave_vertex X W w v)) \<and> fst (Vertex.TexC (wave_vertex X W w v)) \<le> 1
           \<and> 0 \<le> snd (Vertex.TexC (wave_vertex X W w v)) \<and> snd (Vertex.TexC (wave_vertex X W w v)) \<le> 1"
    by (intro allI impI) (rule u)
  have st5: "(t_base s, mWaves s) = integrate_waves X W fs (t_base s0, mWaves s0)"
    and st4: "\<forall>j. slot_waves_buffer j s = slot_waves_buffer j s0"
    using st by blast+
  show ?thesis
    by (rule conjI[OF i conjI[OF i0 conjI[OF fw(2) conjI[OF st4 conjI[OF st5 conjI[OF fw(5)
          conjI[OF sc conjI[OF ic conjI[OF v u']]]]]]]]])
qed


text \<open>
  C4 as stated has the slots in the order 0, 1, 2, 0. In the small scene the ring index
  is 0 and the waves geometry has no vertex buffer before the first frame, and after the
  first frame its vertex buffer is the buffer 23 of frame resource 1, not the buffer 13 of
  frame resource 0.
\<close>

theorem C4_first_frame_counterexample:
  "mCurrFrameResourceIndex demo_app = 0
   \<and> waves_vertex_buffer demo_app = None
   \<and> at_end (Frames ExactLib demo_waves demo_cbSize [demo_frame 1] demo_app) waves_vertex_buffer
       = Some (Some 23)
   \<and> at_end (Frames ExactLib demo_waves demo_cbSize [demo_frame 1] demo_app) (slot_waves_buffer 0)
       = Some 13
   \<and> at_end (Frames ExactLib demo_waves demo_cbSize [demo_frame 1] demo_app) (slot_waves_buffer 1)
       = Some 23"
  by (simp add: run_defs demo_defs step_defs Let_def)


text \<open>
  The amended theorem at the pond of nine rows and columns, after one, two and three
  frames: the wave vertex buffer is the buffer 23 of slot 1, then 33 of slot 2, then 13 of
  slot 0. The third frame disturbs the interior cell (4, 4), and the buffer then holds the
  vertices of the state 13, with the texture coordinates (0, 0) and (1, 1) at the corners.
\<close>

theorem C4_waves_round_robin_witness:
  "\<exists>s1 s2 s3.
       Frames ExactLib demo_pond demo_cbSize [pond_frame 1] pond_app = Inr s1
     \<and> Frames ExactLib demo_pond demo_cbSize [pond_frame 1, pond_frame 2] pond_app = Inr s2
     \<and> Frames ExactLib demo_pond demo_cbSize [pond_frame 1, pond_frame 2, pond_frame 3] pond_app = Inr s3
     \<and> mCurrFrameResourceIndex pond_app = 0
     \<and> mCurrFrameResourceIndex s1 = 1 \<and> waves_vertex_buffer s1 = Some 23
     \<and> mCurrFrameResourceIndex s2 = 2 \<and> waves_vertex_buffer s2 = Some 33
     \<and> mCurrFrameResourceIndex s3 = 0 \<and> waves_vertex_buffer s3 = Some 13
     \<and> (t_base s2, mWaves s2) = (0, 2)
     \<and> (t_base s3, mWaves s3) = (0.25, 13)
     \<and> Rand_in_range (snd (pond_frame 3))
     \<and> disturbed_cell demo_pond (snd (pond_frame 3)) 2 = (4, 4)
     \<and> interior_cell demo_pond 2 (4, 4)
     \<and> mMappedData (WavesVB (mFrameResources s3 ! 0)) ! 0
           = \<lparr>Vertex.Pos = (- 4, 13, 4), Vertex.Normal = (0, 1, 0), Vertex.TexC = (0, 0)\<rparr>
     \<and> mMappedData (WavesVB (mFrameResources s3 ! 0)) ! 80
           = \<lparr>Vertex.Pos = (4, 13, - 4), Vertex.Normal = (0, 1, 0), Vertex.TexC = (1, 1)\<rparr>
     \<and> 0 \<le> fst (Vertex.TexC (wave_vertex ExactLib demo_pond 13 40))
     \<and> fst (Vertex.TexC (wave_vertex ExactLib demo_pond 13 40)) \<le> 1"
proof -
  let ?f1 = "pond_frame 1" and ?f2 = "pond_frame 2" and ?f3 = "pond_frame 3"
  from pond_three_frames obtain s3 where
    F3: "Frames ExactLib demo_pond demo_cbSize [?f1, ?f2, ?f3] pond_app = Inr s3"
    by blast
  have "Frames ExactLib demo_pond demo_cbSize ([?f1, ?f2] @ [?f3]) pond_app = Inr s3"
    using F3 by simp
  then obtain s2 where F2: "Frames ExactLib demo_pond demo_cbSize [?f1, ?f2] pond_app = Inr s2"
    unfolding Frames_append by (auto simp: bindE_Inr)
  have "Frames ExactLib demo_pond demo_cbSize ([?f1] @ [?f2]) pond_app = Inr s2"
    using F2 by simp
  then obtain s1 where F1: "Frames ExactLib demo_pond demo_cbSize [?f1] pond_app = Inr s1"
    unfolding Frames_append by (auto simp: bindE_Inr)
  have i0: "mCurrFrameResourceIndex pond_app = 0"
    by (simp add: pond_app_def demo_app_def)
  have b: "slot_waves_buffer 0 pond_app = 13" "slot_waves_buffer 1 pond_app = 23"
    "slot_waves_buffer 2 pond_app = 33"
    by (simp_all add: slot_waves_buffer_def pond_app_def demo_app_def demo_frame_resource_def)
  have tw: "t_base pond_app = 0" "mWaves pond_app = 0"
    by (simp_all add: pond_app_def demo_app_def)
  have ne: "[?f1] \<noteq> []" "[?f1, ?f2] \<noteq> []" "[?f1, ?f2, ?f3] \<noteq> []" by simp_all
  note c1 = C4_waves_round_robin[OF F1 ne(1)] and c2 = C4_waves_round_robin[OF F2 ne(2)]
    and c3 = C4_waves_round_robin[OF F3 ne(3)]
  note h1 = c1[THEN conjunct2, THEN conjunct2, THEN conjunct1]
    and h2 = c2[THEN conjunct2, THEN conjunct2, THEN conjunct1]
    and h3 = c3[THEN conjunct2, THEN conjunct2, THEN conjunct1]
  note b1 = c1[THEN conjunct2, THEN conjunct2, THEN conjunct2, THEN conjunct1, rule_format]
    and b2 = c2[THEN conjunct2, THEN conjunct2, THEN conjunct2, THEN conjunct1, rule_format]
    and b3 = c3[THEN conjunct2, THEN conjunct2, THEN conjunct2, THEN conjunct1, rule_format]
  have i1: "mCurrFrameResourceIndex s1 = 1"
    using c1[THEN conjunct1] i0 by (simp add: gNumFrameResources_def)
  have i2: "mCurrFrameResourceIndex s2 = 2"
    using c2[THEN conjunct1] i0 by (simp add: gNumFrameResources_def)
  have i3: "mCurrFrameResourceIndex s3 = 0"
    using c3[THEN conjunct1] i0 by (simp add: gNumFrameResources_def)
  have v1: "waves_vertex_buffer s1 = Some 23" unfolding h1 i1 b1 b ..
  have v2: "waves_vertex_buffer s2 = Some 33" unfolding h2 i2 b2 b ..
  have v3: "waves_vertex_buffer s3 = Some 13" unfolding h3 i3 b3 b ..
  have w2: "(t_base s2, mWaves s2) = (0, 2)"
    using c2[THEN conjunct2, THEN conjunct2, THEN conjunct2, THEN conjunct2, THEN conjunct1]
    by (simp add: tw pond_frame_def demo_pond_def ExactLib_def)
  have w3: "(t_base s3, mWaves s3) = (0.25, 13)"
    using c3[THEN conjunct2, THEN conjunct2, THEN conjunct2, THEN conjunct2, THEN conjunct1]
    by (simp add: tw pond_frame_def demo_pond_def ExactLib_def)
  have ms: "mWaves s3 = 13" using w3 by simp
  have rr: "Rand_in_range (snd (pond_frame 3))"
    by (simp add: Rand_in_range_def pond_frame_def)
  have dc: "disturbed_cell demo_pond (snd (pond_frame 3)) 2 = (4, 4)"
    by (simp add: disturbed_cell_def pond_frame_def demo_pond_def)
  have g9: "9 \<le> RowCount demo_pond 2" "9 \<le> ColumnCount demo_pond 2"
    by (simp_all add: demo_pond_def)
  have "interior_cell demo_pond 2 (disturbed_cell demo_pond (snd (pond_frame 3)) 2)"
    using c3[THEN conjunct2, THEN conjunct2, THEN conjunct2, THEN conjunct2, THEN conjunct2,
             THEN conjunct2, THEN conjunct2, THEN conjunct1, rule_format, of "snd (pond_frame 3)" 2]
      rr g9 by blast
  then have ic: "interior_cell demo_pond 2 (4, 4)" unfolding dc .
  have vc: "VertexCount demo_pond 13 = 81" by (simp add: demo_pond_def)
  note d = c3[THEN conjunct2, THEN conjunct2, THEN conjunct2, THEN conjunct2, THEN conjunct2,
              THEN conjunct1, unfolded i3 ms vc, rule_format]
  have d0: "mMappedData (WavesVB (mFrameResources s3 ! 0)) ! 0
           = \<lparr>Vertex.Pos = (- 4, 13, 4), Vertex.Normal = (0, 1, 0), Vertex.TexC = (0, 0)\<rparr>"
    using d[of 0] by (simp add: wave_vertex_def demo_pond_def ExactLib_def)
  have d80: "mMappedData (WavesVB (mFrameResources s3 ! 0)) ! 80
           = \<lparr>Vertex.Pos = (4, 13, - 4), Vertex.Normal = (0, 1, 0), Vertex.TexC = (1, 1)\<rparr>"
    using d[of 80] by (simp add: wave_vertex_def demo_pond_def ExactLib_def)
  have hyp: "rnd ExactLib = (\<lambda>x. x) \<and> 0 < Width demo_pond 13 \<and> 0 < Depth demo_pond 13
             \<and> \<bar>fst (Position demo_pond 13 40)\<bar> \<le> Width demo_pond 13 / 2
             \<and> \<bar>snd (snd (Position demo_pond 13 40))\<bar> \<le> Depth demo_pond 13 / 2"
    by (simp add: ExactLib_def demo_pond_def)
  note tx = c3[THEN conjunct2, THEN conjunct2, THEN conjunct2, THEN conjunct2, THEN conjunct2,
              THEN conjunct2, THEN conjunct2, THEN conjunct2, THEN conjunct2, rule_format, OF hyp]
  have t0: "0 \<le> fst (Vertex.TexC (wave_vertex ExactLib demo_pond 13 40))"
    and t1: "fst (Vertex.TexC (wave_vertex ExactLib demo_pond 13 40)) \<le> 1"
    using tx by blast+
  show ?thesis
    apply (rule exI[of _ s1], rule exI[of _ s2], rule exI[of _ s3])
    apply (intro conjI)
    by (rule F1 F2 F3 i0 i1 v1 i2 v2 i3 v3 w2 w3 rr dc ic d0 d80 t0 t1)+
qed

subsection \<open>The camera radius stays clamped\<close>

lemma Clamp_bounds: "low \<le> high \<Longrightarrow> low \<le> Clamp x low high \<and> Clamp x low high \<le> high"
  by (simp add: Clamp_def)








section \<open>Submesh ranges\<close>

lemma to_UINT_id: "n < 4294967296 \<Longrightarrow> to_UINT n = n"
  by (simp add: to_UINT_def)

lemma to_INT_id: "n < 2147483648 \<Longrightarrow> to_INT n = int n"
  by (simp add: to_INT_def)

lemma usize_id: "length xs < 4294967296 \<Longrightarrow> usize xs = length xs"
  by (simp add: usize_def to_UINT_def)

lemma length_GetIndices16: "length (GetIndices16 m) = length (Indices32 m)"
  by (simp add: GetIndices16_def)

lemma GetIndices16_nth:
  assumes "MeshData_ok m" and "k < length (Indices32 m)"
  shows "GetIndices16 m ! k < length (Vertices m)"
proof -
  have "Indices32 m ! k < length (Vertices m)"
    using assms by (simp add: MeshData_ok_def list_all_length)
  moreover have "GetIndices16 m ! k \<le> Indices32 m ! k"
    using assms(2) by (simp add: GetIndices16_def)
  ultimately show ?thesis by simp
qed

lemma submesh_part:
  assumes ib: "IndexBufferCPU geo = pre @ GetIndices16 m @ post"
    and ic: "index_count geo = length (IndexBufferCPU geo)"
    and st: "SubmeshGeometry.StartIndexLocation sm = length pre"
    and cn: "SubmeshGeometry.IndexCount sm = length (Indices32 m)"
    and bv: "SubmeshGeometry.BaseVertexLocation sm = int vb"
    and vc: "vb + length (Vertices m) \<le> vertex_count geo"
    and ok: "MeshData_ok m"
  shows "submesh_in_range geo sm"
proof -
  have "IndexBufferCPU geo ! (length pre + k) = GetIndices16 m ! k"
    if "k < length (Indices32 m)" for k
    using that by (simp add: ib nth_append length_GetIndices16)
  then have "int vb + int (IndexBufferCPU geo ! (length pre + k)) < int (vertex_count geo)"
    if "k < length (Indices32 m)" for k
    using GetIndices16_nth[OF ok that] vc that by fastforce
  then show ?thesis
    unfolding submesh_in_range_def st cn bv ic
    by (simp add: list_all_length ib length_GetIndices16)
qed

lemma BuildBoxGeometry_ranges:
  assumes ok: "list_all MeshData_ok [b, s, c, k, f, p, w, q]"
    and ft: "fits sizeof_Vertex [b, s, c, k, f, p, w, q]"
    and le: "length (Vertices p) \<le> length (Vertices f)"
  shows "\<exists>geo. BuildBoxGeometry b s c k f p w q vb ib = Inr geo
           \<and> map fst (DrawArgs geo) =
               [''box'', ''sphere'', ''cylinder'', ''cone'', ''Pyramid_flat_head'',
                ''Pyramid_pointed_head'', ''wedge'', ''pointed_cylinder'']
           \<and> list_all (submesh_in_range geo) (map snd (DrawArgs geo))"
proof -
  let ?V = "\<lambda>m. length (Vertices m)"
  let ?I = "\<lambda>m. length (Indices32 m)"
  have V: "(?V b + ?V s + ?V c + ?V k + ?V f + ?V p + ?V w + ?V q) * 32 < 4294967296"
    and I: "(?I b + ?I s + ?I c + ?I k + ?I f + ?I p + ?I w + ?I q) * 2 < 4294967296"
    using ft by (simp_all add: fits_def sizeof_Vertex_def sizeof_uint16_def add.assoc)
  have uV: "usize (Vertices b) = ?V b" "usize (Vertices s) = ?V s" "usize (Vertices c) = ?V c"
    "usize (Vertices k) = ?V k" "usize (Vertices f) = ?V f" "usize (Vertices p) = ?V p"
    "usize (Vertices w) = ?V w" "usize (Vertices q) = ?V q"
    using V by (simp_all add: usize_id)
  have uI: "usize (Indices32 b) = ?I b" "usize (Indices32 s) = ?I s" "usize (Indices32 c) = ?I c"
    "usize (Indices32 k) = ?I k" "usize (Indices32 f) = ?I f" "usize (Indices32 p) = ?I p"
    "usize (Indices32 w) = ?I w" "usize (Indices32 q) = ?I q"
    using I by (simp_all add: usize_id)
  obtain geo where g: "BuildBoxGeometry b s c k f p w q vb ib = Inr geo"
    using le by (simp add: BuildBoxGeometry_def Let_def)
  have geo: "geo = the_geo" if "the_geo = projr (BuildBoxGeometry b s c k f p w q vb ib)" for the_geo
    using g that by simp
  have ibuf: "IndexBufferCPU geo =
      GetIndices16 b @ GetIndices16 s @ GetIndices16 c @ GetIndices16 k @ GetIndices16 f
      @ GetIndices16 p @ GetIndices16 w @ GetIndices16 q"
    using g le by (simp add: BuildBoxGeometry_def Let_def split: if_splits) (erule subst, simp)
  have vcount: "vertex_count geo = ?V b + ?V s + ?V c + ?V k + ?V f + ?V p + ?V w + ?V q"
    using g le V
    by (simp add: BuildBoxGeometry_def Let_def split: if_splits)
       (erule subst, simp add: vertex_count_def usize_def sizeof_Vertex_def to_UINT_id)
  have icount: "index_count geo = length (IndexBufferCPU geo)"
    using g le I
    by (simp add: BuildBoxGeometry_def Let_def split: if_splits)
       (erule subst, simp add: index_count_def usize_def sizeof_uint16_def to_UINT_id
          length_GetIndices16)
  have args: "DrawArgs geo =
     [(''box'', \<lparr>SubmeshGeometry.IndexCount = ?I b, StartIndexLocation = 0,
                 BaseVertexLocation = 0\<rparr>),
      (''sphere'', \<lparr>SubmeshGeometry.IndexCount = ?I s, StartIndexLocation = ?I b,
                 BaseVertexLocation = int (?V b)\<rparr>),
      (''cylinder'', \<lparr>SubmeshGeometry.IndexCount = ?I c, StartIndexLocation = ?I b + ?I s,
                 BaseVertexLocation = int (?V b + ?V s)\<rparr>),
      (''cone'', \<lparr>SubmeshGeometry.IndexCount = ?I k, StartIndexLocation = ?I b + ?I s + ?I c,
                 BaseVertexLocation = int (?V b + ?V s + ?V c)\<rparr>),
      (''Pyramid_flat_head'', \<lparr>SubmeshGeometry.IndexCount = ?I f,
                 StartIndexLocation = ?I b + ?I s + ?I c + ?I k,
                 BaseVertexLocation = int (?V b + ?V s + ?V c + ?V k)\<rparr>),
      (''Pyramid_pointed_head'', \<lparr>SubmeshGeometry.IndexCount = ?I p,
                 StartIndexLocation = ?I b + ?I s + ?I c + ?I k + ?I f,
                 BaseVertexLocation = int (?V b + ?V s + ?V c + ?V k + ?V f)\<rparr>),
      (''wedge'', \<lparr>SubmeshGeometry.IndexCount = ?I w,
                 StartIndexLocation = ?I b + ?I s + ?I c + ?I k + ?I f + ?I p,
                 BaseVertexLocation = int (?V b + ?V s + ?V c + ?V k + ?V f + ?V p)\<rparr>),
      (''pointed_cylinder'', \<lparr>SubmeshGeometry.IndexCount = ?I q,
                 StartIndexLocation = ?I b + ?I s + ?I c + ?I k + ?I f + ?I p + ?I w,
                 BaseVertexLocation = int (?V b + ?V s + ?V c + ?V k + ?V f + ?V p + ?V w)\<rparr>)]"
    using g le V I
    by (simp add: BuildBoxGeometry_def Let_def split: if_splits)
       (erule subst, simp add: Submesh_def uV uI to_UINT_id to_INT_id)
  have oks: "MeshData_ok b" "MeshData_ok s" "MeshData_ok c" "MeshData_ok k" "MeshData_ok f"
    "MeshData_ok p" "MeshData_ok w" "MeshData_ok q"
    using ok by simp_all
  have r1: "submesh_in_range geo \<lparr>SubmeshGeometry.IndexCount = ?I b,
      StartIndexLocation = 0, BaseVertexLocation = int (0)\<rparr>"
    by (rule submesh_part[where pre = "[]" and m = b and vb = "0"
          and post = "GetIndices16 s @ GetIndices16 c @ GetIndices16 k @ GetIndices16 f @ GetIndices16 p @ GetIndices16 w @ GetIndices16 q"])
       (simp_all add: ibuf icount vcount oks length_GetIndices16)
  have r2: "submesh_in_range geo \<lparr>SubmeshGeometry.IndexCount = ?I s,
      StartIndexLocation = ?I b, BaseVertexLocation = int (?V b)\<rparr>"
    by (rule submesh_part[where pre = "GetIndices16 b" and m = s and vb = "?V b"
          and post = "GetIndices16 c @ GetIndices16 k @ GetIndices16 f @ GetIndices16 p @ GetIndices16 w @ GetIndices16 q"])
       (simp_all add: ibuf icount vcount oks length_GetIndices16)
  have r3: "submesh_in_range geo \<lparr>SubmeshGeometry.IndexCount = ?I c,
      StartIndexLocation = ?I b + ?I s, BaseVertexLocation = int (?V b + ?V s)\<rparr>"
    by (rule submesh_part[where pre = "GetIndices16 b @ GetIndices16 s" and m = c and vb = "?V b + ?V s"
          and post = "GetIndices16 k @ GetIndices16 f @ GetIndices16 p @ GetIndices16 w @ GetIndices16 q"])
       (simp_all add: ibuf icount vcount oks length_GetIndices16)
  have r4: "submesh_in_range geo \<lparr>SubmeshGeometry.IndexCount = ?I k,
      StartIndexLocation = ?I b + ?I s + ?I c, BaseVertexLocation = int (?V b + ?V s + ?V c)\<rparr>"
    by (rule submesh_part[where pre = "GetIndices16 b @ GetIndices16 s @ GetIndices16 c" and m = k and vb = "?V b + ?V s + ?V c"
          and post = "GetIndices16 f @ GetIndices16 p @ GetIndices16 w @ GetIndices16 q"])
       (simp_all add: ibuf icount vcount oks length_GetIndices16)
  have r5: "submesh_in_range geo \<lparr>SubmeshGeometry.IndexCount = ?I f,
      StartIndexLocation = ?I b + ?I s + ?I c + ?I k, BaseVertexLocation = int (?V b + ?V s + ?V c + ?V k)\<rparr>"
    by (rule submesh_part[where pre = "GetIndices16 b @ GetIndices16 s @ GetIndices16 c @ GetIndices16 k" and m = f and vb = "?V b + ?V s + ?V c + ?V k"
          and post = "GetIndices16 p @ GetIndices16 w @ GetIndices16 q"])
       (simp_all add: ibuf icount vcount oks length_GetIndices16)
  have r6: "submesh_in_range geo \<lparr>SubmeshGeometry.IndexCount = ?I p,
      StartIndexLocation = ?I b + ?I s + ?I c + ?I k + ?I f, BaseVertexLocation = int (?V b + ?V s + ?V c + ?V k + ?V f)\<rparr>"
    by (rule submesh_part[where pre = "GetIndices16 b @ GetIndices16 s @ GetIndices16 c @ GetIndices16 k @ GetIndices16 f" and m = p and vb = "?V b + ?V s + ?V c + ?V k + ?V f"
          and post = "GetIndices16 w @ GetIndices16 q"])
       (simp_all add: ibuf icount vcount oks length_GetIndices16)
  have r7: "submesh_in_range geo \<lparr>SubmeshGeometry.IndexCount = ?I w,
      StartIndexLocation = ?I b + ?I s + ?I c + ?I k + ?I f + ?I p, BaseVertexLocation = int (?V b + ?V s + ?V c + ?V k + ?V f + ?V p)\<rparr>"
    by (rule submesh_part[where pre = "GetIndices16 b @ GetIndices16 s @ GetIndices16 c @ GetIndices16 k @ GetIndices16 f @ GetIndices16 p" and m = w and vb = "?V b + ?V s + ?V c + ?V k + ?V f + ?V p"
          and post = "GetIndices16 q"])
       (simp_all add: ibuf icount vcount oks length_GetIndices16)
  have r8: "submesh_in_range geo \<lparr>SubmeshGeometry.IndexCount = ?I q,
      StartIndexLocation = ?I b + ?I s + ?I c + ?I k + ?I f + ?I p + ?I w, BaseVertexLocation = int (?V b + ?V s + ?V c + ?V k + ?V f + ?V p + ?V w)\<rparr>"
    by (rule submesh_part[where pre = "GetIndices16 b @ GetIndices16 s @ GetIndices16 c @ GetIndices16 k @ GetIndices16 f @ GetIndices16 p @ GetIndices16 w" and m = q and vb = "?V b + ?V s + ?V c + ?V k + ?V f + ?V p + ?V w"
          and post = "[]"])
       (simp_all add: ibuf icount vcount oks length_GetIndices16)
  have A: "list_all (submesh_in_range geo) (map snd (DrawArgs geo))"
    unfolding args using r1 r2 r3 r4 r5 r6 r7 r8 by simp
  have B: "map fst (DrawArgs geo) =
               [''box'', ''sphere'', ''cylinder'', ''cone'', ''Pyramid_flat_head'',
                ''Pyramid_pointed_head'', ''wedge'', ''pointed_cylinder'']"
    unfolding args by simp
  from g B A show ?thesis
    by - (rule exI[of _ geo], intro conjI, assumption+)
qed

lemma MyCastleApp_BuildShapeGeometry_ranges:
  assumes ok: "list_all MeshData_ok [b, g, s, c, k, f, p, w, q, t]"
    and ft: "fits sizeof_ColorVertex [b, g, s, c, k, f, p, w, q, t]"
  shows "map fst (DrawArgs (MyCastleApp_BuildShapeGeometry Colors b g s c k f p w q t vb ib)) =
           [''box'', ''grid'', ''sphere'', ''cylinder'', ''cone'', ''Pyramid_flat_head'', ''Pyramid_pointed_head'', ''wedge'', ''pointed_cylinder'', ''gate'']
         \<and> list_all
             (submesh_in_range (MyCastleApp_BuildShapeGeometry Colors b g s c k f p w q t vb ib))
             (map snd (DrawArgs (MyCastleApp_BuildShapeGeometry Colors b g s c k f p w q t vb ib)))"
proof -
  let ?V = "\<lambda>m. length (Vertices m)"
  let ?I = "\<lambda>m. length (Indices32 m)"
  let ?geo = "MyCastleApp_BuildShapeGeometry Colors b g s c k f p w q t vb ib"
  have V: "(?V b + ?V g + ?V s + ?V c + ?V k + ?V f + ?V p + ?V w + ?V q + ?V t) * 28 < 4294967296"
    and I: "(?I b + ?I g + ?I s + ?I c + ?I k + ?I f + ?I p + ?I w + ?I q + ?I t) * 2 < 4294967296"
    using ft by (simp_all add: fits_def sizeof_ColorVertex_def sizeof_uint16_def add.assoc)
  have uV: "usize (Vertices b) = ?V b" "usize (Vertices g) = ?V g" "usize (Vertices s) = ?V s" "usize (Vertices c) = ?V c" "usize (Vertices k) = ?V k" "usize (Vertices f) = ?V f" "usize (Vertices p) = ?V p" "usize (Vertices w) = ?V w" "usize (Vertices q) = ?V q" "usize (Vertices t) = ?V t"
    using V by (simp_all add: usize_id)
  have uI: "usize (Indices32 b) = ?I b" "usize (Indices32 g) = ?I g" "usize (Indices32 s) = ?I s" "usize (Indices32 c) = ?I c" "usize (Indices32 k) = ?I k" "usize (Indices32 f) = ?I f" "usize (Indices32 p) = ?I p" "usize (Indices32 w) = ?I w" "usize (Indices32 q) = ?I q" "usize (Indices32 t) = ?I t"
    using I by (simp_all add: usize_id)
  have ibuf: "IndexBufferCPU ?geo = GetIndices16 b @ GetIndices16 g @ GetIndices16 s @ GetIndices16 c @ GetIndices16 k @ GetIndices16 f @ GetIndices16 p @ GetIndices16 w @ GetIndices16 q @ GetIndices16 t"
    by (simp add: MyCastleApp_BuildShapeGeometry_def Let_def)
  have vcount: "vertex_count ?geo = ?V b + ?V g + ?V s + ?V c + ?V k + ?V f + ?V p + ?V w + ?V q + ?V t"
    using V
    by (simp add: MyCastleApp_BuildShapeGeometry_def Let_def vertex_count_def usize_def
        sizeof_ColorVertex_def to_UINT_id)
  have icount: "index_count ?geo = length (IndexBufferCPU ?geo)"
    using I
    by (simp add: MyCastleApp_BuildShapeGeometry_def Let_def index_count_def usize_def
        sizeof_uint16_def to_UINT_id length_GetIndices16)
  have args: "DrawArgs ?geo =
     [(''box'', \<lparr>SubmeshGeometry.IndexCount = ?I b, StartIndexLocation = 0,
                 BaseVertexLocation = int (0)\<rparr>),
      (''grid'', \<lparr>SubmeshGeometry.IndexCount = ?I g, StartIndexLocation = ?I b,
                 BaseVertexLocation = int (?V b)\<rparr>),
      (''sphere'', \<lparr>SubmeshGeometry.IndexCount = ?I s, StartIndexLocation = ?I b + ?I g,
                 BaseVertexLocation = int (?V b + ?V g)\<rparr>),
      (''cylinder'', \<lparr>SubmeshGeometry.IndexCount = ?I c, StartIndexLocation = ?I b + ?I g + ?I s,
                 BaseVertexLocation = int (?V b + ?V g + ?V s)\<rparr>),
      (''cone'', \<lparr>SubmeshGeometry.IndexCount = ?I k, StartIndexLocation = ?I b + ?I g + ?I s + ?I c,
                 BaseVertexLocation = int (?V b + ?V g + ?V s + ?V c)\<rparr>),
      (''Pyramid_flat_head'', \<lparr>SubmeshGeometry.IndexCount = ?I f, StartIndexLocation = ?I b + ?I g + ?I s + ?I c + ?I k,
                 BaseVertexLocation = int (?V b + ?V g + ?V s + ?V c + ?V k)\<rparr>),
      (''Pyramid_pointed_head'', \<lparr>SubmeshGeometry.IndexCount = ?I p, StartIndexLocation = ?I b + ?I g + ?I s + ?I c + ?I k + ?I f,
                 BaseVertexLocation = int (?V b + ?V g + ?V s + ?V c + ?V k + ?V f)\<rparr>),
      (''wedge'', \<lparr>SubmeshGeometry.IndexCount = ?I w, StartIndexLocation = ?I b + ?I g + ?I s + ?I c + ?I k + ?I f + ?I p,
                 BaseVertexLocation = int (?V b + ?V g + ?V s + ?V c + ?V k + ?V f + ?V p)\<rparr>),
      (''pointed_cylinder'', \<lparr>SubmeshGeometry.IndexCount = ?I q, StartIndexLocation = ?I b + ?I g + ?I s + ?I c + ?I k + ?I f + ?I p + ?I w,
                 BaseVertexLocation = int (?V b + ?V g + ?V s + ?V c + ?V k + ?V f + ?V p + ?V w)\<rparr>),
      (''gate'', \<lparr>SubmeshGeometry.IndexCount = ?I t, StartIndexLocation = ?I b + ?I g + ?I s + ?I c + ?I k + ?I f + ?I p + ?I w + ?I q,
                 BaseVertexLocation = int (?V b + ?V g + ?V s + ?V c + ?V k + ?V f + ?V p + ?V w + ?V q)\<rparr>)]"
    using V I
    by (simp add: MyCastleApp_BuildShapeGeometry_def Let_def Submesh_def uV uI to_UINT_id
        to_INT_id)
  have oks: "MeshData_ok b" "MeshData_ok g" "MeshData_ok s" "MeshData_ok c" "MeshData_ok k" "MeshData_ok f" "MeshData_ok p" "MeshData_ok w" "MeshData_ok q" "MeshData_ok t"
    using ok by simp_all
  have r1: "submesh_in_range ?geo \<lparr>SubmeshGeometry.IndexCount = ?I b,
      StartIndexLocation = 0, BaseVertexLocation = int (0)\<rparr>"
    by (rule submesh_part[where pre = "[]" and m = b and vb = "0"
          and post = "GetIndices16 g @ GetIndices16 s @ GetIndices16 c @ GetIndices16 k @ GetIndices16 f @ GetIndices16 p @ GetIndices16 w @ GetIndices16 q @ GetIndices16 t"])
       (simp_all add: ibuf icount vcount oks length_GetIndices16)
  have r2: "submesh_in_range ?geo \<lparr>SubmeshGeometry.IndexCount = ?I g,
      StartIndexLocation = ?I b, BaseVertexLocation = int (?V b)\<rparr>"
    by (rule submesh_part[where pre = "GetIndices16 b" and m = g and vb = "?V b"
          and post = "GetIndices16 s @ GetIndices16 c @ GetIndices16 k @ GetIndices16 f @ GetIndices16 p @ GetIndices16 w @ GetIndices16 q @ GetIndices16 t"])
       (simp_all add: ibuf icount vcount oks length_GetIndices16)
  have r3: "submesh_in_range ?geo \<lparr>SubmeshGeometry.IndexCount = ?I s,
      StartIndexLocation = ?I b + ?I g, BaseVertexLocation = int (?V b + ?V g)\<rparr>"
    by (rule submesh_part[where pre = "GetIndices16 b @ GetIndices16 g" and m = s and vb = "?V b + ?V g"
          and post = "GetIndices16 c @ GetIndices16 k @ GetIndices16 f @ GetIndices16 p @ GetIndices16 w @ GetIndices16 q @ GetIndices16 t"])
       (simp_all add: ibuf icount vcount oks length_GetIndices16)
  have r4: "submesh_in_range ?geo \<lparr>SubmeshGeometry.IndexCount = ?I c,
      StartIndexLocation = ?I b + ?I g + ?I s, BaseVertexLocation = int (?V b + ?V g + ?V s)\<rparr>"
    by (rule submesh_part[where pre = "GetIndices16 b @ GetIndices16 g @ GetIndices16 s" and m = c and vb = "?V b + ?V g + ?V s"
          and post = "GetIndices16 k @ GetIndices16 f @ GetIndices16 p @ GetIndices16 w @ GetIndices16 q @ GetIndices16 t"])
       (simp_all add: ibuf icount vcount oks length_GetIndices16)
  have r5: "submesh_in_range ?geo \<lparr>SubmeshGeometry.IndexCount = ?I k,
      StartIndexLocation = ?I b + ?I g + ?I s + ?I c, BaseVertexLocation = int (?V b + ?V g + ?V s + ?V c)\<rparr>"
    by (rule submesh_part[where pre = "GetIndices16 b @ GetIndices16 g @ GetIndices16 s @ GetIndices16 c" and m = k and vb = "?V b + ?V g + ?V s + ?V c"
          and post = "GetIndices16 f @ GetIndices16 p @ GetIndices16 w @ GetIndices16 q @ GetIndices16 t"])
       (simp_all add: ibuf icount vcount oks length_GetIndices16)
  have r6: "submesh_in_range ?geo \<lparr>SubmeshGeometry.IndexCount = ?I f,
      StartIndexLocation = ?I b + ?I g + ?I s + ?I c + ?I k, BaseVertexLocation = int (?V b + ?V g + ?V s + ?V c + ?V k)\<rparr>"
    by (rule submesh_part[where pre = "GetIndices16 b @ GetIndices16 g @ GetIndices16 s @ GetIndices16 c @ GetIndices16 k" and m = f and vb = "?V b + ?V g + ?V s + ?V c + ?V k"
          and post = "GetIndices16 p @ GetIndices16 w @ GetIndices16 q @ GetIndices16 t"])
       (simp_all add: ibuf icount vcount oks length_GetIndices16)
  have r7: "submesh_in_range ?geo \<lparr>SubmeshGeometry.IndexCount = ?I p,
      StartIndexLocation = ?I b + ?I g + ?I s + ?I c + ?I k + ?I f, BaseVertexLocation = int (?V b + ?V g + ?V s + ?V c + ?V k + ?V f)\<rparr>"
    by (rule submesh_part[where pre = "GetIndices16 b @ GetIndices16 g @ GetIndices16 s @ GetIndices16 c @ GetIndices16 k @ GetIndices16 f" and m = p and vb = "?V b + ?V g + ?V s + ?V c + ?V k + ?V f"
          and post = "GetIndices16 w @ GetIndices16 q @ GetIndices16 t"])
       (simp_all add: ibuf icount vcount oks length_GetIndices16)
  have r8: "submesh_in_range ?geo \<lparr>SubmeshGeometry.IndexCount = ?I w,
      StartIndexLocation = ?I b + ?I g + ?I s + ?I c + ?I k + ?I f + ?I p, BaseVertexLocation = int (?V b + ?V g + ?V s + ?V c + ?V k + ?V f + ?V p)\<rparr>"
    by (rule submesh_part[where pre = "GetIndices16 b @ GetIndices16 g @ GetIndices16 s @ GetIndices16 c @ GetIndices16 k @ GetIndices16 f @ GetIndices16 p" and m = w and vb = "?V b + ?V g + ?V s + ?V c + ?V k + ?V f + ?V p"
          and post = "GetIndices16 q @ GetIndices16 t"])
       (simp_all add: ibuf icount vcount oks length_GetIndices16)
  have r9: "submesh_in_range ?geo \<lparr>SubmeshGeometry.IndexCount = ?I q,
      StartIndexLocation = ?I b + ?I g + ?I s + ?I c + ?I k + ?I f + ?I p + ?I w, BaseVertexLocation = int (?V b + ?V g + ?V s + ?V c + ?V k + ?V f + ?V p + ?V w)\<rparr>"
    by (rule submesh_part[where pre = "GetIndices16 b @ GetIndices16 g @ GetIndices16 s @ GetIndices16 c @ GetIndices16 k @ GetIndices16 f @ GetIndices16 p @ GetIndices16 w" and m = q and vb = "?V b + ?V g + ?V s + ?V c + ?V k + ?V f + ?V p + ?V w"
          and post = "GetIndices16 t"])
       (simp_all add: ibuf icount vcount oks length_GetIndices16)
  have r10: "submesh_in_range ?geo \<lparr>SubmeshGeometry.IndexCount = ?I t,
      StartIndexLocation = ?I b + ?I g + ?I s + ?I c + ?I k + ?I f + ?I p + ?I w + ?I q, BaseVertexLocation = int (?V b + ?V g + ?V s + ?V c + ?V k + ?V f + ?V p + ?V w + ?V q)\<rparr>"
    by (rule submesh_part[where pre = "GetIndices16 b @ GetIndices16 g @ GetIndices16 s @ GetIndices16 c @ GetIndices16 k @ GetIndices16 f @ GetIndices16 p @ GetIndices16 w @ GetIndices16 q" and m = t and vb = "?V b + ?V g + ?V s + ?V c + ?V k + ?V f + ?V p + ?V w + ?V q"
          and post = "[]"])
       (simp_all add: ibuf icount vcount oks length_GetIndices16)
  have A: "list_all (submesh_in_range ?geo) (map snd (DrawArgs ?geo))"
    unfolding args using r1 r2 r3 r4 r5 r6 r7 r8 r9 r10 by simp
  have B: "map fst (DrawArgs ?geo) = [''box'', ''grid'', ''sphere'', ''cylinder'', ''cone'', ''Pyramid_flat_head'', ''Pyramid_pointed_head'', ''wedge'', ''pointed_cylinder'', ''gate'']"
    unfolding args by simp
  from B A show ?thesis by (rule conjI)
qed

lemma BuildLandGeometry_ranges:
  assumes ok: "MeshData_ok grid" and ft: "fits sizeof_Vertex [grid]"
  shows "map fst (DrawArgs (BuildLandGeometry X grid vb ib)) = [''grid'']
         \<and> list_all (submesh_in_range (BuildLandGeometry X grid vb ib))
               (map snd (DrawArgs (BuildLandGeometry X grid vb ib)))"
proof -
  let ?geo = "BuildLandGeometry X grid vb ib"
  have V: "length (Vertices grid) * 32 < 4294967296"
    and I: "length (Indices32 grid) * 2 < 4294967296"
    using ft by (simp_all add: fits_def sizeof_Vertex_def sizeof_uint16_def)
  have ibuf: "IndexBufferCPU ?geo = [] @ GetIndices16 grid @ []"
    by (simp add: BuildLandGeometry_def Let_def)
  have vcount: "vertex_count ?geo = length (Vertices grid)"
    using V
    by (simp add: BuildLandGeometry_def Let_def vertex_count_def usize_def sizeof_Vertex_def
        to_UINT_id)
  have icount: "index_count ?geo = length (IndexBufferCPU ?geo)"
    using I
    by (simp add: BuildLandGeometry_def Let_def index_count_def usize_def sizeof_uint16_def
        to_UINT_id length_GetIndices16)
  have args: "DrawArgs ?geo =
     [(''grid'', \<lparr>SubmeshGeometry.IndexCount = length (Indices32 grid), StartIndexLocation = 0,
                   BaseVertexLocation = 0\<rparr>)]"
    using I
    by (simp add: BuildLandGeometry_def Let_def Submesh_def usize_def to_UINT_id to_INT_id
        length_GetIndices16)
  have r: "submesh_in_range ?geo \<lparr>SubmeshGeometry.IndexCount = length (Indices32 grid),
      StartIndexLocation = 0, BaseVertexLocation = 0\<rparr>"
    by (rule submesh_part[where pre = "[]" and m = grid and vb = 0 and post = "[]"])
       (simp_all add: ibuf icount vcount ok)
  show ?thesis unfolding args using r by simp
qed

lemma tree_indices:
  "[0, 1, 2, 3, 4, 5, 6, 7, 8, 9, 10, 11, 12, 13, 14, 15, 16, 17, 18, 19] = [0..<20]"
  by (simp add: upt_rec)

lemma BuildTreeSpritesGeometry_ranges:
  "map fst (DrawArgs (BuildTreeSpritesGeometry RandF vb ib)) = [''points'']
   \<and> list_all (submesh_in_range (BuildTreeSpritesGeometry RandF vb ib))
         (map snd (DrawArgs (BuildTreeSpritesGeometry RandF vb ib)))"
  unfolding BuildTreeSpritesGeometry_def Let_def tree_indices
  by (simp add: submesh_in_range_def Submesh_def usize_def to_UINT_id to_INT_id index_count_def
      vertex_count_def sizeof_uint16_def sizeof_TreeSpriteVertex_def list_all_length)

lemma length_concat_const:
  "(\<And>x. x \<in> set xs \<Longrightarrow> length (f x) = c) \<Longrightarrow> length (concat (map f xs)) = c * length xs"
  by (induction xs) simp_all

lemma wave_quad_bound:
  assumes "i < m - 1" "j < n - 1" "x \<in> set (wave_quad n i j)"
  shows "x < m * n"
proof -
  have "(i + 1) * n + j + 1 < m * n"
  proof -
    have "i + 2 \<le> m" using assms(1) by simp
    then have "(i + 2) * n \<le> m * n" by (rule mult_le_mono1)
    moreover have "(i + 1) * n + j + 1 < (i + 2) * n" using assms(2) by simp
    ultimately show ?thesis by linarith
  qed
  moreover have "x \<le> (i + 1) * n + j + 1"
  proof -
    have "a mod 65536 \<le> b" if "a \<le> b" for a b :: nat
      using that mod_less_eq_dividend[of a 65536] by linarith
    then show ?thesis using assms(3) by (auto simp add: wave_quad_def)
  qed
  ultimately show ?thesis by linarith
qed

lemma BuildWavesGeometry_ranges:
  assumes vc: "VertexCount W w = RowCount W w * ColumnCount W w"
    and tc: "TriangleCount W w = 2 * (RowCount W w - 1) * (ColumnCount W w - 1)"
    and small: "VertexCount W w < 65535"
  shows "\<exists>geo. BuildWavesGeometry W w ib = Inr geo
           \<and> map fst (DrawArgs geo) = [''grid'']
           \<and> list_all (submesh_in_range geo) (map snd (DrawArgs geo))"
proof -
  let ?m = "RowCount W w" and ?n = "ColumnCount W w"
  let ?written = "concat (map (\<lambda>i. concat (map (\<lambda>j. wave_quad ?n i j) [0..<?n - 1])) [0..<?m - 1])"
  have "length (concat (map (\<lambda>j. wave_quad ?n i j) [0..<?n - 1])) = 6 * length [0..<?n - 1]"
    for i
    by (rule length_concat_const) (simp add: wave_quad_def)
  then have inner:
    "length (concat (map (\<lambda>j. wave_quad ?n i j) [0..<?n - 1])) = 6 * (?n - 1)" for i
    by simp
  have "length ?written = (6 * (?n - 1)) * length [0..<?m - 1]"
    by (rule length_concat_const) (rule inner)
  then have len: "length ?written = 3 * TriangleCount W w"
    by (simp add: tc)
  have bound: "x < VertexCount W w" if "x \<in> set ?written" for x
    using that wave_quad_bound[of _ ?m _ ?n x] by (auto simp add: vc)
  have "(?m - 1) * (?n - 1) \<le> ?m * ?n" by (simp add: mult_le_mono)
  then have "(?m - 1) * (?n - 1) < 65535" using small vc by simp
  moreover have "length ?written = 6 * ((?m - 1) * (?n - 1))" using len tc by simp
  ultimately have lw: "length ?written < 400000" by linarith
  define geo where "geo = projr (BuildWavesGeometry W w ib)"
  have g: "BuildWavesGeometry W w ib = Inr geo"
    unfolding geo_def using small len by (simp add: BuildWavesGeometry_def Let_def)
  have ibuf: "IndexBufferCPU geo = ?written"
    unfolding geo_def using small len by (simp add: BuildWavesGeometry_def Let_def)
  have vcount: "vertex_count geo = VertexCount W w"
    unfolding geo_def using small len
    by (simp add: BuildWavesGeometry_def Let_def vertex_count_def sizeof_Vertex_def to_UINT_id)
  have icount: "index_count geo = length ?written"
    unfolding geo_def using small len lw
    by (simp add: BuildWavesGeometry_def Let_def index_count_def usize_def sizeof_uint16_def
        to_UINT_id)
  have args: "DrawArgs geo =
     [(''grid'', \<lparr>SubmeshGeometry.IndexCount = length ?written, StartIndexLocation = 0,
                   BaseVertexLocation = 0\<rparr>)]"
    unfolding geo_def using small len lw
    by (simp add: BuildWavesGeometry_def Let_def Submesh_def usize_def to_UINT_id to_INT_id)
  have r: "submesh_in_range geo \<lparr>SubmeshGeometry.IndexCount = length ?written,
      StartIndexLocation = 0, BaseVertexLocation = 0\<rparr>"
  proof -
    have "?written ! k < VertexCount W w" if "k < length ?written" for k
      by (rule bound) (rule nth_mem[OF that])
    then show ?thesis
      unfolding submesh_in_range_def by (simp add: ibuf icount vcount list_all_length)
  qed
  have A: "list_all (submesh_in_range geo) (map snd (DrawArgs geo))"
    unfolding args using r by simp
  have B: "map fst (DrawArgs geo) = [''grid'']"
    unfolding args by simp
  from g B A show ?thesis
    by - (rule exI[of _ geo], intro conjI, assumption+)
qed

text \<open>
  C6. Every submesh of the shape geometry of \<open>TreeBillboardsApp\<close> (\<open>BuildBoxGeometry\<close>),
  of the shape geometry of \<open>MyCastleApp\<close> (\<open>BuildShapeGeometry\<close>), of the land, of the
  waves and of the tree sprites is in range: its index range lies within the shared index
  buffer of the geometry, and every index of that range, added to the base vertex of the
  submesh, is the position of a vertex of the shared vertex buffer. The meshes that
  \<open>GeometryGenerator\<close> returns index their own vertices and their sizes fit the 32-bit
  arithmetic in which the offsets are accumulated; the waves have as many vertices as grid
  points and two triangles for each quad. \<open>BuildBoxGeometry\<close> completes when the pointed
  pyramid has no more vertices than the flat-headed one, from which its loop reads.
\<close>

theorem C6_submesh_ranges_valid:
  "(list_all MeshData_ok [b, s, c, k, f, p, w, q]
      \<and> fits sizeof_Vertex [b, s, c, k, f, p, w, q]
      \<and> length (Vertices p) \<le> length (Vertices f)
    \<longrightarrow> (\<exists>geo. BuildBoxGeometry b s c k f p w q vb ib = Inr geo
           \<and> map fst (DrawArgs geo) =
               [''box'', ''sphere'', ''cylinder'', ''cone'', ''Pyramid_flat_head'',
                ''Pyramid_pointed_head'', ''wedge'', ''pointed_cylinder'']
           \<and> list_all (submesh_in_range geo) (map snd (DrawArgs geo))))
   \<and> (list_all MeshData_ok [b1, g1, s1, c1, k1, f1, p1, w1, q1, t1]
        \<and> fits sizeof_ColorVertex [b1, g1, s1, c1, k1, f1, p1, w1, q1, t1]
      \<longrightarrow> map fst (DrawArgs
             (MyCastleApp_BuildShapeGeometry Colors b1 g1 s1 c1 k1 f1 p1 w1 q1 t1 vb1 ib1)) =
           [''box'', ''grid'', ''sphere'', ''cylinder'', ''cone'', ''Pyramid_flat_head'',
            ''Pyramid_pointed_head'', ''wedge'', ''pointed_cylinder'', ''gate'']
         \<and> list_all
             (submesh_in_range
               (MyCastleApp_BuildShapeGeometry Colors b1 g1 s1 c1 k1 f1 p1 w1 q1 t1 vb1 ib1))
             (map snd (DrawArgs
               (MyCastleApp_BuildShapeGeometry Colors b1 g1 s1 c1 k1 f1 p1 w1 q1 t1 vb1 ib1))))
   \<and> (MeshData_ok grid \<and> fits sizeof_Vertex [grid]
      \<longrightarrow> map fst (DrawArgs (BuildLandGeometry X grid vb2 ib2)) = [''grid'']
         \<and> list_all (submesh_in_range (BuildLandGeometry X grid vb2 ib2))
               (map snd (DrawArgs (BuildLandGeometry X grid vb2 ib2))))
   \<and> (VertexCount W wv = RowCount W wv * ColumnCount W wv
        \<and> TriangleCount W wv = 2 * (RowCount W wv - 1) * (ColumnCount W wv - 1)
        \<and> VertexCount W wv < 65535
      \<longrightarrow> (\<exists>geo. BuildWavesGeometry W wv ib3 = Inr geo
           \<and> map fst (DrawArgs geo) = [''grid'']
           \<and> list_all (submesh_in_range geo) (map snd (DrawArgs geo))))
   \<and> map fst (DrawArgs (BuildTreeSpritesGeometry RandF vb4 ib4)) = [''points'']
   \<and> list_all (submesh_in_range (BuildTreeSpritesGeometry RandF vb4 ib4))
         (map snd (DrawArgs (BuildTreeSpritesGeometry RandF vb4 ib4)))"
  using BuildBoxGeometry_ranges[of b s c k f p w q vb ib]
    MyCastleApp_BuildShapeGeometry_ranges[of b1 g1 s1 c1 k1 f1 p1 w1 q1 t1 Colors vb1 ib1]
    BuildLandGeometry_ranges[of grid X vb2 ib2]
    BuildWavesGeometry_ranges[of W wv ib3]
    BuildTreeSpritesGeometry_ranges[of RandF vb4 ib4]
  by blast

text \<open>
  The theorem at a mesh of two triangles for every shape, and at the waves of the small
  scene.
\<close>

theorem C6_submesh_ranges_valid_witness:
  "(\<exists>geo. BuildBoxGeometry demo_mesh demo_mesh demo_mesh demo_mesh demo_mesh demo_mesh demo_mesh
             demo_mesh 30 31 = Inr geo
        \<and> map fst (DrawArgs geo) =
               [''box'', ''sphere'', ''cylinder'', ''cone'', ''Pyramid_flat_head'',
                ''Pyramid_pointed_head'', ''wedge'', ''pointed_cylinder'']
        \<and> list_all (submesh_in_range geo) (map snd (DrawArgs geo)))
   \<and> list_all
         (submesh_in_range
           (MyCastleApp_BuildShapeGeometry (\<lambda>n. (0, 0, 0, 1)) demo_mesh demo_mesh demo_mesh
              demo_mesh demo_mesh demo_mesh demo_mesh demo_mesh demo_mesh demo_mesh 30 31))
         (map snd (DrawArgs
           (MyCastleApp_BuildShapeGeometry (\<lambda>n. (0, 0, 0, 1)) demo_mesh demo_mesh demo_mesh
              demo_mesh demo_mesh demo_mesh demo_mesh demo_mesh demo_mesh demo_mesh 30 31)))
   \<and> list_all (submesh_in_range (BuildLandGeometry ExactLib demo_mesh 32 33))
         (map snd (DrawArgs (BuildLandGeometry ExactLib demo_mesh 32 33)))
   \<and> (\<exists>geo. BuildWavesGeometry demo_waves 0 34 = Inr geo
        \<and> map fst (DrawArgs geo) = [''grid'']
        \<and> list_all (submesh_in_range geo) (map snd (DrawArgs geo)))"
proof -
  have ok: "MeshData_ok demo_mesh"
    by (simp add: MeshData_ok_def demo_mesh_def)
  have f8: "fits sizeof_Vertex
      [demo_mesh, demo_mesh, demo_mesh, demo_mesh, demo_mesh, demo_mesh, demo_mesh, demo_mesh]"
    by (simp add: fits_def demo_mesh_def sizeof_Vertex_def sizeof_uint16_def)
  have f10: "fits sizeof_ColorVertex
      [demo_mesh, demo_mesh, demo_mesh, demo_mesh, demo_mesh, demo_mesh, demo_mesh, demo_mesh,
       demo_mesh, demo_mesh]"
    by (simp add: fits_def demo_mesh_def sizeof_ColorVertex_def sizeof_uint16_def)
  have f1: "fits sizeof_Vertex [demo_mesh]"
    by (simp add: fits_def demo_mesh_def sizeof_Vertex_def sizeof_uint16_def)
  show ?thesis
    using C6_submesh_ranges_valid[of demo_mesh demo_mesh demo_mesh demo_mesh demo_mesh demo_mesh
        demo_mesh demo_mesh 30 31 demo_mesh demo_mesh demo_mesh demo_mesh demo_mesh demo_mesh
        demo_mesh demo_mesh demo_mesh demo_mesh "\<lambda>n. (0, 0, 0, 1)" 30 31 demo_mesh ExactLib
        32 33 demo_waves 0 34 "\<lambda>k. 0" 35 36]
    by (simp add: ok f8 f10 f1 demo_waves_def)
qed

end
